(* ===== verification/Netflix_Prelude.thy ===== *)
theory Netflix_Prelude
  imports Complex_Main "HOL-Library.List_Lexorder" "HOL-Library.Char_ord"
    "HOL-Library.Product_Lexorder"
begin

text \<open>
  Shared vocabulary of the development. A pandas float cell is a \<open>real option\<close>,
  \<open>None\<close> standing for NaN (the model computes with exact reals: floating-point
  rounding is not modelled); a year is an \<open>int\<close>, as \<open>dt.year\<close> yields. The
  collections \<open>frame_eval\<close> and \<open>share_simps\<close> gather the equations that evaluate
  the frame operations on concrete tables and the arithmetic facts the share and ratio
  proofs use. The generic lemmas bound averages of real lists by bounds of their
  elements and count filtered lists.
\<close>

named_theorems frame_eval "equations that evaluate the frame operations on concrete tables"
named_theorems share_simps "arithmetic facts of shares, ratios and averages"

type_synonym fval = "real option"
type_synonym year = int

subsection \<open>Averages of real lists\<close>

lemma sum_list_le_const: "(\<forall>x\<in>set xs. x \<le> (c::real)) \<Longrightarrow> sum_list xs \<le> c * real (length xs)"
  by (induction xs) (auto simp: algebra_simps)

lemma sum_list_ge_const: "(\<forall>x\<in>set xs. (c::real) \<le> x) \<Longrightarrow> c * real (length xs) \<le> sum_list xs"
  by (induction xs) (auto simp: algebra_simps)

lemma avg_le [share_simps]:
  "xs \<noteq> [] \<Longrightarrow> (\<forall>x\<in>set xs. x \<le> (c::real)) \<Longrightarrow> sum_list xs / real (length xs) \<le> c"
  using sum_list_le_const[of xs c] by (simp add: divide_le_eq)

lemma avg_ge [share_simps]:
  "xs \<noteq> [] \<Longrightarrow> (\<forall>x\<in>set xs. (c::real) \<le> x) \<Longrightarrow> c \<le> sum_list xs / real (length xs)"
  using sum_list_ge_const[of xs c] by (simp add: le_divide_eq)

lemma midpoint_between [share_simps]:
  "a \<le> x \<and> x \<le> b \<Longrightarrow> a \<le> y \<and> y \<le> b \<Longrightarrow> a \<le> (x + y) / 2 \<and> (x + y) / 2 \<le> (b::real)"
  by auto

lemma sum_list_indicator [share_simps]:
  "sum_list (map (\<lambda>x. if P x then 1 else 0) xs) = (real (length (filter P xs)) :: real)"
  by (induction xs) auto

lemma sum_list_nonneg_real: "(\<forall>x\<in>set xs. 0 \<le> (x::real)) \<Longrightarrow> 0 \<le> sum_list xs"
  by (induction xs) auto

lemma ratio_le_one [share_simps]: "(a::nat) \<le> b \<Longrightarrow> real a / real b \<le> 1"
  by (cases "b = 0") auto

lemma length_filter_le_length [share_simps]: "length (filter P xs) \<le> length xs"
  by (rule length_filter_le)

subsection \<open>Options and lists\<close>

lemma Some_in_map_Some_iff [simp]: "(Some x \<in> Some ` A) = (x \<in> A)"
  by auto

lemma set_concat_map_Some:
  "set [v. Some v \<leftarrow> xs] = {v. Some v \<in> set xs}"
  by (induction xs) (auto split: option.splits)

lemma length_concat_map_const:
  "(\<forall>x\<in>set xs. length (f x) = n) \<Longrightarrow> length (concat (map f xs)) = n * length xs"
  by (induction xs) auto

lemma sum_list_div: "sum_list (map (\<lambda>x. f x / (t::real)) xs) = sum_list (map f xs) / t"
  by (induction xs) (auto simp: add_divide_distrib)

lemma find_distinct_key:
  assumes "distinct (map f t)" and "r \<in> set t"
  shows "find (\<lambda>x. f x = f r) t = Some r"
  using assms by (induction t) (auto simp: image_iff)

lemma set_map2_nth:
  "z \<in> set (map2 f xs ys) \<Longrightarrow> \<exists>i<length xs. i < length ys \<and> z = f (xs ! i) (ys ! i)"
  by (auto simp: set_zip)

lemma div_succ_step:
  fixes r k :: int
  assumes "1 < k"
  shows "(r + 1) div k = r div k + (if k dvd (r + 1) then 1 else 0)"
proof -
  have e: "(r + 1) div k = r div k + (r mod k + 1) div k"
    using div_add1_eq[of r 1 k] assms by simp
  have m: "0 \<le> r mod k" "r mod k < k" using assms by simp_all
  have md: "(r + 1) mod k = (r mod k + 1) mod k" by (simp add: mod_add_left_eq)
  show ?thesis
  proof (cases "r mod k + 1 = k")
    case True
    then have "k dvd (r + 1)" using md by (simp add: dvd_eq_mod_eq_0)
    then show ?thesis using e True assms by simp
  next
    case False
    then have lt: "r mod k + 1 < k" using m by linarith
    then have "(r mod k + 1) div k = 0" using m by (simp add: div_pos_pos_trivial)
    moreover have "(r mod k + 1) mod k = r mod k + 1" using m lt by (simp add: mod_pos_pos_trivial)
    then have "\<not> k dvd (r + 1)" using md m by (simp add: dvd_eq_mod_eq_0)
    ultimately show ?thesis using e by simp
  qed
qed


end
