(* ===== verification/Pandas_Series.thy ===== *)
theory Pandas_Series
  imports Netflix_Prelude
begin

text \<open>
  The pandas Series operations that \<open>src/app/visualization.py\<close> calls on float
  columns, over \<open>fval list\<close> (a column, \<open>None\<close> for NaN): \<open>mean\<close>, \<open>sum\<close> and
  \<open>count\<close> skip NaN; \<open>pct_change\<close> pads NaN forward and divides by the previous
  value; \<open>rolling(window, min_periods).mean()\<close> averages the non-NaN cells of a
  trailing window once there are enough of them; \<open>fillna\<close> replaces NaN;
  \<open>median\<close> sorts the non-NaN cells. Lemmas: lengths, when a cell is defined,
  that every average lies between the bounds of what it averages, that a rolling window
  only looks back, and that \<open>fillna\<close> leaves no NaN.
\<close>

section \<open>Cells and reductions\<close>

definition dropna :: "fval list \<Rightarrow> real list" where
  "dropna xs = [v. Some v \<leftarrow> xs]"

definition nanmean :: "fval list \<Rightarrow> fval" where
  "nanmean xs = (let vs = dropna xs in
     if vs = [] then None else Some (sum_list vs / real (length vs)))"

definition count_valid :: "fval list \<Rightarrow> nat" where
  "count_valid xs = length (dropna xs)"

definition nanmedian :: "fval list \<Rightarrow> fval" where
  "nanmedian xs = (let vs = sort (dropna xs); n = length vs in
     if n = 0 then None
     else if odd n then Some (vs ! (n div 2))
     else Some ((vs ! (n div 2 - 1) + vs ! (n div 2)) / 2))"

section \<open>Element-wise operations\<close>

fun ffill_from :: "fval \<Rightarrow> fval list \<Rightarrow> fval list" where
  "ffill_from prev [] = []"
| "ffill_from prev (None # xs) = prev # ffill_from prev xs"
| "ffill_from prev (Some v # xs) = Some v # ffill_from (Some v) xs"

definition pct_step :: "fval \<Rightarrow> fval \<Rightarrow> fval" where
  "pct_step prev cur = (case (prev, cur) of
     (Some p, Some c) \<Rightarrow> if p = 0 then None else Some (c / p - 1)
   | _ \<Rightarrow> None)"

definition pct_change :: "fval list \<Rightarrow> fval list" where
  "pct_change xs = (let ys = ffill_from None xs in map2 pct_step (None # ys) ys)"

definition scale :: "real \<Rightarrow> fval list \<Rightarrow> fval list" where
  "scale c xs = map (map_option (\<lambda>v. v * c)) xs"

definition fillna :: "real \<Rightarrow> fval list \<Rightarrow> fval list" where
  "fillna c xs = map (\<lambda>x. Some (case x of None \<Rightarrow> c | Some v \<Rightarrow> v)) xs"

section \<open>Trailing rolling windows\<close>

definition window :: "nat \<Rightarrow> nat \<Rightarrow> 'a list \<Rightarrow> 'a list" where
  "window w i xs = drop (Suc i - w) (take (Suc i) xs)"

definition roll_mean_at :: "nat \<Rightarrow> fval list \<Rightarrow> fval" where
  "roll_mean_at minp ws = (let vs = dropna ws in
     if vs \<noteq> [] \<and> minp \<le> length vs then Some (sum_list vs / real (length vs)) else None)"

definition rolling_mean :: "nat \<Rightarrow> nat \<Rightarrow> fval list \<Rightarrow> fval list" where
  "rolling_mean w minp xs = map (\<lambda>i. roll_mean_at minp (window w i xs)) [0..<length xs]"

declare dropna_def [frame_eval] nanmean_def [frame_eval]
  count_valid_def [frame_eval] nanmedian_def [frame_eval] pct_step_def [frame_eval]
  pct_change_def [frame_eval] scale_def [frame_eval] fillna_def [frame_eval]
  window_def [frame_eval] roll_mean_at_def [frame_eval] rolling_mean_def [frame_eval]

section \<open>Lemmas on reductions\<close>

lemma set_dropna [simp]: "set (dropna xs) = {v. Some v \<in> set xs}"
  unfolding dropna_def by (rule set_concat_map_Some)

lemma dropna_map_Some [simp]: "dropna (map Some vs) = vs"
  by (induction vs) (auto simp: dropna_def)

lemma dropna_append [simp]: "dropna (xs @ ys) = dropna xs @ dropna ys"
  by (simp add: dropna_def)

lemma dropna_Nil_iff: "dropna xs = [] \<longleftrightarrow> (\<forall>x\<in>set xs. x = None)"
  by (induction xs) (auto simp: dropna_def split: option.splits)

lemma length_dropna_le: "length (dropna xs) \<le> length xs"
  by (induction xs) (auto simp: dropna_def split: option.splits)

lemma length_dropna_no_nan: "None \<notin> set xs \<Longrightarrow> length (dropna xs) = length xs"
proof (induction xs)
  case (Cons x xs)
  then show ?case by (cases x) (auto simp: dropna_def)
qed (simp add: dropna_def)

lemma nanmean_None_iff: "nanmean xs = None \<longleftrightarrow> (\<forall>x\<in>set xs. x = None)"
  by (simp add: nanmean_def Let_def dropna_Nil_iff)

lemma nanmean_map_Some:
  "vs \<noteq> [] \<Longrightarrow> nanmean (map Some vs) = Some (sum_list vs / real (length vs))"
  by (simp add: nanmean_def)

text \<open>Every average the model takes lies between bounds of the values it averages.\<close>

lemma avg_between:
  assumes "vs \<noteq> []" and "\<forall>v\<in>set vs. a \<le> v \<and> v \<le> (b::real)"
  shows "a \<le> sum_list vs / real (length vs) \<and> sum_list vs / real (length vs) \<le> b"
  using assms avg_le[of vs b] avg_ge[of vs a] by auto

lemma nanmean_between:
  assumes "nanmean xs = Some m" and "\<forall>v. Some v \<in> set xs \<longrightarrow> a \<le> v \<and> v \<le> b"
  shows "a \<le> m \<and> m \<le> b"
proof -
  from assms(1) have ne: "dropna xs \<noteq> []" and m: "m = sum_list (dropna xs) / real (length (dropna xs))"
    by (auto simp: nanmean_def Let_def split: if_splits)
  from assms(2) have "\<forall>v\<in>set (dropna xs). a \<le> v \<and> v \<le> b" by simp
  with ne show ?thesis unfolding m by (rule avg_between)
qed

lemma nanmedian_between:
  assumes "nanmedian xs = Some m" and "\<forall>v. Some v \<in> set xs \<longrightarrow> a \<le> v \<and> v \<le> b"
  shows "a \<le> m \<and> m \<le> b"
proof -
  let ?vs = "sort (dropna xs)"
  have inb: "\<forall>v\<in>set ?vs. a \<le> v \<and> v \<le> b" using assms(2) by simp
  have nth_in: "i < length ?vs \<Longrightarrow> a \<le> ?vs ! i \<and> ?vs ! i \<le> b" for i
    using inb nth_mem by blast
  from assms(1) have n: "length ?vs \<noteq> 0" by (auto simp: nanmedian_def Let_def split: if_splits)
  then have ne: "?vs \<noteq> []" by (metis list.size(3))
  show ?thesis
  proof (cases "odd (length ?vs)")
    case True
    with assms(1) ne have "m = ?vs ! (length ?vs div 2)"
      by (auto simp: nanmedian_def Let_def)
    moreover have "length ?vs div 2 < length ?vs" using n by simp
    ultimately show ?thesis using nth_in by blast
  next
    case False
    with assms(1) ne have m: "m = (?vs ! (length ?vs div 2 - 1) + ?vs ! (length ?vs div 2)) / 2"
      by (auto simp: nanmedian_def Let_def)
    have h: "length ?vs div 2 < length ?vs" using n by simp
    then have "length ?vs div 2 - 1 < length ?vs" by (rule less_imp_diff_less)
    then have "a \<le> ?vs ! (length ?vs div 2 - 1) \<and> ?vs ! (length ?vs div 2 - 1) \<le> b"
      and "a \<le> ?vs ! (length ?vs div 2) \<and> ?vs ! (length ?vs div 2) \<le> b"
      using nth_in h by blast+
    then show ?thesis unfolding m by (rule midpoint_between)
  qed
qed

section \<open>Lemmas on element-wise operations\<close>

lemma length_ffill_from [simp]: "length (ffill_from p xs) = length xs"
  by (induction p xs rule: ffill_from.induct) auto

lemma ffill_from_map_Some [simp]: "ffill_from p (map Some vs) = map Some vs"
  by (induction vs arbitrary: p) auto

lemma length_pct_change [simp]: "length (pct_change xs) = length xs"
  by (simp add: pct_change_def Let_def)

lemma pct_change_Cons_first: "pct_change (x # xs) ! 0 = None"
  by (cases x) (simp_all add: pct_change_def pct_step_def)

lemma pct_change_map_Some_Suc:
  assumes "Suc i < length vs"
  shows "pct_change (map Some vs) ! Suc i =
           (if vs ! i = 0 then None else Some (vs ! Suc i / vs ! i - 1))"
  using assms by (simp add: pct_change_def pct_step_def Let_def nth_zip)

lemma length_scale [simp]: "length (scale c xs) = length xs"
  by (simp add: scale_def)

lemma length_fillna [simp]: "length (fillna c xs) = length xs"
  by (simp add: fillna_def)

lemma fillna_no_nan: "None \<notin> set (fillna c xs)"
  by (auto simp: fillna_def)

lemma fillna_nth:
  "i < length xs \<Longrightarrow> fillna c xs ! i = Some (case xs ! i of None \<Rightarrow> c | Some v \<Rightarrow> v)"
  by (simp add: fillna_def)

section \<open>Lemmas on rolling windows\<close>

lemma length_rolling_mean [simp]: "length (rolling_mean w m xs) = length xs"
  by (simp add: rolling_mean_def)

lemma rolling_mean_nth:
  "i < length xs \<Longrightarrow> rolling_mean w m xs ! i = roll_mean_at m (window w i xs)"
  by (simp add: rolling_mean_def)

lemma length_window:
  "i < length xs \<Longrightarrow> length (window w i xs) = min w (Suc i)"
  by (simp add: window_def)

lemma window_take: "i < n \<Longrightarrow> window w i (take n xs) = window w i xs"
  by (simp add: window_def min_absorb1)

lemma set_window: "set (window w i xs) \<subseteq> set xs"
  unfolding window_def by (meson in_set_dropD in_set_takeD subsetI)

lemma window_subset: "Some v \<in> set (window w i xs) \<Longrightarrow> Some v \<in> set xs"
  using set_window by (rule subsetD)

text \<open>The window trails: the first \<open>n\<close> cells of a rolling mean depend only on the
  first \<open>n\<close> cells of its input.\<close>

lemma take_upt_0 [simp]: "take n [0..<k] = [0..<min k n]"
  by (cases "n \<le> k") (simp_all add: min_def)
lemma take_rolling_mean: "take n (rolling_mean w m xs) = rolling_mean w m (take n xs)"
proof -
  have "take n (rolling_mean w m xs) =
          map (\<lambda>i. roll_mean_at m (window w i xs)) [0..<min (length xs) n]"
    by (simp add: rolling_mean_def take_map take_upt_0)
  also have "\<dots> = map (\<lambda>i. roll_mean_at m (window w i (take n xs))) [0..<min (length xs) n]"
    by (rule map_cong) (simp_all add: window_take)
  finally show ?thesis by (simp add: rolling_mean_def)
qed

lemma roll_mean_at_None_iff:
  "roll_mean_at m ws = None \<longleftrightarrow> count_valid ws = 0 \<or> count_valid ws < m"
  by (auto simp: roll_mean_at_def count_valid_def Let_def)

lemma roll_mean_at_nanmean: "roll_mean_at m ws = Some r \<Longrightarrow> nanmean ws = Some r"
  unfolding roll_mean_at_def nanmean_def Let_def by (simp split: if_splits)

lemma roll_mean_at_between:
  assumes "roll_mean_at m ws = Some r" and "\<forall>v. Some v \<in> set ws \<longrightarrow> a \<le> v \<and> v \<le> b"
  shows "a \<le> r \<and> r \<le> b"
  using roll_mean_at_nanmean[OF assms(1)] assms(2) by (rule nanmean_between)

lemma rolling_mean_between:
  assumes "rolling_mean w m xs ! i = Some r" and "i < length xs"
    and "\<forall>v. Some v \<in> set xs \<longrightarrow> a \<le> v \<and> v \<le> b"
  shows "a \<le> r \<and> r \<le> b"
proof (rule roll_mean_at_between)
  show "roll_mean_at m (window w i xs) = Some r" using assms(1,2) by (simp add: rolling_mean_nth)
  show "\<forall>v. Some v \<in> set (window w i xs) \<longrightarrow> a \<le> v \<and> v \<le> b"
  proof (intro allI impI)
    fix v assume "Some v \<in> set (window w i xs)"
    then have "Some v \<in> set xs" by (rule window_subset)
    with assms(3) show "a \<le> v \<and> v \<le> b" by simp
  qed
qed

text \<open>Before \<open>min_periods\<close> cells have been seen the mean is NaN.\<close>

lemma rolling_mean_warmup:
  assumes "i < length xs" and "Suc i < m"
  shows "rolling_mean w m xs ! i = None"
proof -
  have "count_valid (window w i xs) \<le> length (window w i xs)"
    by (simp add: count_valid_def length_dropna_le)
  also have "\<dots> \<le> Suc i" using assms(1) by (simp add: length_window)
  finally have "count_valid (window w i xs) < m" using assms(2) by linarith
  then show ?thesis using assms(1) by (simp add: rolling_mean_nth roll_mean_at_None_iff)
qed


text \<open>With \<open>min_periods\<close> at most 1, a rolling mean of a column without NaN has none.\<close>

lemma window_no_nan: "None \<notin> set xs \<Longrightarrow> None \<notin> set (window w i xs)"
  using set_window by (metis subsetD)

lemma rolling_mean_no_nan:
  assumes "0 < w" and "m \<le> 1" and "None \<notin> set xs"
  shows "None \<notin> set (rolling_mean w m xs)"
proof
  assume "None \<in> set (rolling_mean w m xs)"
  then obtain i where i: "i < length xs" and n: "rolling_mean w m xs ! i = None"
    by (auto simp: in_set_conv_nth)
  have "count_valid (window w i xs) = length (window w i xs)"
    using window_no_nan[OF assms(3)] by (simp add: count_valid_def length_dropna_no_nan)
  also have "\<dots> = min w (Suc i)" using i by (rule length_window)
  finally have "0 < count_valid (window w i xs)" using assms(1) by simp
  with n i assms(2) show False by (simp add: rolling_mean_nth roll_mean_at_None_iff)
qed

lemma rolling_mean_nth_Some:
  assumes "0 < w" and "m \<le> 1" and "None \<notin> set xs" and "i < length xs"
  shows "\<exists>v. rolling_mean w m xs ! i = Some v"
proof -
  have "rolling_mean w m xs ! i \<in> set (rolling_mean w m xs)" using assms(4) by simp
  moreover have "None \<notin> set (rolling_mean w m xs)" using assms(1-3) by (rule rolling_mean_no_nan)
  ultimately have "rolling_mean w m xs ! i \<noteq> None" by metis
  then show ?thesis by blast
qed

lemma window_one: "i < length xs \<Longrightarrow> window 1 i xs = [xs ! i]"
  by (simp add: window_def take_Suc_conv_app_nth)

lemma rolling_mean_window_one: "m \<le> 1 \<Longrightarrow> rolling_mean 1 m xs = xs"
proof (rule nth_equalityI)
  fix i assume m: "m \<le> 1" and i: "i < length (rolling_mean 1 m xs)"
  from i have w: "window (Suc 0) i xs = [xs ! i]" using window_one[of i xs] by simp
  show "rolling_mean 1 m xs ! i = xs ! i"
    using i m by (cases "xs ! i") (simp_all add: rolling_mean_nth w roll_mean_at_def dropna_def)
qed simp

lemma dropna_sum_filter_le:
  "(\<forall>r\<in>set xs. \<forall>v. f r = Some v \<longrightarrow> 0 \<le> v)
   \<Longrightarrow> sum_list (dropna (map f (filter P xs))) \<le> sum_list (dropna (map f xs))"
  by (induction xs) (auto simp: dropna_def split: option.splits)

lemma nanmedian_in_range:
  assumes "nanmedian xs = Some v"
  shows "\<exists>a b. Some a \<in> set xs \<and> Some b \<in> set xs \<and> a \<le> v \<and> v \<le> b"
proof -
  let ?vs = "dropna xs"
  have ne: "?vs \<noteq> []" using assms by (auto simp: nanmedian_def Let_def split: if_splits)
  have "Min (set ?vs) \<le> v \<and> v \<le> Max (set ?vs)"
  proof (rule nanmedian_between[OF assms], intro allI impI)
    fix u assume "Some u \<in> set xs"
    then have u: "u \<in> set ?vs" by simp
    show "Min (set ?vs) \<le> u \<and> u \<le> Max (set ?vs)"
      using Min_le[OF List.finite_set u] Max_ge[OF List.finite_set u] by blast
  qed
  moreover have "set ?vs \<noteq> {}" using ne by (simp del: set_dropna)
  then have "Min (set ?vs) \<in> set ?vs" "Max (set ?vs) \<in> set ?vs"
    by (simp_all del: set_dropna)
  ultimately show ?thesis by auto
qed

end
