(* ===== verification/Release_Dates.thy ===== *)
theory Release_Dates
  imports Netflix_Prelude
begin

text \<open>
  The \<open>release_date\<close> column: \<open>pd.to_datetime\<close> turns a text cell into a
  calendar date, a NaT (\<open>None\<close>) for an empty cell, and either raises
  (\<open>visualization.py\<close> lines 13 and 399) or yields NaT (\<open>errors="coerce"\<close>, line
  479) on text it cannot read. The model reads the ISO form \<open>YYYY-MM-DD\<close> that the
  merged CSV carries, checks the calendar, and keeps pandas' nanosecond Timestamp range
  (1677-09-22 to 2262-04-11 for midnight dates). Also here: the order on dates that the
  comparisons \<open>release_date < "2010"\<close> and \<open>> "2015"\<close> use (the string is read as
  midnight on 1 January), and the calendar quarter of \<open>resample("QE")\<close>. The main
  lemma is the round trip: printing a valid date and reading it back gives the date.
\<close>

record date =
  d_year :: int
  d_month :: int
  d_day :: int

definition is_leap :: "int \<Rightarrow> bool" where
  "is_leap y \<longleftrightarrow> 4 dvd y \<and> (\<not> 100 dvd y \<or> 400 dvd y)"

definition days_in_month :: "int \<Rightarrow> int \<Rightarrow> int" where
  "days_in_month y m =
     (if m = 2 then (if is_leap y then 29 else 28)
      else if m \<in> {4, 6, 9, 11} then 30 else 31)"

definition date_le :: "date \<Rightarrow> date \<Rightarrow> bool" where
  "date_le a b \<longleftrightarrow> (d_year a, d_month a, d_day a) \<le> (d_year b, d_month b, d_day b)"

definition date_lt :: "date \<Rightarrow> date \<Rightarrow> bool" where
  "date_lt a b \<longleftrightarrow> (d_year a, d_month a, d_day a) < (d_year b, d_month b, d_day b)"

definition year_start :: "int \<Rightarrow> date" where
  "year_start y = \<lparr>d_year = y, d_month = 1, d_day = 1\<rparr>"

definition ts_min :: date where "ts_min = \<lparr>d_year = 1677, d_month = 9, d_day = 22\<rparr>"
definition ts_max :: date where "ts_max = \<lparr>d_year = 2262, d_month = 4, d_day = 11\<rparr>"

definition valid_date :: "date \<Rightarrow> bool" where
  "valid_date d \<longleftrightarrow> 1 \<le> d_month d \<and> d_month d \<le> 12 \<and> 1 \<le> d_day d
     \<and> d_day d \<le> days_in_month (d_year d) (d_month d)
     \<and> date_le ts_min d \<and> date_le d ts_max"

definition quarter :: "date \<Rightarrow> int \<times> int" where
  "quarter d = (d_year d, (d_month d + 2) div 3)"

section \<open>Reading and printing ISO dates\<close>

definition is_digit :: "char \<Rightarrow> bool" where
  "is_digit c \<longleftrightarrow> (48::nat) \<le> of_char c \<and> of_char c \<le> (57::nat)"

fun digits_acc :: "nat \<Rightarrow> string \<Rightarrow> nat option" where
  "digits_acc acc [] = Some acc"
| "digits_acc acc (c # cs) =
     (if is_digit c then digits_acc (10 * acc + (of_char c - 48)) cs else None)"

fun show_digits :: "nat \<Rightarrow> nat \<Rightarrow> string" where
  "show_digits 0 n = []"
| "show_digits (Suc w) n = show_digits w (n div 10) @ [char_of (48 + n mod 10)]"

definition parse_iso_date :: "string \<Rightarrow> date option" where
  "parse_iso_date s =
     (if length s = 10 \<and> s ! 4 = CHR ''-'' \<and> s ! 7 = CHR ''-'' then
        (case (digits_acc 0 (take 4 s), digits_acc 0 (take 2 (drop 5 s)), digits_acc 0 (drop 8 s)) of
           (Some y, Some m, Some dd) \<Rightarrow>
             (let d = \<lparr>d_year = int y, d_month = int m, d_day = int dd\<rparr>
              in if valid_date d then Some d else None)
         | _ \<Rightarrow> None)
      else None)"

definition show_iso_date :: "date \<Rightarrow> string" where
  "show_iso_date d = show_digits 4 (nat (d_year d)) @ ''-'' @ show_digits 2 (nat (d_month d))
     @ ''-'' @ show_digits 2 (nat (d_day d))"

text \<open>\<open>pd.to_datetime\<close> on one cell, strict (raises: \<open>Inl\<close> with the text) and
  with \<open>errors="coerce"\<close> (NaT).\<close>

definition to_datetime :: "string option \<Rightarrow> string + date option" where
  "to_datetime c = (case c of
     None \<Rightarrow> Inr None
   | Some s \<Rightarrow> (case parse_iso_date s of None \<Rightarrow> Inl s | Some d \<Rightarrow> Inr (Some d)))"

definition to_datetime_coerce :: "string option \<Rightarrow> date option" where
  "to_datetime_coerce c = (case c of None \<Rightarrow> None | Some s \<Rightarrow> parse_iso_date s)"

declare is_leap_def [frame_eval] days_in_month_def [frame_eval] date_le_def [frame_eval]
  date_lt_def [frame_eval] year_start_def [frame_eval] ts_min_def [frame_eval]
  ts_max_def [frame_eval] valid_date_def [frame_eval] quarter_def [frame_eval]
  is_digit_def [frame_eval] parse_iso_date_def [frame_eval] show_iso_date_def [frame_eval]
  to_datetime_def [frame_eval] to_datetime_coerce_def [frame_eval]

section \<open>Lemmas\<close>

lemma digit_chars [frame_eval]:
  "char_of (48::nat) = CHR ''0''" "char_of (49::nat) = CHR ''1''" "char_of (50::nat) = CHR ''2''"
  "char_of (51::nat) = CHR ''3''" "char_of (52::nat) = CHR ''4''" "char_of (53::nat) = CHR ''5''"
  "char_of (54::nat) = CHR ''6''" "char_of (55::nat) = CHR ''7''" "char_of (56::nat) = CHR ''8''"
  "char_of (57::nat) = CHR ''9''"
  by (simp_all add: char_of_def bit_simps)

lemma show_digits_2 [frame_eval]: "show_digits 2 n = [char_of (48 + n div 10 mod 10), char_of (48 + n mod 10)]"
  by (simp add: numeral_2_eq_2)

lemma digits_acc_append:
  "digits_acc acc (xs @ ys) = (case digits_acc acc xs of None \<Rightarrow> None | Some a \<Rightarrow> digits_acc a ys)"
  by (induction acc xs rule: digits_acc.induct) auto

lemma length_show_digits [simp]: "length (show_digits w n) = w"
  by (induction w arbitrary: n) auto

lemma is_digit_char_of: "(k::nat) < 10 \<Longrightarrow> is_digit (char_of (48 + k))"
  by (simp add: is_digit_def)

lemma of_char_digit: "(k::nat) < 10 \<Longrightarrow> of_char (char_of (48 + k) :: char) = 48 + k"
  by (simp add: of_char_of)

lemma digits_acc_show_digits:
  "digits_acc acc (show_digits w n) = Some (acc * 10 ^ w + n mod 10 ^ w)"
proof (induction w arbitrary: acc n)
  case 0
  then show ?case by simp
next
  case (Suc w)
  have d: "n mod 10 < 10" by simp
  have "n mod 10 ^ Suc w = 10 * (n div 10 mod 10 ^ w) + n mod 10"
    by (simp add: mod_mult2_eq)
  then show ?case
    using Suc.IH is_digit_char_of[OF d] of_char_digit[OF d]
    by (simp add: digits_acc_append algebra_simps)
qed

lemma digits_acc_show_digits_small:
  "n < 10 ^ w \<Longrightarrow> digits_acc 0 (show_digits w n) = Some n"
  by (simp add: digits_acc_show_digits)

lemma valid_date_ranges:
  assumes "valid_date d"
  shows "1677 \<le> d_year d \<and> d_year d \<le> 2262 \<and> 1 \<le> d_month d \<and> d_month d \<le> 12
         \<and> 1 \<le> d_day d \<and> d_day d \<le> 31"
proof -
  have "days_in_month (d_year d) (d_month d) \<le> 31" by (simp add: days_in_month_def)
  with assms show ?thesis
    by (auto simp: valid_date_def date_le_def ts_min_def ts_max_def less_eq_prod_def less_prod_def)
qed

lemma show_iso_date_parts:
  fixes d :: date
  defines "s \<equiv> show_iso_date d"
  shows "length s = 10" and "s ! 4 = CHR ''-''" and "s ! 7 = CHR ''-''"
    and "take 4 s = show_digits 4 (nat (d_year d))"
    and "take 2 (drop 5 s) = show_digits 2 (nat (d_month d))"
    and "drop 8 s = show_digits 2 (nat (d_day d))"
  unfolding s_def show_iso_date_def by (simp_all add: nth_append)

text \<open>Reading back a printed date. For every date that pandas can hold
  (a calendar date inside the Timestamp range), printing it in ISO form and reading the
  text with the loader's parser gives the same date.\<close>

theorem parse_show_iso_date:
  assumes "valid_date d"
  shows "parse_iso_date (show_iso_date d) = Some d"
proof -
  note r = valid_date_ranges[OF assms]
  have y: "digits_acc 0 (show_digits 4 (nat (d_year d))) = Some (nat (d_year d))"
    using r by (intro digits_acc_show_digits_small) (simp add: nat_less_iff)
  have m: "digits_acc 0 (show_digits 2 (nat (d_month d))) = Some (nat (d_month d))"
    using r by (intro digits_acc_show_digits_small) (simp add: nat_less_iff)
  have dd: "digits_acc 0 (show_digits 2 (nat (d_day d))) = Some (nat (d_day d))"
    using r by (intro digits_acc_show_digits_small) (simp add: nat_less_iff)
  have rec: "\<lparr>d_year = d_year d, d_month = d_month d, d_day = d_day d\<rparr> = d"
    by (cases d) simp
  have pos: "0 \<le> d_year d" "0 \<le> d_month d" "0 \<le> d_day d" using r by linarith+
  show ?thesis
    unfolding parse_iso_date_def
    by (simp only: show_iso_date_parts y m dd) (simp add: pos rec assms)
qed
theorem parse_show_iso_date_witness:
  "valid_date \<lparr>d_year = 2019, d_month = 2, d_day = 28\<rparr> \<and>
   parse_iso_date (show_iso_date \<lparr>d_year = 2019, d_month = 2, d_day = 28\<rparr>) =
     Some \<lparr>d_year = 2019, d_month = 2, d_day = 28\<rparr>"
proof -
  have v: "valid_date \<lparr>d_year = 2019, d_month = 2, d_day = 28\<rparr>" by (simp add: frame_eval)
  show ?thesis using v parse_show_iso_date[OF v] by simp
qed

end
