(* ===== verification/Content_Table.thy ===== *)
theory Content_Table
  imports Pandas_Series Release_Dates
begin

text \<open>
  The loaded table \<open>df\<close> of \<open>src/app/visualization.py\<close> (lines 12--14): one
  \<open>row\<close> per title of the merged CSV, with the columns the charts read. Text cells
  that may be empty are \<open>string option\<close>, float cells \<open>fval\<close>. A
  \<open>raw_row\<close> is a record as \<open>pd.read_csv\<close> returns it (the reader is
  \<open>Csv_Tokenizer\<close> and \<open>Csv_Frame\<close>), with the date still text. \<open>load_rows\<close> is lines 13--14 (strict
  \<open>pd.to_datetime\<close>, then \<open>year = release_date.dt.year\<close>) and fails with the
  first text it cannot read as a date.

  The second half is pandas' \<open>groupby\<close>: the keys are the distinct non-NaN values of
  the key column, sorted (\<open>sort=True\<close>, \<open>dropna=True\<close>), and each group is the
  rows with that key in table order; and \<open>explode\<close>, which repeats a row once per
  element of a list cell. Lemmas: the keys are sorted and distinct, every group is
  non-empty, and the groups partition the rows whose key is defined.
\<close>

record raw_row =
  r_title :: "string option"
  r_type :: "string option"
  r_release_date :: "string option"
  r_genres :: "string option"
  r_country :: "string option"
  r_imdb_score :: fval
  r_imdb_votes :: fval
  r_close :: fval
  r_volatility :: fval

record row =
  title :: "string option"
  ctype :: "string option"
  release_date :: "date option"
  year :: "year option"
  genres :: "string option"
  country :: "string option"
  imdb_score :: fval
  imdb_votes :: fval
  close :: fval
  volatility :: fval

text \<open>The errors of loading the data: an unreadable date (\<open>pd.to_datetime\<close>), the
  tokenizer's \<open>ParserError\<close>s (end of text inside a quoted field, a record with too many
  fields: the expected and the seen count), \<open>EmptyDataError\<close> (no header), the
  \<open>KeyError\<close> of a missing column and the \<open>TypeError\<close> of arithmetic on a text
  column (see \<open>Csv_Frame\<close>).\<close>

datatype load_error = DateParseError string | EOFInsideString | TooManyFields nat nat | EmptyData
  | MissingColumn string | NonNumericColumn string

definition mk_row :: "raw_row \<Rightarrow> date option \<Rightarrow> row" where
  "mk_row r d = \<lparr>title = r_title r, ctype = r_type r, release_date = d,
     year = map_option d_year d, genres = r_genres r, country = r_country r,
     imdb_score = r_imdb_score r, imdb_votes = r_imdb_votes r, close = r_close r,
     volatility = r_volatility r\<rparr>"

fun load_rows :: "raw_row list \<Rightarrow> load_error + row list" where
  "load_rows [] = Inr []"
| "load_rows (r # rs) =
     (case to_datetime (r_release_date r) of
        Inl s \<Rightarrow> Inl (DateParseError s)
      | Inr d \<Rightarrow> (case load_rows rs of Inl e \<Rightarrow> Inl e | Inr ys \<Rightarrow> Inr (mk_row r d # ys)))"

definition year_derived :: "row \<Rightarrow> bool" where
  "year_derived r \<longleftrightarrow> year r = map_option d_year (release_date r)"

definition with_year :: "row \<Rightarrow> row" where
  "with_year r = r\<lparr>year := map_option d_year (release_date r)\<rparr>"

section \<open>Group-by and explode\<close>

definition group_keys :: "('r \<Rightarrow> 'k::linorder option) \<Rightarrow> 'r list \<Rightarrow> 'k list" where
  "group_keys key rs = sort (remdups [k. Some k \<leftarrow> map key rs])"

definition group_rows :: "('r \<Rightarrow> 'k option) \<Rightarrow> 'r list \<Rightarrow> 'k \<Rightarrow> 'r list" where
  "group_rows key rs k = filter (\<lambda>r. key r = Some k) rs"

definition groupby :: "('r \<Rightarrow> 'k::linorder option) \<Rightarrow> ('r list \<Rightarrow> 'v) \<Rightarrow> 'r list \<Rightarrow> ('k \<times> 'v) list" where
  "groupby key agg rs = map (\<lambda>k. (k, agg (group_rows key rs k))) (group_keys key rs)"

text \<open>\<open>Series.unique()\<close>: the distinct values in the order of their first occurrence.\<close>

definition unique :: "'a list \<Rightarrow> 'a list" where
  "unique xs = rev (remdups (rev xs))"

definition explode :: "('r \<Rightarrow> 'a list) \<Rightarrow> ('a \<Rightarrow> 'r \<Rightarrow> 'r) \<Rightarrow> 'r list \<Rightarrow> 'r list" where
  "explode cell put rs = concat (map (\<lambda>r. map (\<lambda>v. put v r) (cell r)) rs)"

text \<open>A row of a concrete table, for the witnesses: a titled movie released on
  1 June of a year, with a score and a closing price.\<close>

definition sample_row :: "year \<Rightarrow> real \<Rightarrow> real \<Rightarrow> row" where
  "sample_row y s c = \<lparr>title = Some ''t'', ctype = Some ''MOVIE'',
     release_date = Some \<lparr>d_year = y, d_month = 6, d_day = 1\<rparr>, year = Some y,
     genres = None, country = None, imdb_score = Some s, imdb_votes = None,
     close = Some c, volatility = None\<rparr>"

declare sample_row_def [frame_eval] mk_row_def [frame_eval] group_keys_def [frame_eval] group_rows_def [frame_eval]
  groupby_def [frame_eval] explode_def [frame_eval] unique_def [frame_eval] with_year_def [frame_eval]

section \<open>Lemmas on loading\<close>

lemma load_rows_Inr_length: "load_rows rs = Inr ys \<Longrightarrow> length ys = length rs"
  by (induction rs arbitrary: ys) (auto split: sum.splits)

lemma load_rows_year_derived: "load_rows rs = Inr ys \<Longrightarrow> \<forall>r\<in>set ys. year_derived r"
  by (induction rs arbitrary: ys) (auto simp: year_derived_def mk_row_def split: sum.splits)

lemma year_derived_with_year [simp]: "year_derived (with_year r)"
  by (simp add: year_derived_def with_year_def)

section \<open>Lemmas on group-by\<close>

lemma set_group_keys [simp]: "set (group_keys key rs) = {k. \<exists>r\<in>set rs. key r = Some k}"
  by (auto simp: group_keys_def set_concat_map_Some)

lemma sorted_group_keys: "sorted (group_keys key rs)"
  by (simp add: group_keys_def)

lemma distinct_group_keys: "distinct (group_keys key rs)"
  by (simp add: group_keys_def)

lemma group_rows_nonempty: "k \<in> set (group_keys key rs) \<Longrightarrow> group_rows key rs k \<noteq> []"
  by (auto simp: group_rows_def filter_empty_conv)

lemma map_fst_groupby [simp]: "map fst (groupby key agg rs) = group_keys key rs"
  by (simp add: groupby_def comp_def)

lemma length_groupby [simp]: "length (groupby key agg rs) = length (group_keys key rs)"
  by (simp add: groupby_def)

lemma groupby_member:
  "(k, v) \<in> set (groupby key agg rs) \<longleftrightarrow> k \<in> set (group_keys key rs) \<and> v = agg (group_rows key rs k)"
  by (auto simp: groupby_def)

lemma sum_group_sizes:
  "finite K \<Longrightarrow> (\<Sum>k\<in>K. length (filter (\<lambda>r. key r = Some k) rs))
     = length (filter (\<lambda>r. \<exists>k\<in>K. key r = Some k) rs)"
proof (induction rs)
  case Nil
  then show ?case by simp
next
  case (Cons r rs)
  have "(\<Sum>k\<in>K. length (filter (\<lambda>r. key r = Some k) (r # rs)))
      = (\<Sum>k\<in>K. (if key r = Some k then 1 else 0) + length (filter (\<lambda>r. key r = Some k) rs))"
    by (rule sum.cong) auto
  also have "\<dots> = (\<Sum>k\<in>K. (if key r = Some k then 1 else 0)) + (\<Sum>k\<in>K. length (filter (\<lambda>r. key r = Some k) rs))"
    by (rule sum.distrib)
  also have "(\<Sum>k\<in>K. (if key r = Some k then 1 else (0::nat))) = (if \<exists>k\<in>K. key r = Some k then 1 else 0)"
    using Cons.prems by (cases "key r") (auto simp: sum.delta)
  finally show ?case using Cons by simp
qed

text \<open>The groups partition the rows whose key is defined.\<close>

lemma groupby_partition:
  "sum_list (map (\<lambda>k. length (group_rows key rs k)) (group_keys key rs))
     = length (filter (\<lambda>r. key r \<noteq> None) rs)"
proof -
  have "sum_list (map (\<lambda>k. length (group_rows key rs k)) (group_keys key rs))
      = (\<Sum>k\<in>set (group_keys key rs). length (filter (\<lambda>r. key r = Some k) rs))"
    by (simp add: sum_list_distinct_conv_sum_set distinct_group_keys group_rows_def)
  also have "\<dots> = length (filter (\<lambda>r. \<exists>k\<in>set (group_keys key rs). key r = Some k) rs)"
    by (rule sum_group_sizes, rule List.finite_set)
  also have "\<dots> = length (filter (\<lambda>r. key r \<noteq> None) rs)"
    by (rule arg_cong[where f = length], rule filter_cong) auto
  finally show ?thesis .
qed

lemma set_unique [simp]: "set (unique xs) = set xs"
  by (simp add: unique_def)

lemma distinct_unique [simp]: "distinct (unique xs)"
  by (simp add: unique_def)

lemma length_explode: "length (explode cell put rs) = sum_list (map (\<lambda>r. length (cell r)) rs)"
  by (induction rs) (simp_all add: explode_def)

lemma bex_explode:
  "(\<exists>x\<in>set (explode cell put rs). P x) \<longleftrightarrow> (\<exists>r\<in>set rs. \<exists>v\<in>set (cell r). P (put v r))"
  by (auto simp: explode_def)

lemma fst_groupby: "fst ` set (groupby key agg rs) = set (group_keys key rs)"
  by (metis map_fst_groupby set_map)

lemma groupby_length_bounds:
  "(k, c) \<in> set (groupby key length rs) \<Longrightarrow> 1 \<le> c \<and> c \<le> length rs"
proof -
  assume "(k, c) \<in> set (groupby key length rs)"
  then have k: "k \<in> set (group_keys key rs)" and c: "c = length (group_rows key rs k)"
    by (simp_all add: groupby_member)
  have "group_rows key rs k \<noteq> []" using k by (rule group_rows_nonempty)
  then show ?thesis using c by (simp add: Suc_le_eq group_rows_def)
qed

lemma groupby_map:
  assumes "\<forall>r\<in>set rs. key (f r) = key r"
  shows "groupby key agg (map f rs) = groupby key (\<lambda>g. agg (map f g)) rs"
proof -
  have k: "group_keys key (map f rs) = group_keys key rs"
    unfolding group_keys_def using assms by (simp add: comp_def cong: map_cong)
  have "group_rows key (map f rs) k = map f (group_rows key rs k)" for k
    unfolding group_rows_def filter_map comp_def using assms by (simp cong: filter_cong)
  then show ?thesis by (simp add: groupby_def k)
qed

end
