(* ===== verification/Yearly_Metrics.thy ===== *)
theory Yearly_Metrics
  imports Content_Table
begin

text \<open>
  Charts 1--6 of \<open>src/app/visualization.py\<close>: the per-year tables of lines 17--253.
  \<open>score_trend\<close> (line 18), \<open>quality_proportion\<close> (lines 38--40),
  \<open>type_counts\<close> and \<open>type_scores\<close> (lines 78, 105), the two versions of the
  module-level \<open>df_stock\<close> table (\<open>df_stock_v5\<close>, lines 124--125, and
  \<open>df_stock_v6\<close>, lines 185--196, which replaces it before any chart reads it) and
  the price-change column that \<open>plot_stock_vs_releases\<close> writes into
  \<open>df_stock\<close> when it is called (lines 128--130). A division whose denominator is
  0 gives \<open>None\<close>: pandas gives NaN for \<open>0/0\<close> and an infinity otherwise, and the
  model does not tell the two apart.
\<close>

definition is_high_quality :: "row \<Rightarrow> bool" where
  "is_high_quality r \<longleftrightarrow> (case imdb_score r of Some s \<Rightarrow> 7.5 \<le> s | None \<Rightarrow> False)"

definition bool_mean :: "bool list \<Rightarrow> real" where
  "bool_mean bs = real (length (filter id bs)) / real (length bs)"

definition score_trend :: "row list \<Rightarrow> (year \<times> fval) list" where
  "score_trend df = groupby year (\<lambda>g. nanmean (map imdb_score g)) df"

definition quality_proportion :: "row list \<Rightarrow> (year \<times> real) list" where
  "quality_proportion df = groupby year (\<lambda>g. bool_mean (map is_high_quality g)) df"

definition year_type :: "row \<Rightarrow> (year \<times> string) option" where
  "year_type r = (case (year r, ctype r) of (Some y, Some t) \<Rightarrow> Some (y, t) | _ \<Rightarrow> None)"

definition type_counts :: "row list \<Rightarrow> ((year \<times> string) \<times> nat) list" where
  "type_counts df = groupby year_type length df"

definition type_scores :: "row list \<Rightarrow> ((year \<times> string) \<times> fval) list" where
  "type_scores df = groupby year_type (\<lambda>g. nanmean (map imdb_score g)) df"

section \<open>The stock table\<close>

definition count_titles :: "row list \<Rightarrow> nat" where
  "count_titles g = length (filter (\<lambda>r. title r \<noteq> None) g)"

definition count_hq :: "row list \<Rightarrow> nat" where
  "count_hq g = length (filter is_high_quality g)"

definition ratio_cell :: "real \<Rightarrow> real \<Rightarrow> fval" where
  "ratio_cell num den = (if den = 0 then None else Some (num / den))"

record stock5_row =
  f_year :: year
  f_close :: fval
  f_title :: nat
  f_high_quality_ratio :: fval

text \<open>Lines 124--125: the ratio column divides two group-by results aligned by
  position (\<open>reset_index(drop=True)\<close>), not by year.\<close>

definition df_stock_v5 :: "row list \<Rightarrow> stock5_row list" where
  "df_stock_v5 df =
     (let base = groupby year (\<lambda>g. (nanmean (map close g), count_titles g)) df;
          hq = map snd (groupby year count_hq df)
      in map2 (\<lambda>(y, c, t) h. \<lparr>f_year = y, f_close = c, f_title = t,
                               f_high_quality_ratio = ratio_cell (real h) (real t)\<rparr>) base hq)"

record stock_row =
  s_year :: year
  s_close :: fval
  s_title :: nat
  s_high_quality :: nat
  s_high_quality_ratio :: fval
  s_price_change :: fval

definition stock_groups :: "row list \<Rightarrow> stock_row list" where
  "stock_groups df = map (\<lambda>(y, g). \<lparr>s_year = y, s_close = nanmean (map close g),
       s_title = count_titles g, s_high_quality = count_hq g,
       s_high_quality_ratio = None, s_price_change = None\<rparr>) (groupby year id df)"

definition quality_price_change :: "fval list \<Rightarrow> fval list" where
  "quality_price_change closes = fillna 0 (rolling_mean 5 2 (scale 100 (fillna 0 (pct_change closes))))"

definition releases_price_change :: "fval list \<Rightarrow> fval list" where
  "releases_price_change closes = fillna 0 (rolling_mean 5 2 (scale 100 (pct_change closes)))"

definition set_price_change :: "fval list \<Rightarrow> stock_row list \<Rightarrow> stock_row list" where
  "set_price_change pc st = map2 (\<lambda>s p. s\<lparr>s_price_change := p\<rparr>) st pc"

definition stock_ratio_col :: "stock_row list \<Rightarrow> fval list" where
  "stock_ratio_col st = fillna 0 (scale 100 (map (\<lambda>s. ratio_cell (real (s_high_quality s)) (real (s_title s))) st))"

definition df_stock_v6 :: "row list \<Rightarrow> stock_row list" where
  "df_stock_v6 df =
     (let st = stock_groups df;
          ratio = stock_ratio_col st
      in set_price_change (quality_price_change (map s_close st))
           (map2 (\<lambda>s r. s\<lparr>s_high_quality_ratio := r\<rparr>) st ratio))"

text \<open>\<open>plot_stock_vs_releases\<close> (lines 127--130) recomputes the \<open>price_change\<close>
  column of the global \<open>df_stock\<close> from its \<open>close\<close> column and stores it.\<close>

definition stock_vs_releases_update :: "stock_row list \<Rightarrow> stock_row list" where
  "stock_vs_releases_update st = set_price_change (releases_price_change (map s_close st)) st"

declare is_high_quality_def [frame_eval] bool_mean_def [frame_eval] score_trend_def [frame_eval]
  quality_proportion_def [frame_eval] year_type_def [frame_eval] type_counts_def [frame_eval]
  type_scores_def [frame_eval] count_titles_def [frame_eval] count_hq_def [frame_eval]
  ratio_cell_def [frame_eval] df_stock_v5_def [frame_eval] stock_groups_def [frame_eval]
  quality_price_change_def [frame_eval] releases_price_change_def [frame_eval]
  set_price_change_def [frame_eval] df_stock_v6_def [frame_eval]
  stock_vs_releases_update_def [frame_eval] stock_ratio_col_def [frame_eval]

section \<open>Helper lemmas\<close>

lemma bool_mean_map:
  "bool_mean (map P g) = real (length (filter P g)) / real (length g)"
  by (simp add: bool_mean_def comp_def)

lemma window_prefix: "i < w \<Longrightarrow> window w i xs = take (Suc i) xs"
  by (simp add: window_def)

lemma count_valid_take_first_None:
  "xs ! 0 = None \<Longrightarrow> 0 < length xs \<Longrightarrow> count_valid (take (Suc i) xs) \<le> i"
proof -
  assume h: "xs ! 0 = None" "0 < length xs"
  then obtain ys where xs: "xs = None # ys" by (cases xs) auto
  have "count_valid (take (Suc i) xs) = length (dropna (take i ys))"
    by (simp add: xs count_valid_def dropna_def)
  also have "\<dots> \<le> length (take i ys)" by (rule length_dropna_le)
  also have "\<dots> \<le> i" by simp
  finally show ?thesis .
qed

lemma ratio_scaled_le: "(a::nat) \<le> b \<Longrightarrow> 0 \<le> c \<Longrightarrow> real a * c / real b \<le> c"
  by (cases "b = 0") (auto simp: divide_le_eq mult.commute intro: mult_left_mono)

lemma length_set_price_change [simp]:
  "length (set_price_change pc st) = min (length st) (length pc)"
  by (simp add: set_price_change_def)

lemma set_price_change_nth:
  "i < length st \<Longrightarrow> i < length pc \<Longrightarrow> set_price_change pc st ! i = (st ! i)\<lparr>s_price_change := pc ! i\<rparr>"
  by (simp add: set_price_change_def)

lemma length_quality_price_change [simp]: "length (quality_price_change cs) = length cs"
  by (simp add: quality_price_change_def)

lemma length_releases_price_change [simp]: "length (releases_price_change cs) = length cs"
  by (simp add: releases_price_change_def)

lemma length_stock_ratio_col [simp]: "length (stock_ratio_col st) = length st"
  by (simp add: stock_ratio_col_def)

lemma length_df_stock_v6 [simp]: "length (df_stock_v6 df) = length (stock_groups df)"
  by (simp add: df_stock_v6_def Let_def)

lemma df_stock_v6_nth:
  assumes "i < length (stock_groups df)"
  shows "df_stock_v6 df ! i = (stock_groups df ! i)\<lparr>s_high_quality_ratio := stock_ratio_col (stock_groups df) ! i,
            s_price_change := quality_price_change (map s_close (stock_groups df)) ! i\<rparr>"
  using assms by (simp add: df_stock_v6_def Let_def set_price_change_nth stock_ratio_col_def)

lemma stock_groups_hq_le:
  assumes "\<forall>r\<in>set df. title r \<noteq> None" and "s \<in> set (stock_groups df)"
  shows "s_high_quality s \<le> s_title s \<and> 0 < s_title s"
proof -
  from assms(2) obtain y g where yg: "(y, g) \<in> set (groupby year id df)"
    and s: "s = \<lparr>s_year = y, s_close = nanmean (map close g), s_title = count_titles g,
       s_high_quality = count_hq g, s_high_quality_ratio = None, s_price_change = None\<rparr>"
    by (auto simp: stock_groups_def)
  from yg have k: "y \<in> set (group_keys year df)" and g: "g = group_rows year df y"
    by (simp_all add: groupby_member)
  from group_rows_nonempty[OF k] g have ne: "g \<noteq> []" by simp
  have "\<forall>r\<in>set g. title r \<noteq> None" using assms(1) by (auto simp: g group_rows_def)
  then have "count_titles g = length g" by (simp add: count_titles_def)
  then show ?thesis using ne by (simp add: s count_hq_def length_filter_le)
qed

lemma stock_ratio_col_bounds:
  assumes "\<forall>s\<in>set st. s_high_quality s \<le> s_title s" and "i < length st"
  shows "\<exists>q. stock_ratio_col st ! i = Some q \<and> 0 \<le> q \<and> q \<le> 100"
proof -
  have "s_high_quality (st ! i) \<le> s_title (st ! i)" using assms by simp
  then have "real (s_high_quality (st ! i)) * 100 / real (s_title (st ! i)) \<le> 100"
    by (rule ratio_scaled_le) simp
  then show ?thesis
    using assms(2) by (simp add: stock_ratio_col_def fillna_nth scale_def ratio_cell_def)
qed

lemma quality_price_change_nth_defined:
  "i < length cs \<Longrightarrow> quality_price_change cs ! i \<noteq> None"
  using fillna_no_nan nth_mem by (metis length_quality_price_change quality_price_change_def)

section \<open>Properties of the yearly tables\<close>

text \<open>C1: the high-quality share of a year. Every row of the chart-2 table
  (\<open>plot_high_quality_proportion\<close>) belongs to a year that has titles, and its value
  is exactly the number of that year's titles with an IMDb score of at least 7.5 divided by
  the number of that year's titles; so it lies in [0, 1].\<close>

theorem quality_proportion_exact:
  assumes "(y, p) \<in> set (quality_proportion df)"
  shows "p = real (length (filter is_high_quality (group_rows year df y)))
             / real (length (group_rows year df y))
         \<and> group_rows year df y \<noteq> [] \<and> 0 \<le> p \<and> p \<le> 1"
proof -
  from assms have k: "y \<in> set (group_keys year df)"
    and p: "p = bool_mean (map is_high_quality (group_rows year df y))"
    by (auto simp: quality_proportion_def groupby_member)
  show ?thesis
    using group_rows_nonempty[OF k] by (simp add: p bool_mean_map ratio_le_one length_filter_le)
qed

theorem quality_proportion_exact_witness:
  "(2019, 1) \<in> set (quality_proportion [sample_row 2018 7 10, sample_row 2019 8 20, sample_row 2020 7.5 30]) \<and>
   1 = real (length (filter is_high_quality (group_rows year [sample_row 2018 7 10, sample_row 2019 8 20, sample_row 2020 7.5 30] 2019)))
       / real (length (group_rows year [sample_row 2018 7 10, sample_row 2019 8 20, sample_row 2020 7.5 30] 2019))"
proof -
  have m: "(2019, 1) \<in> set (quality_proportion [sample_row 2018 7 10, sample_row 2019 8 20, sample_row 2020 7.5 30])"
    by (simp add: frame_eval)
  show ?thesis using m quality_proportion_exact[OF m] by (simp add: frame_eval)
qed

text \<open>C2: the average-score trend stays in the score range. If every IMDb score of
  the table lies between \<open>a\<close> and \<open>b\<close>, every defined yearly average of the
  chart-1 table (\<open>plot_imdb_score_trend\<close>) lies between them too; NaN scores are
  skipped, as pandas' \<open>mean\<close> does.\<close>

theorem score_trend_between:
  assumes "(y, Some m) \<in> set (score_trend df)"
    and "\<forall>r\<in>set df. \<forall>s. imdb_score r = Some s \<longrightarrow> a \<le> s \<and> s \<le> b"
  shows "a \<le> m \<and> m \<le> b"
proof (rule nanmean_between)
  from assms(1) show "nanmean (map imdb_score (group_rows year df y)) = Some m"
    by (auto simp: score_trend_def groupby_member)
  show "\<forall>v. Some v \<in> set (map imdb_score (group_rows year df y)) \<longrightarrow> a \<le> v \<and> v \<le> b"
    using assms(2) by (auto simp: group_rows_def)
qed

theorem score_trend_between_witness:
  "(2019, Some 8) \<in> set (score_trend [sample_row 2018 7 10, sample_row 2019 8 20, sample_row 2020 7.5 30]) \<and> 0 \<le> (8::real) \<and> (8::real) \<le> 10"
proof -
  have m: "(2019, Some 8) \<in> set (score_trend [sample_row 2018 7 10, sample_row 2019 8 20, sample_row 2020 7.5 30])" by (simp add: frame_eval)
  have b: "\<forall>r\<in>set [sample_row 2018 7 10, sample_row 2019 8 20, sample_row 2020 7.5 30]. \<forall>s. imdb_score r = Some s \<longrightarrow> 0 \<le> s \<and> s \<le> 10"
    by (simp add: frame_eval)
  show ?thesis using m score_trend_between[OF m b] by simp
qed

text \<open>C4: \<open>plot_stock_vs_releases\<close> shows no change for the first two years. Its
  price-change column is \<open>pct_change\<close> (NaN in the first year) times 100, a rolling mean
  over 5 years with \<open>min_periods=2\<close>, and \<open>fillna(0)\<close>: the window of the second
  year holds one value only, so the first two cells are 0 whatever the prices are.\<close>

theorem releases_price_change_warmup:
  assumes "i < 2" and "i < length cs"
  shows "releases_price_change cs ! i = Some 0"
proof -
  let ?ys = "scale 100 (pct_change cs)"
  obtain c cs' where cs: "cs = c # cs'" using assms(2) by (cases cs) auto
  have first: "?ys ! 0 = None" using pct_change_Cons_first[of c cs'] by (simp add: cs scale_def)
  have "count_valid (window 5 i ?ys) \<le> i"
    using count_valid_take_first_None[OF first] assms by (simp add: window_prefix cs)
  then have "rolling_mean 5 2 ?ys ! i = None"
    using assms by (simp add: rolling_mean_nth roll_mean_at_None_iff)
  then show ?thesis using assms by (simp add: releases_price_change_def fillna_nth)
qed

theorem releases_price_change_warmup_witness:
  "(1::nat) < 2 \<and> (1::nat) < length [Some 10, Some 20, Some (30::real)] \<and>
   releases_price_change [Some 10, Some 20, Some 30] ! 1 = Some 0"
  using releases_price_change_warmup[of 1 "[Some 10, Some 20, Some 30]"] by simp

text \<open>C5: the module-level price change of \<open>df_stock\<close> (lines 192--196) fills the
  first year's NaN with 0 before the rolling mean, so its second cell averages that 0 with
  the first real change: half the change between the first two yearly mean prices.\<close>

theorem quality_price_change_second:
  assumes "c0 \<noteq> 0"
  shows "quality_price_change (map Some (c0 # c1 # cs)) ! 1 = Some (50 * (c1 / c0 - 1))"
proof -
  let ?ys = "scale 100 (fillna 0 (pct_change (Some c0 # Some c1 # map Some cs)))"
  have y0: "?ys ! 0 = Some 0"
    using pct_change_Cons_first[of "Some c0" "map Some (c1 # cs)"] by (simp add: scale_def fillna_def)
  have y1: "?ys ! 1 = Some (100 * (c1 / c0 - 1))"
    using pct_change_map_Some_Suc[of 0 "c0 # c1 # cs"] assms by (simp add: scale_def fillna_def)
  have w: "window 5 (Suc 0) ?ys = [Some 0, Some (100 * (c1 / c0 - 1))]"
    using y0 y1 by (simp add: window_prefix take_Suc_conv_app_nth)
  show ?thesis
    by (simp add: quality_price_change_def fillna_nth rolling_mean_nth w roll_mean_at_def dropna_def)
qed

theorem quality_price_change_second_witness:
  "(10::real) \<noteq> 0 \<and> quality_price_change (map Some [10, 20, 30]) ! 1 = Some 50"
  using quality_price_change_second[of 10 20 "[30]"] by simp

text \<open>C6: the module-level stock table is defined everywhere it is drawn. When every
  row has a title, each year's high-quality ratio (line 191, filled at 195) is a number
  between 0 and 100, and each price change (lines 192--196) is defined.\<close>

theorem df_stock_v6_columns_bounded:
  assumes "\<forall>r\<in>set df. title r \<noteq> None" and "s \<in> set (df_stock_v6 df)"
  shows "(\<exists>q. s_high_quality_ratio s = Some q \<and> 0 \<le> q \<and> q \<le> 100) \<and> s_price_change s \<noteq> None"
proof -
  from assms(2) obtain i where i: "i < length (stock_groups df)" and s: "s = df_stock_v6 df ! i"
    by (auto simp: in_set_conv_nth)
  have hq: "\<forall>t\<in>set (stock_groups df). s_high_quality t \<le> s_title t"
    using stock_groups_hq_le[OF assms(1)] by blast
  obtain q where "stock_ratio_col (stock_groups df) ! i = Some q" and "0 \<le> q \<and> q \<le> 100"
    using stock_ratio_col_bounds[OF hq i] by blast
  moreover have "quality_price_change (map s_close (stock_groups df)) ! i \<noteq> None"
    using i by (simp add: quality_price_change_nth_defined)
  ultimately show ?thesis using i by (simp add: s df_stock_v6_nth)
qed

theorem df_stock_v6_columns_bounded_witness:
  "hd (df_stock_v6 [sample_row 2018 7 10, sample_row 2019 8 20, sample_row 2020 7.5 30]) \<in> set (df_stock_v6 [sample_row 2018 7 10, sample_row 2019 8 20, sample_row 2020 7.5 30]) \<and>
   (\<exists>q. s_high_quality_ratio (hd (df_stock_v6 [sample_row 2018 7 10, sample_row 2019 8 20, sample_row 2020 7.5 30])) = Some q \<and> 0 \<le> q \<and> q \<le> 100)"
proof -
  have t: "\<forall>r\<in>set [sample_row 2018 7 10, sample_row 2019 8 20, sample_row 2020 7.5 30]. title r \<noteq> None" by (simp add: frame_eval)
  have ne: "df_stock_v6 [sample_row 2018 7 10, sample_row 2019 8 20, sample_row 2020 7.5 30] \<noteq> []"
    by (simp add: frame_eval)
  then have h: "hd (df_stock_v6 [sample_row 2018 7 10, sample_row 2019 8 20, sample_row 2020 7.5 30]) \<in> set (df_stock_v6 [sample_row 2018 7 10, sample_row 2019 8 20, sample_row 2020 7.5 30])" by simp
  show ?thesis using h df_stock_v6_columns_bounded[OF t h] by simp
qed

text \<open>The ratio column of the first \<open>df_stock\<close> (lines 124--125) divides two
  group-by results aligned by position. Both group by year over the same rows, so the
  alignment is by year after all: each year's ratio is its high-quality count over its
  title count.\<close>

theorem df_stock_v5_aligned:
  "df_stock_v5 df = map (\<lambda>(y, g). \<lparr>f_year = y, f_close = nanmean (map close g), f_title = count_titles g,
       f_high_quality_ratio = ratio_cell (real (count_hq g)) (real (count_titles g))\<rparr>) (groupby year id df)"
  by (simp add: df_stock_v5_def groupby_def Let_def zip_map1 zip_map2 zip_same_conv_map comp_def)

lemma map_s_close_set_price_change:
  "length pc = length st \<Longrightarrow> map s_close (set_price_change pc st) = map s_close st"
  by (simp add: set_price_change_def list_eq_iff_nth_eq)

lemma set_price_change_twice:
  "set_price_change pc (set_price_change pc st) = set_price_change pc st"
proof (induction st arbitrary: pc)
  case Nil
  then show ?case by (simp add: set_price_change_def)
next
  case (Cons a st)
  then show ?case by (cases pc) (simp_all add: set_price_change_def)
qed

lemma stock_vs_releases_update_idem:
  "stock_vs_releases_update (stock_vs_releases_update st) = stock_vs_releases_update st"
proof -
  have c: "map s_close (stock_vs_releases_update st) = map s_close st"
    unfolding stock_vs_releases_update_def by (rule map_s_close_set_price_change) simp
  show ?thesis
    unfolding stock_vs_releases_update_def[of "stock_vs_releases_update st"] c
    unfolding stock_vs_releases_update_def by (rule set_price_change_twice)
qed

lemma price_change_set_price_change:
  "length pc = length st \<Longrightarrow> map s_price_change (set_price_change pc st) = pc"
  by (simp add: set_price_change_def list_eq_iff_nth_eq)

end
