(* ===== verification/Pandas_Strings.thy ===== *)
theory Pandas_Strings
  imports Netflix_Prelude
begin

text \<open>
  The string operations that \<open>src/app/visualization.py\<close> applies to the
  \<open>genres\<close> and \<open>country\<close> columns through the pandas \<open>.str\<close> accessor: \<open>lower\<close>
  (line 482, on ASCII letters: the model's strings are byte lists), \<open>replace\<close> with a
  literal pattern (line 482; pandas 2 does not treat the pattern as a regular expression),
  \<open>split(", ")\<close> (lines 484, 587) and the case-insensitive \<open>contains\<close> of line 533,
  whose pattern has no regular-expression metacharacters and so is a substring test.
  Lemmas: joining the pieces of a split with the separator gives the text back, and
  \<open>contains\<close> is the substring relation.
\<close>

definition is_upper :: "char \<Rightarrow> bool" where
  "is_upper c \<longleftrightarrow> (65::nat) \<le> of_char c \<and> of_char c \<le> (90::nat)"

text \<open>An ASCII capital becomes small by adding 32, that is by setting bit 5, which is
  clear in the codes 65--90.\<close>

definition lower_char :: "char \<Rightarrow> char" where
  "lower_char c = (if is_upper c
     then (case c of Char b0 b1 b2 b3 b4 b5 b6 b7 \<Rightarrow> Char b0 b1 b2 b3 b4 True b6 b7) else c)"

definition str_lower :: "string \<Rightarrow> string" where
  "str_lower s = map lower_char s"

definition starts_with :: "string \<Rightarrow> string \<Rightarrow> bool" where
  "starts_with pat s \<longleftrightarrow> take (length pat) s = pat"

function replace_nonempty :: "string \<Rightarrow> string \<Rightarrow> string \<Rightarrow> string" where
  "replace_nonempty pat rep s =
     (if s = [] then []
      else if pat \<noteq> [] \<and> starts_with pat s then rep @ replace_nonempty pat rep (drop (length pat) s)
      else hd s # replace_nonempty pat rep (tl s))"
  by pat_completeness auto
termination
  by (relation "measure (\<lambda>(pat, rep, s). length s)") auto

definition str_replace :: "string \<Rightarrow> string \<Rightarrow> string \<Rightarrow> string" where
  "str_replace pat rep s =
     (if pat = [] then rep @ concat (map (\<lambda>c. [c] @ rep) s) else replace_nonempty pat rep s)"

function split_acc :: "string \<Rightarrow> string \<Rightarrow> string \<Rightarrow> string list" where
  "split_acc sep acc s =
     (if s = [] then [rev acc]
      else if sep \<noteq> [] \<and> starts_with sep s then rev acc # split_acc sep [] (drop (length sep) s)
      else split_acc sep (hd s # acc) (tl s))"
  by pat_completeness auto
termination
  by (relation "measure (\<lambda>(sep, acc, s). length s)") auto

definition str_split :: "string \<Rightarrow> string \<Rightarrow> string list" where
  "str_split sep s = split_acc sep [] s"

fun str_contains :: "string \<Rightarrow> string \<Rightarrow> bool" where
  "str_contains pat [] \<longleftrightarrow> pat = []"
| "str_contains pat (c # cs) \<longleftrightarrow> starts_with pat (c # cs) \<or> str_contains pat cs"

definition contains_nocase :: "string \<Rightarrow> string \<Rightarrow> bool" where
  "contains_nocase pat s \<longleftrightarrow> str_contains (str_lower pat) (str_lower s)"

fun join :: "string \<Rightarrow> string list \<Rightarrow> string" where
  "join sep [] = []"
| "join sep [x] = x"
| "join sep (x # y # xs) = x @ sep @ join sep (y # xs)"

declare replace_nonempty.simps [simp del] split_acc.simps [simp del]

declare is_upper_def [frame_eval] lower_char_def [frame_eval] str_lower_def [frame_eval] starts_with_def [frame_eval]
  replace_nonempty.simps [frame_eval] str_replace_def [frame_eval] split_acc.simps [frame_eval]
  str_split_def [frame_eval] contains_nocase_def [frame_eval]

section \<open>Lemmas\<close>

lemma starts_with_iff: "starts_with pat s \<longleftrightarrow> (\<exists>ys. s = pat @ ys)"
  by (auto simp: starts_with_def) (metis append_take_drop_id)

lemma str_contains_iff: "str_contains pat s \<longleftrightarrow> (\<exists>xs ys. s = xs @ pat @ ys)"
proof (induction s)
  case Nil
  then show ?case by auto
next
  case (Cons c cs)
  show ?case
  proof
    assume "str_contains pat (c # cs)"
    then consider "starts_with pat (c # cs)" | "str_contains pat cs" by auto
    then show "\<exists>xs ys. c # cs = xs @ pat @ ys"
    proof cases
      case 1
      then obtain ys where "c # cs = pat @ ys" by (auto simp: starts_with_iff)
      then have "c # cs = [] @ pat @ ys" by simp
      then show ?thesis by blast
    next
      case 2
      then obtain xs ys where "cs = xs @ pat @ ys" using Cons.IH by blast
      then have "c # cs = (c # xs) @ pat @ ys" by simp
      then show ?thesis by blast
    qed
  next
    assume "\<exists>xs ys. c # cs = xs @ pat @ ys"
    then obtain xs ys where e: "c # cs = xs @ pat @ ys" by blast
    show "str_contains pat (c # cs)"
    proof (cases xs)
      case Nil
      then have "starts_with pat (c # cs)" using e by (simp add: starts_with_iff)
      then show ?thesis by simp
    next
      case (Cons x xs')
      then have "cs = xs' @ pat @ ys" using e by simp
      then show ?thesis using Cons.IH by auto
    qed
  qed
qed

lemma split_acc_nonempty: "split_acc sep acc s \<noteq> []"
proof (induction sep acc s rule: split_acc.induct)
  case (1 sep acc s)
  then show ?case by (simp add: split_acc.simps[of sep acc s])
qed

lemma join_Cons_append:
  "join sep ((a @ b) # xs) = a @ join sep (b # xs)"
  by (cases xs) simp_all

lemma join_split_acc: "join sep (split_acc sep acc s) = rev acc @ s"
proof (induction sep acc s rule: split_acc.induct)
  case (1 sep acc s)
  show ?case
  proof (cases "s = []")
    case True
    then show ?thesis by (simp add: split_acc.simps[of sep acc "[]"])
  next
    case ne: False
    show ?thesis
    proof (cases "sep \<noteq> [] \<and> starts_with sep s")
      case True
      then obtain ys where s: "s = sep @ ys" by (auto simp: starts_with_iff)
      have "split_acc sep acc s = rev acc # split_acc sep [] (drop (length sep) s)"
        using ne True by (simp add: split_acc.simps[of sep acc s])
      moreover have "split_acc sep [] (drop (length sep) s) \<noteq> []"
        by (rule split_acc_nonempty)
      ultimately show ?thesis
        using "1.IH"(1)[OF ne True] s
        by (cases "split_acc sep [] (drop (length sep) s)") simp_all
    next
      case False
      then have "split_acc sep acc s = split_acc sep (hd s # acc) (tl s)"
        by (simp only: split_acc.simps[of sep acc s] if_not_P[OF ne] if_not_P[OF False] if_False)
      then show ?thesis using "1.IH"(2)[OF ne False] ne by simp
    qed
  qed
qed

text \<open>Splitting a cell on a separator loses nothing. Joining the pieces that
  \<open>str.split(sep)\<close> returns with \<open>sep\<close> gives the original text back, for every
  separator and text; so exploding a genre or country list and rejoining it is the
  identity on the cell.\<close>

theorem join_str_split: "join sep (str_split sep s) = s"
  by (simp add: str_split_def join_split_acc)

end
