(* ===== verification/Genre_Country.thy ===== *)
theory Genre_Country
  imports Yearly_Metrics Pandas_Strings
begin

text \<open>
  Charts 10--12 of \<open>src/app/visualization.py\<close>. Lines 479--482 rewrite the module's
  \<open>df\<close> in place: the year is recomputed and \<open>genres\<close> becomes its text
  (\<open>astype(str)\<close>: NaN becomes \<open>"nan"\<close>) in lower case with "dramas" and
  "comedies" made singular. Chart 10 (lines 484--496) explodes the genre lists, keeps the
  dated rows, counts titles per year and genre, divides by the year's total and keeps the
  ten genres with the largest total (\<open>nlargest\<close>, ties in genre order). Chart 11
  (lines 533--537) flags genre texts that contain "international", averages the flag per
  year and smooths it over 3 years. Chart 12 (lines 585--603) drops the cells equal to
  "Unknown", explodes the country lists, computes the same shares per year and country,
  reindexes them over every observed year and country with 0 and keeps the positive ones.
  A share table is polymorphic in its category so that the reindexed one can carry the NaN
  country of the product.
\<close>

definition cell_text :: "string option \<Rightarrow> string" where
  "cell_text c = (case c of None \<Rightarrow> ''nan'' | Some s \<Rightarrow> s)"

definition norm_genre :: "string \<Rightarrow> string" where
  "norm_genre g = str_replace ''comedies'' ''comedy'' (str_replace ''dramas'' ''drama'' (str_lower g))"

definition normalize_genres :: "row list \<Rightarrow> row list" where
  "normalize_genres df = map (\<lambda>r. (with_year r)\<lparr>genres := Some (norm_genre (cell_text (genres r)))\<rparr>) df"

record 'c share_row =
  sh_year :: year
  sh_cat :: 'c
  sh_count :: nat
  sh_total :: nat
  sh_pct :: fval

definition year_total :: "((year \<times> 'c) \<times> nat) list \<Rightarrow> year \<Rightarrow> nat" where
  "year_total cs y = sum_list [c. ((y', _), c) \<leftarrow> cs, y' = y]"

definition share_table :: "((year \<times> 'c) \<times> nat) list \<Rightarrow> 'c share_row list" where
  "share_table cs = map (\<lambda>((y, g), c). \<lparr>sh_year = y, sh_cat = g, sh_count = c,
       sh_total = year_total cs y, sh_pct = ratio_cell (real c) (real (year_total cs y))\<rparr>) cs"

section \<open>Chart 10: genres\<close>

definition explode_genres :: "row list \<Rightarrow> row list" where
  "explode_genres df = explode (\<lambda>r. str_split '', '' (cell_text (genres r))) (\<lambda>g r. r\<lparr>genres := Some g\<rparr>) df"

definition dated_rows :: "row list \<Rightarrow> row list" where
  "dated_rows rs = map with_year (filter (\<lambda>r. release_date r \<noteq> None) rs)"

definition genre_key :: "row \<Rightarrow> (year \<times> string) option" where
  "genre_key r = (case (year r, genres r) of (Some y, Some g) \<Rightarrow> Some (y, g) | _ \<Rightarrow> None)"

definition genre_trend :: "row list \<Rightarrow> string share_row list" where
  "genre_trend df = share_table (groupby genre_key count_titles (dated_rows (explode_genres df)))"

definition cat_totals :: "'c::linorder share_row list \<Rightarrow> ('c \<times> nat) list" where
  "cat_totals t = groupby (\<lambda>r. Some (sh_cat r)) (\<lambda>g. sum_list (map sh_count g)) t"

definition nlargest :: "nat \<Rightarrow> ('a \<times> nat) list \<Rightarrow> 'a list" where
  "nlargest n xs = map fst (take n (sort_key (\<lambda>(k, c). - int c) xs))"

definition top_genres :: "string share_row list \<Rightarrow> string list" where
  "top_genres t = nlargest 10 (cat_totals t)"

definition genre_trend_filtered :: "row list \<Rightarrow> string share_row list" where
  "genre_trend_filtered df =
     (let t = genre_trend df in filter (\<lambda>r. sh_cat r \<in> set (top_genres t)) t)"

section \<open>Chart 11: international content\<close>

definition is_international :: "row \<Rightarrow> bool" where
  "is_international r \<longleftrightarrow> contains_nocase ''international'' (cell_text (genres r))"

record intl_row =
  i_year :: year
  i_share :: real
  i_smoothed :: fval

definition international_trend :: "row list \<Rightarrow> intl_row list" where
  "international_trend df =
     (let t = groupby year (\<lambda>g. bool_mean (map is_international g)) df;
          sm = rolling_mean 3 1 (map (\<lambda>(y, v). Some v) t)
      in map2 (\<lambda>(y, v) s. \<lparr>i_year = y, i_share = v, i_smoothed = s\<rparr>) t sm)"

section \<open>Chart 12: countries\<close>

definition not_unknown :: "row \<Rightarrow> bool" where
  "not_unknown r \<longleftrightarrow> country r \<noteq> Some ''Unknown''"

definition explode_countries :: "row list \<Rightarrow> row list" where
  "explode_countries rs = explode (\<lambda>r. case country r of None \<Rightarrow> [None] | Some c \<Rightarrow> map Some (str_split '', '' c))
                                 (\<lambda>c r. r\<lparr>country := c\<rparr>) rs"

definition country_key :: "row \<Rightarrow> (year \<times> string) option" where
  "country_key r = (case (year r, country r) of (Some y, Some c) \<Rightarrow> Some (y, c) | _ \<Rightarrow> None)"

definition country_trend :: "row list \<Rightarrow> string share_row list" where
  "country_trend df = share_table (groupby country_key count_titles (explode_countries (filter not_unknown df)))"

definition zero_row :: "year \<Rightarrow> 'c \<Rightarrow> 'c share_row" where
  "zero_row y c = \<lparr>sh_year = y, sh_cat = c, sh_count = 0, sh_total = 0, sh_pct = Some 0\<rparr>"

definition lift_cat :: "string share_row \<Rightarrow> string option share_row" where
  "lift_cat r = \<lparr>sh_year = sh_year r, sh_cat = Some (sh_cat r), sh_count = sh_count r,
                 sh_total = sh_total r, sh_pct = sh_pct r\<rparr>"

definition lookup_share :: "string share_row list \<Rightarrow> year \<times> string option \<Rightarrow> string option share_row option" where
  "lookup_share t k = map_option lift_cat (find (\<lambda>r. (sh_year r, Some (sh_cat r)) = k) t)"

definition reindex_fill :: "year list \<Rightarrow> 'c list \<Rightarrow> (year \<times> 'c \<Rightarrow> 'c share_row option) \<Rightarrow> 'c share_row list" where
  "reindex_fill ys cs look =
     concat (map (\<lambda>y. map (\<lambda>c. case look (y, c) of Some r \<Rightarrow> r | None \<Rightarrow> zero_row y c) cs) ys)"

definition positive_rows :: "'c share_row list \<Rightarrow> 'c share_row list" where
  "positive_rows t = filter (\<lambda>r. case sh_pct r of Some p \<Rightarrow> 0 < p | None \<Rightarrow> False) t"

definition country_growth :: "row list \<Rightarrow> string option share_row list" where
  "country_growth df =
     (let rs = explode_countries (filter not_unknown df); t = country_trend df
      in positive_rows (reindex_fill (unique (map sh_year t)) (unique (map country rs)) (lookup_share t)))"

text \<open>A titled movie of a year with a genre text and a country text, for the witnesses.\<close>

definition sample_title :: "year \<Rightarrow> string \<Rightarrow> string \<Rightarrow> row" where
  "sample_title y g c = (sample_row y 7 10)\<lparr>genres := Some g, country := Some c\<rparr>"

declare sample_title_def [frame_eval]

declare cell_text_def [frame_eval] norm_genre_def [frame_eval] normalize_genres_def [frame_eval]
  year_total_def [frame_eval] share_table_def [frame_eval] explode_genres_def [frame_eval]
  dated_rows_def [frame_eval] genre_key_def [frame_eval] genre_trend_def [frame_eval]
  cat_totals_def [frame_eval] nlargest_def [frame_eval] top_genres_def [frame_eval]
  genre_trend_filtered_def [frame_eval] is_international_def [frame_eval]
  international_trend_def [frame_eval] not_unknown_def [frame_eval]
  explode_countries_def [frame_eval] country_key_def [frame_eval] country_trend_def [frame_eval]
  zero_row_def [frame_eval] lift_cat_def [frame_eval] lookup_share_def [frame_eval]
  reindex_fill_def [frame_eval] positive_rows_def [frame_eval] country_growth_def [frame_eval]

section \<open>Lemmas on the share tables\<close>

lemma year_total_filter:
  "year_total cs y = sum_list (map snd (filter (\<lambda>x. fst (fst x) = y) cs))"
  by (induction cs) (auto simp: year_total_def)

lemma share_table_filter_year:
  "filter (\<lambda>r. sh_year r = y) (share_table cs)
   = map (\<lambda>((y', g), c). \<lparr>sh_year = y', sh_cat = g, sh_count = c, sh_total = year_total cs y,
            sh_pct = ratio_cell (real c) (real (year_total cs y))\<rparr>) (filter (\<lambda>x. fst (fst x) = y) cs)"
  unfolding share_table_def filter_map comp_def
  by (intro map_cong filter_cong) (auto simp: case_prod_beta')

lemma share_table_year_sum:
  "sum_list (dropna (map sh_pct (filter (\<lambda>r. sh_year r = y) (share_table cs))))
   = (if year_total cs y = 0 then 0 else 1)"
proof (cases "year_total cs y = 0")
  case True
  then have "dropna (map sh_pct (filter (\<lambda>r. sh_year r = y) (share_table cs))) = []"
    by (simp add: share_table_filter_year comp_def case_prod_beta' dropna_Nil_iff ratio_cell_def)
  then show ?thesis using True by simp
next
  case False
  let ?ys = "filter (\<lambda>x. fst (fst x) = y) cs"
  have "dropna (map sh_pct (filter (\<lambda>r. sh_year r = y) (share_table cs)))
        = map (\<lambda>x. real (snd x) / real (year_total cs y)) ?ys"
    using False by (simp add: share_table_filter_year comp_def case_prod_beta' ratio_cell_def
                              dropna_def concat_map_singleton)
  also have "sum_list \<dots> = real (sum_list (map snd ?ys)) / real (year_total cs y)"
    by (simp add: sum_list_div sum_list_of_nat[symmetric] comp_def)
  also have "\<dots> = 1" using False by (simp add: year_total_filter)
  finally show ?thesis using False by simp
qed

lemma share_table_member:
  "r \<in> set (share_table cs) \<Longrightarrow> \<exists>g c. ((sh_year r, g), c) \<in> set cs \<and> sh_cat r = g \<and> sh_count r = c
     \<and> sh_total r = year_total cs (sh_year r) \<and> sh_pct r = ratio_cell (real c) (real (year_total cs (sh_year r)))"
  by (auto simp: share_table_def)

lemma share_table_pct_nonneg: "r \<in> set (share_table cs) \<Longrightarrow> sh_pct r = Some v \<Longrightarrow> 0 \<le> v"
  by (auto simp: share_table_def ratio_cell_def split: if_splits)

lemma share_table_count_le_total:
  assumes "r \<in> set (share_table cs)"
  shows "sh_count r \<le> year_total cs (sh_year r)"
proof -
  obtain g where m: "((sh_year r, g), sh_count r) \<in> set cs"
    using share_table_member[OF assms] by blast
  then have "sh_count r \<in> set (map snd (filter (\<lambda>x. fst (fst x) = sh_year r) cs))"
    by (force simp: image_iff)
  then show ?thesis by (simp add: year_total_filter member_le_sum_list)
qed

text \<open>C15: in chart 10 the shares of one year, over the genres kept in the top ten, add up to
  at most 1 (each share is the genre's count over the year's count of all genres, and
  dropping genres only removes nonnegative terms).\<close>

theorem genre_share_year_le_one:
  "sum_list (dropna (map sh_pct (filter (\<lambda>r. sh_year r = y) (genre_trend_filtered df)))) \<le> 1"
proof -
  let ?cs = "groupby genre_key count_titles (dated_rows (explode_genres df))"
  let ?t = "genre_trend df"
  have t: "?t = share_table ?cs" by (simp add: genre_trend_def)
  have "sum_list (dropna (map sh_pct (filter (\<lambda>r. sh_year r = y) (genre_trend_filtered df))))
        = sum_list (dropna (map sh_pct (filter (\<lambda>r. sh_cat r \<in> set (top_genres ?t)) (filter (\<lambda>r. sh_year r = y) ?t))))"
    by (simp add: genre_trend_filtered_def Let_def filter_filter conj_commute)
  also have "\<dots> \<le> sum_list (dropna (map sh_pct (filter (\<lambda>r. sh_year r = y) ?t)))"
    by (rule dropna_sum_filter_le) (auto simp: t intro: share_table_pct_nonneg)
  also have "\<dots> \<le> 1" unfolding t share_table_year_sum by simp
  finally show ?thesis .
qed

text \<open>C16: when every genre is in the top ten and the year has a counted title, the year's
  shares in chart 10 add up to exactly 1.\<close>

theorem genre_share_year_exact:
  assumes "\<forall>r\<in>set (genre_trend df). sh_cat r \<in> set (top_genres (genre_trend df))"
    and "r \<in> set (genre_trend df)" and "sh_year r = y" and "0 < sh_count r"
  shows "sum_list (dropna (map sh_pct (filter (\<lambda>r. sh_year r = y) (genre_trend_filtered df)))) = 1"
proof -
  let ?cs = "groupby genre_key count_titles (dated_rows (explode_genres df))"
  have t: "genre_trend df = share_table ?cs" by (simp add: genre_trend_def)
  have f: "genre_trend_filtered df = genre_trend df"
    using assms(1) by (simp add: genre_trend_filtered_def Let_def)
  have "0 < year_total ?cs y"
    using share_table_count_le_total[of r ?cs] assms(2-4) t by simp
  then show ?thesis unfolding f t share_table_year_sum by simp
qed

lemma international_trend_member:
  assumes "r \<in> set (international_trend df)"
  shows "\<exists>i<length (groupby year (\<lambda>g. bool_mean (map is_international g)) df).
           (i_year r, i_share r) = groupby year (\<lambda>g. bool_mean (map is_international g)) df ! i
           \<and> i_smoothed r = rolling_mean 3 1 (map (\<lambda>(y, v). Some v) (groupby year (\<lambda>g. bool_mean (map is_international g)) df)) ! i"
  using assms unfolding international_trend_def Let_def by (fastforce simp: in_set_zip case_prod_beta')

lemma bool_mean_bounds: "bs \<noteq> [] \<Longrightarrow> 0 \<le> bool_mean bs \<and> bool_mean bs \<le> 1"
  by (simp add: bool_mean_def ratio_le_one length_filter_le)

lemma groupby_bool_mean_bounds:
  "(k, v) \<in> set (groupby key (\<lambda>g. bool_mean (map P g)) rs) \<Longrightarrow> 0 \<le> v \<and> v \<le> 1"
  by (simp add: groupby_member bool_mean_bounds group_rows_nonempty)

text \<open>C17: every row of the chart-11 table has a share of international titles in [0, 1]
  and a smoothed value (3-year trailing mean, at least one period) that is defined and in
  [0, 1].\<close>

theorem international_trend_bounds:
  assumes "r \<in> set (international_trend df)"
  shows "0 \<le> i_share r \<and> i_share r \<le> 1 \<and> (\<exists>v. i_smoothed r = Some v \<and> 0 \<le> v \<and> v \<le> 1)"
proof -
  let ?t = "groupby year (\<lambda>g. bool_mean (map is_international g)) df"
  let ?vs = "map (\<lambda>(y, v). Some v) ?t"
  obtain i where i: "i < length ?t" and ri: "(i_year r, i_share r) = ?t ! i"
    and si: "i_smoothed r = rolling_mean 3 1 ?vs ! i"
    using international_trend_member[OF assms] by blast
  have inb: "\<forall>v. Some v \<in> set ?vs \<longrightarrow> 0 \<le> v \<and> v \<le> 1"
    using groupby_bool_mean_bounds by fastforce
  have "(i_year r, i_share r) \<in> set ?t" using i ri by (metis nth_mem)
  then have sh: "0 \<le> i_share r \<and> i_share r \<le> 1" by (rule groupby_bool_mean_bounds)
  have "None \<notin> set ?vs" by auto
  then obtain v where v: "rolling_mean 3 1 ?vs ! i = Some v"
    using rolling_mean_nth_Some[of 3 1 ?vs i] i by fastforce
  have "0 \<le> v \<and> v \<le> 1" using rolling_mean_between[OF v _ inb] i by simp
  then show ?thesis using sh si v by simp
qed

lemma share_table_keys:
  "map (\<lambda>r. (sh_year r, sh_cat r)) (share_table cs) = map fst cs"
  by (simp add: share_table_def comp_def case_prod_beta')

lemma reindex_fill_keys:
  assumes "\<forall>y c r. look (y, c) = Some r \<longrightarrow> sh_year r = y \<and> sh_cat r = c"
  shows "map (\<lambda>r. (sh_year r, sh_cat r)) (reindex_fill ys cs look) = List.product ys cs"
  using assms by (induction ys) (auto simp: reindex_fill_def zero_row_def split: option.splits)

lemma set_reindex_fill:
  "x \<in> set (reindex_fill ys cs look) \<longleftrightarrow>
     (\<exists>y\<in>set ys. \<exists>c\<in>set cs. x = (case look (y, c) of Some r \<Rightarrow> r | None \<Rightarrow> zero_row y c))"
  by (auto simp: reindex_fill_def)

lemma lookup_share_key:
  "lookup_share t (y, c) = Some r \<Longrightarrow> sh_year r = y \<and> sh_cat r = c"
  by (auto simp: lookup_share_def lift_cat_def dest!: find_Some_iff[THEN iffD1])


lemma lookup_share_Some:
  "lookup_share t k = Some r \<Longrightarrow> \<exists>r0\<in>set t. r = lift_cat r0"
  by (auto simp: lookup_share_def dest!: find_Some_iff[THEN iffD1])

lemma country_trend_keys_distinct:
  "distinct (map (\<lambda>r. (sh_year r, Some (sh_cat r))) (country_trend df))"
proof -
  let ?cs = "groupby country_key count_titles (explode_countries (filter not_unknown df))"
  have "distinct (map (\<lambda>r. (sh_year r, sh_cat r)) (share_table ?cs))"
    by (simp add: share_table_keys distinct_group_keys)
  then have "distinct (map (\<lambda>(y, c). (y, Some c)) (map (\<lambda>r. (sh_year r, sh_cat r)) (share_table ?cs)))"
    by (rule distinct_map[THEN iffD2, OF conjI]) (auto simp: inj_on_def)
  then show ?thesis by (simp add: country_trend_def comp_def)
qed

lemma country_trend_country:
  assumes "r \<in> set (country_trend df)"
  shows "Some (sh_cat r) \<in> set (map country (explode_countries (filter not_unknown df)))"
proof -
  let ?rs = "explode_countries (filter not_unknown df)"
  obtain n where "((sh_year r, sh_cat r), n) \<in> set (groupby country_key count_titles ?rs)"
    using share_table_member[of r] assms by (auto simp: country_trend_def)
  then have "(sh_year r, sh_cat r) \<in> set (group_keys country_key ?rs)" by (simp add: groupby_member)
  then obtain x where "x \<in> set ?rs" and "country_key x = Some (sh_year r, sh_cat r)" by auto
  then have "country x = Some (sh_cat r)" by (auto simp: country_key_def split: option.splits)
  with \<open>x \<in> set ?rs\<close> show ?thesis by (metis image_eqI set_map)
qed

lemma lookup_share_country_trend:
  assumes "r \<in> set (country_trend df)"
  shows "lookup_share (country_trend df) (sh_year r, Some (sh_cat r)) = Some (lift_cat r)"
  using find_distinct_key[OF country_trend_keys_distinct assms] by (simp add: lookup_share_def)

lemma positive_rows_iff:
  "x \<in> set (positive_rows xs) \<longleftrightarrow> x \<in> set xs \<and> (case sh_pct x of Some p \<Rightarrow> 0 < p | None \<Rightarrow> False)"
  by (simp add: positive_rows_def)

lemma country_growth_eq:
  "country_growth df = positive_rows (reindex_fill (unique (map sh_year (country_trend df)))
     (unique (map country (explode_countries (filter not_unknown df)))) (lookup_share (country_trend df)))"
  by (simp add: country_growth_def Let_def)

lemma country_growth_subset:
  "set (country_growth df) \<subseteq> lift_cat ` set (positive_rows (country_trend df))"
proof
  let ?t = "country_trend df"
  fix x assume "x \<in> set (country_growth df)"
  then have x: "x \<in> set (reindex_fill (unique (map sh_year ?t))
      (unique (map country (explode_countries (filter not_unknown df)))) (lookup_share ?t))"
    and p: "case sh_pct x of Some p \<Rightarrow> 0 < p | None \<Rightarrow> False"
    unfolding country_growth_eq positive_rows_iff by auto
  obtain y c where "x = (case lookup_share ?t (y, c) of Some r \<Rightarrow> r | None \<Rightarrow> zero_row y c)"
    using x by (auto simp: set_reindex_fill)
  moreover obtain r' where "lookup_share ?t (y, c) = Some r'"
    using p calculation by (auto simp: zero_row_def split: option.splits)
  ultimately obtain r where "x = lift_cat r" "r \<in> set ?t"
    using lookup_share_Some by fastforce
  then show "x \<in> lift_cat ` set (positive_rows ?t)"
    using p by (auto simp: positive_rows_iff lift_cat_def)
qed

lemma country_growth_distinct: "distinct (country_growth df)"
proof -
  let ?t = "country_trend df"
  let ?rs = "explode_countries (filter not_unknown df)"
  let ?re = "reindex_fill (unique (map sh_year ?t)) (unique (map country ?rs)) (lookup_share ?t)"
  have "map (\<lambda>r. (sh_year r, sh_cat r)) ?re = List.product (unique (map sh_year ?t)) (unique (map country ?rs))"
    using lookup_share_key by (intro reindex_fill_keys) blast
  then have "distinct (map (\<lambda>r. (sh_year r, sh_cat r)) ?re)" by (simp add: distinct_product)
  then have "distinct ?re" by (simp add: distinct_map)
  then show ?thesis by (simp add: country_growth_eq positive_rows_def)
qed

lemma share_table_pct_le_one:
  "r \<in> set (share_table cs) \<Longrightarrow> sh_pct r = Some p \<Longrightarrow> p \<le> 1"
  using share_table_count_le_total[of r cs] share_table_member[of r cs]
  by (auto simp: ratio_cell_def ratio_le_one split: if_splits)

lemma country_growth_pct:
  assumes "r \<in> set (country_growth df)"
  shows "\<exists>p. sh_pct r = Some p \<and> 0 < p \<and> p \<le> 1"
proof -
  obtain r0 where r0: "r0 \<in> set (positive_rows (country_trend df))" and r: "r = lift_cat r0"
    using country_growth_subset assms by blast
  then obtain p where p: "sh_pct r0 = Some p" "0 < p" and m: "r0 \<in> set (country_trend df)"
    by (auto simp: positive_rows_iff split: option.splits)
  have "p \<le> 1" using share_table_pct_le_one[OF m[unfolded country_trend_def] p(1)] .
  then show ?thesis using p r by (simp add: lift_cat_def)
qed

text \<open>C18: the reindex-then-filter step of chart 12 is a round trip. Filling every
  (year, country) pair of the cross product with 0 and keeping the positive shares gives
  exactly the positive rows of the per-(year, country) share table, each once.\<close>

theorem country_growth_positive_shares:
  "set (country_growth df) = lift_cat ` set (positive_rows (country_trend df))
   \<and> distinct (country_growth df)"
proof (intro conjI equalityI subsetI)
  show "x \<in> set (country_growth df)" if xin: "x \<in> lift_cat ` set (positive_rows (country_trend df))" for x
  proof -
    let ?t = "country_trend df"
    obtain r where x: "x = lift_cat r" and r: "r \<in> set ?t"
      and p: "case sh_pct r of Some p \<Rightarrow> 0 < p | None \<Rightarrow> False"
      using xin by (auto simp: positive_rows_iff)
    have "x \<in> set (reindex_fill (unique (map sh_year ?t))
        (unique (map country (explode_countries (filter not_unknown df)))) (lookup_share ?t))"
      unfolding set_reindex_fill
      using r country_trend_country[OF r] lookup_share_country_trend[OF r] x by force
    then show ?thesis using p x by (simp add: country_growth_eq positive_rows_iff lift_cat_def)
  qed
qed (use country_growth_subset country_growth_distinct in blast)+



lemma share_table_cats: "sh_cat ` set (share_table cs) = snd ` fst ` set cs"
proof -
  have "sh_cat ` set (share_table cs) = snd ` set (map (\<lambda>r. (sh_year r, sh_cat r)) (share_table cs))"
    by (simp add: image_image)
  then show ?thesis by (simp only: share_table_keys set_map)
qed

text \<open>C19: the countries of chart 12 are the pieces of the country texts of dated rows whose
  whole text is not "Unknown". The filter of line 585 compares the whole cell before it is
  split, so a piece "Unknown" of a text "France, Unknown" is kept as a country.\<close>

theorem country_trend_categories:
  "c \<in> sh_cat ` set (country_trend df) \<longleftrightarrow>
     (\<exists>x\<in>set df. year x \<noteq> None \<and> country x \<noteq> Some ''Unknown''
        \<and> (\<exists>s. country x = Some s \<and> c \<in> set (str_split '', '' s)))"
proof -
  let ?rs = "explode_countries (filter not_unknown df)"
  have "c \<in> sh_cat ` set (country_trend df) \<longleftrightarrow> (\<exists>x\<in>set ?rs. \<exists>y. country_key x = Some (y, c))"
    by (force simp: country_trend_def share_table_cats fst_groupby)
  also have "\<dots> \<longleftrightarrow> (\<exists>x\<in>set (filter not_unknown df).
      \<exists>v\<in>set (case country x of None \<Rightarrow> [None] | Some s \<Rightarrow> map Some (str_split '', '' s)).
      \<exists>y. country_key (x\<lparr>country := v\<rparr>) = Some (y, c))"
    unfolding explode_countries_def bex_explode ..
  also have "\<dots> \<longleftrightarrow> (\<exists>x\<in>set df. year x \<noteq> None \<and> country x \<noteq> Some ''Unknown''
        \<and> (\<exists>s. country x = Some s \<and> c \<in> set (str_split '', '' s)))"
    by (auto simp: country_key_def not_unknown_def split: option.splits) force
  finally show ?thesis .
qed

theorem country_trend_categories_witness:
  "''Unknown'' \<in> sh_cat ` set (country_trend [sample_title 2019 ''Dramas'' ''France, Unknown''])"
  using country_trend_categories[of "''Unknown''" "[sample_title 2019 ''Dramas'' ''France, Unknown'']"]
  by (simp add: frame_eval)

theorem genre_share_year_exact_witness:
  "sum_list (dropna (map sh_pct (filter (\<lambda>r. sh_year r = 2019)
      (genre_trend_filtered [sample_title 2019 ''Dramas, International Movies'' ''France'', sample_title 2019 ''Comedies'' ''France''])))) = 1"
proof -
  let ?df = "[sample_title 2019 ''Dramas, International Movies'' ''France'', sample_title 2019 ''Comedies'' ''France'']"
  let ?r = "\<lparr>sh_year = 2019, sh_cat = ''Comedies'', sh_count = Suc 0, sh_total = 3, sh_pct = Some (1/3)\<rparr>
            :: string share_row"
  let ?t = "[?r, \<lparr>sh_year = 2019, sh_cat = ''Dramas'', sh_count = Suc 0, sh_total = 3, sh_pct = Some (1/3)\<rparr>,
      \<lparr>sh_year = 2019, sh_cat = ''International Movies'', sh_count = Suc 0, sh_total = 3, sh_pct = Some (1/3)\<rparr>]"
  have t: "genre_trend ?df = ?t"
    by (simp add: frame_eval)
  have top: "top_genres ?t = [''Comedies'', ''Dramas'', ''International Movies'']"
    by (simp add: frame_eval)
  show ?thesis
    using genre_share_year_exact[of ?df ?r 2019] by (simp add: t top)
qed

theorem international_trend_bounds_witness:
  "international_trend [sample_title 2019 ''International Movies'' ''France'']
     = [\<lparr>i_year = 2019, i_share = 1, i_smoothed = Some 1\<rparr>]
   \<and> 0 \<le> (1::real) \<and> (1::real) \<le> 1"
proof -
  have e: "international_trend [sample_title 2019 ''International Movies'' ''France'']
     = [\<lparr>i_year = 2019, i_share = 1, i_smoothed = Some 1\<rparr>]"
    by (simp add: frame_eval)
  show ?thesis using international_trend_bounds[of "\<lparr>i_year = 2019, i_share = 1, i_smoothed = Some 1\<rparr>"
      "[sample_title 2019 ''International Movies'' ''France'']"] e by simp
qed

lemma normalize_genres_fields:
  assumes "year_derived r"
  shows "year ((with_year r)\<lparr>genres := g\<rparr>) = year r" "imdb_score ((with_year r)\<lparr>genres := g\<rparr>) = imdb_score r"
    "ctype ((with_year r)\<lparr>genres := g\<rparr>) = ctype r"
  using assms by (simp_all add: with_year_def year_derived_def)

end
