(* ===== verification/Hit_Shows.thy ===== *)
theory Hit_Shows
  imports Content_Table
begin

text \<open>
  Charts 8 and 9 of \<open>src/app/visualization.py\<close>. A hit show is a title with an IMDb
  score of at least 8.0 and at least 100000 votes (lines 331 and 405; a NaN score or vote
  count compares false). Line 405 selects them again from the table reloaded at line 397,
  which holds the same rows. \<open>plot_impact_of_hit_shows_on_stock\<close> (lines 335--337)
  writes a column \<open>release_date_jitter\<close> into the global \<open>hit_shows\<close>: the release
  time in whole seconds since 1970 (\<open>astype(np.int64) // 10**9\<close>, which raises on a
  missing date) plus a uniform draw from [-5, 5). Chart 9 counts the hits per year, smooths
  the counts over 5 years with at least one period (lines 408--412) and resamples the
  whole table into calendar years by median closing price (lines 414--416).
  The days since 1970 are computed with the civil-calendar formula of proleptic
  Gregorian dates; the conversion of the float seconds back to nanoseconds is not
  modelled (the seconds are exact reals).
\<close>

definition is_hit :: "row \<Rightarrow> bool" where
  "is_hit r \<longleftrightarrow> (case (imdb_score r, imdb_votes r) of
      (Some s, Some v) \<Rightarrow> 8 \<le> s \<and> 100000 \<le> v | _ \<Rightarrow> False)"

record hit_row =
  h_row :: row
  h_jitter :: "real option"

definition hit_shows_of :: "row list \<Rightarrow> hit_row list" where
  "hit_shows_of df = map (\<lambda>r. \<lparr>h_row = with_year r, h_jitter = None\<rparr>) (filter is_hit df)"

section \<open>Chart 8: the jittered release times\<close>

text \<open>The days from 1 March of year 0 to 1 March of year \<open>y\<close>, counted in eras of
  400 years of 146097 days.\<close>

definition era_days :: "int \<Rightarrow> int" where
  "era_days y = (let era = y div 400; yoe = y - era * 400
                 in era * 146097 + (yoe * 365 + yoe div 4 - yoe div 100))"

text \<open>A year is taken to start in March, so that the leap day is the last day of a year.\<close>

definition epoch_day :: "date \<Rightarrow> int" where
  "epoch_day d =
     (let y = d_year d - (if d_month d \<le> 2 then 1 else 0);
          doy = (153 * ((d_month d + 9) mod 12) + 2) div 5 + d_day d - 1
      in era_days y + doy - 719468)"

definition epoch_seconds :: "date \<Rightarrow> int" where
  "epoch_seconds d = 86400 * epoch_day d"

text \<open>The errors a plot call raises: \<open>astype(np.int64)\<close> on a missing release date
  (chart 8, line 335), and the \<open>KeyError\<close> of a column the table does not have (the
  \<open>type\<close> column, first read by chart 3 at line 78).\<close>

datatype plot_error = NaTToInteger | KeyError string

fun epoch_column :: "row list \<Rightarrow> plot_error + int list" where
  "epoch_column [] = Inr []"
| "epoch_column (r # rs) =
     (case release_date r of
        None \<Rightarrow> Inl NaTToInteger
      | Some d \<Rightarrow> (case epoch_column rs of Inl e \<Rightarrow> Inl e | Inr ss \<Rightarrow> Inr (epoch_seconds d # ss)))"

definition valid_draws :: "real list \<Rightarrow> nat \<Rightarrow> bool" where
  "valid_draws us n \<longleftrightarrow> length us = n \<and> (\<forall>u\<in>set us. -5 \<le> u \<and> u < 5)"

definition hit_jitter_update :: "real list \<Rightarrow> hit_row list \<Rightarrow> plot_error + hit_row list" where
  "hit_jitter_update us hs =
     (case epoch_column (map h_row hs) of
        Inl e \<Rightarrow> Inl e
      | Inr ss \<Rightarrow> Inr (map2 (\<lambda>h s. h\<lparr>h_jitter := Some s\<rparr>) hs (map2 (\<lambda>s u. real_of_int s + u) ss us)))"

section \<open>Chart 9: hits per year and the yearly stock median\<close>

record hit_year_row =
  hy_year :: year
  hy_count :: nat
  hy_smoothed :: fval

definition hit_shows_per_year :: "hit_row list \<Rightarrow> hit_year_row list" where
  "hit_shows_per_year hs =
     (let t = groupby (\<lambda>h. year (h_row h)) length hs;
          sm = rolling_mean 5 1 (map (\<lambda>(y, c). Some (real c)) t)
      in map2 (\<lambda>(y, c) s. \<lparr>hy_year = y, hy_count = c, hy_smoothed = s\<rparr>) t sm)"

definition year_rows :: "row list \<Rightarrow> year \<Rightarrow> row list" where
  "year_rows rs y = filter (\<lambda>r. map_option d_year (release_date r) = Some y) rs"

definition df_sampled :: "row list \<Rightarrow> (year \<times> fval) list" where
  "df_sampled df =
     (let ys = [d_year d. Some d \<leftarrow> map release_date df]
      in if ys = [] then []
         else map (\<lambda>y. (y, nanmedian (map close (year_rows df y)))) [Min (set ys)..Max (set ys)])"

text \<open>The calendar successor of a date, to state what the day count counts.\<close>

definition next_day :: "date \<Rightarrow> date" where
  "next_day d = (if d_day d < days_in_month (d_year d) (d_month d) then d\<lparr>d_day := d_day d + 1\<rparr>
                 else if d_month d < 12 then \<lparr>d_year = d_year d, d_month = d_month d + 1, d_day = 1\<rparr>
                 else \<lparr>d_year = d_year d + 1, d_month = 1, d_day = 1\<rparr>)"

text \<open>A hit show of a year, for the witnesses.\<close>

definition sample_hit :: "year \<Rightarrow> real \<Rightarrow> real \<Rightarrow> row" where
  "sample_hit y s v = (sample_row y s 10)\<lparr>imdb_votes := Some v\<rparr>"

declare is_hit_def [frame_eval] hit_shows_of_def [frame_eval] era_days_def [frame_eval] epoch_day_def [frame_eval]
  epoch_seconds_def [frame_eval] valid_draws_def [frame_eval] hit_jitter_update_def [frame_eval]
  hit_shows_per_year_def [frame_eval] year_rows_def [frame_eval] df_sampled_def [frame_eval]
  next_day_def [frame_eval] sample_hit_def [frame_eval]

section \<open>The day count\<close>

lemma dvd_shift_400:
  fixes e s :: int
  assumes "k dvd 400"
  shows "k dvd (400 * e + s) \<longleftrightarrow> k dvd s"
proof -
  have "k dvd 400 * e" using assms by simp
  then show ?thesis by (simp add: dvd_add_right_iff)
qed

lemma lin_step:
  fixes a b c d4 d100 x z d1 d2 e r :: int
  shows "a - b = c \<Longrightarrow> d4 = x + a \<Longrightarrow> d100 = z + b \<Longrightarrow> d1 = e + ((r + 1) * 365 + d4 - d100)
   \<Longrightarrow> d2 = e + (r * 365 + x - z) \<Longrightarrow> d1 = d2 + 365 + c"
  by (simp add: algebra_simps)

lemma epoch_year_step:
  "era_days y = era_days (y - 1) + 365 + (if is_leap y then 1 else 0)"
proof -
  define e where "e = (y - 1) div 400"
  define r where "r = (y - 1) mod 400"
  have y: "y = 400 * e + (r + 1)" and r: "0 \<le> r" "r < 400" unfolding e_def r_def by auto
  have p: "era_days (y - 1) = e * 146097 + (r * 365 + r div 4 - r div 100)"
  proof -
    have "(y - 1) div 400 = e" "y - 1 - e * 400 = r" unfolding e_def r_def
      by (simp_all add: minus_div_mult_eq_mod[symmetric] mult.commute)
    then show ?thesis by (simp add: era_days_def Let_def)
  qed
  show ?thesis
  proof (cases "r = 399")
    case True
    then have y4: "y = 400 * (e + 1)" using y by simp
    then have "era_days y = (e + 1) * 146097" by (simp add: era_days_def)
    moreover have "is_leap y" unfolding is_leap_def y4 by simp
    ultimately show ?thesis using p True by simp
  next
    case False
    then have r1: "r + 1 < 400" "0 < r + 1" using r by simp_all
    have "y div 400 = e" using y r1 by (simp add: div_pos_pos_trivial)
    then have q: "era_days y = e * 146097 + ((r + 1) * 365 + (r + 1) div 4 - (r + 1) div 100)"
      using y by (simp add: era_days_def Let_def)
    have l: "is_leap y \<longleftrightarrow> 4 dvd (r + 1) \<and> \<not> 100 dvd (r + 1)"
    proof -
      have "\<not> 400 dvd (r + 1)" using r1 by (auto dest: zdvd_imp_le)
      then show ?thesis unfolding is_leap_def y by (simp add: dvd_shift_400)
    qed
    have "(if 4 dvd (r + 1) then 1 else 0) - (if 100 dvd (r + 1) then 1 else (0::int))
          = (if is_leap y then 1 else 0)"
      unfolding l by (auto dest: dvd_trans[of 4 100, rotated])
    moreover have "(r + 1) div 4 = r div 4 + (if 4 dvd (r + 1) then 1 else 0)"
      by (rule div_succ_step) simp
    moreover have "(r + 1) div 100 = r div 100 + (if 100 dvd (r + 1) then 1 else 0)"
      by (rule div_succ_step) simp
    ultimately show ?thesis using q p by (rule lin_step)
  qed
qed

text \<open>C20: the day count used for the jitter of chart 8 is the number of days since
  1 January 1970: it steps by exactly one from each well-formed date to the next one,
  across month ends, year ends and the leap day of every Gregorian leap year.\<close>

theorem epoch_day_next_day:
  assumes "1 \<le> d_month d" "d_month d \<le> 12" "1 \<le> d_day d" "d_day d \<le> days_in_month (d_year d) (d_month d)"
  shows "epoch_day (next_day d) = epoch_day d + 1"
proof (cases "d_day d < days_in_month (d_year d) (d_month d)")
  case True
  then show ?thesis by (simp add: next_day_def epoch_day_def Let_def)
next
  case False
  then have dd: "d_day d = days_in_month (d_year d) (d_month d)" using assms(4) by simp
  show ?thesis
  proof (cases "d_month d = 2")
    case True
    then show ?thesis
      using epoch_year_step[of "d_year d"] dd False
      by (simp add: next_day_def epoch_day_def Let_def days_in_month_def split: if_splits)
  next
    case m2: False
    have "d_month d = 1 \<or> d_month d = 3 \<or> d_month d = 4 \<or> d_month d = 5 \<or> d_month d = 6
        \<or> d_month d = 7 \<or> d_month d = 8 \<or> d_month d = 9 \<or> d_month d = 10 \<or> d_month d = 11
        \<or> d_month d = 12" using assms(1,2) m2 by presburger
    then show ?thesis using dd False
      by (elim disjE) (simp_all add: next_day_def epoch_day_def Let_def days_in_month_def)
  qed
qed

section \<open>The jitter step and the yearly tables\<close>

lemma epoch_column_error: "epoch_column rs = Inl e \<Longrightarrow> e = NaTToInteger"
  by (induction rs) (auto split: option.splits sum.splits)

lemma epoch_column_Inl: "epoch_column rs = Inl NaTToInteger \<longleftrightarrow> (\<exists>r\<in>set rs. release_date r = None)"
proof (induction rs)
  case Nil
  then show ?case by simp
next
  case (Cons r rs)
  show ?case
  proof (cases "release_date r")
    case None
    then show ?thesis by simp
  next
    case (Some d)
    have "epoch_column rs = Inl NaTToInteger \<or> (\<exists>ss. epoch_column rs = Inr ss)"
      by (metis epoch_column_error sum.exhaust)
    then show ?thesis using Cons.IH Some by auto
  qed
qed

lemma epoch_column_Inr:
  "epoch_column rs = Inr ss \<Longrightarrow>
     length ss = length rs \<and> (\<forall>i<length rs. \<exists>d. release_date (rs ! i) = Some d \<and> ss ! i = epoch_seconds d)"
proof (induction rs arbitrary: ss)
  case Nil
  then show ?case by simp
next
  case (Cons r rs)
  then obtain d ss' where d: "release_date r = Some d" and t: "epoch_column rs = Inr ss'"
    and ss: "ss = epoch_seconds d # ss'"
    by (auto split: option.splits sum.splits)
  show ?case using Cons.IH[OF t] d ss by (auto simp: nth_Cons split: nat.splits)
qed

lemma map_h_row_map2:
  "length xs = length hs \<Longrightarrow> map h_row (map2 (\<lambda>h s. h\<lparr>h_jitter := Some s\<rparr>) hs xs) = map h_row hs"
  by (induction hs arbitrary: xs) (auto simp: length_Suc_conv)

lemma hit_jitter_update_rows:
  assumes "hit_jitter_update us hs = Inr hs'" and "length us = length hs"
  shows "map h_row hs' = map h_row hs"
proof -
  obtain ss where e: "epoch_column (map h_row hs) = Inr ss"
    and hs': "hs' = map2 (\<lambda>h s. h\<lparr>h_jitter := Some s\<rparr>) hs (map2 (\<lambda>s u. real_of_int s + u) ss us)"
    using assms(1) by (auto simp: hit_jitter_update_def split: sum.splits)
  have "length ss = length hs" using epoch_column_Inr[OF e] by simp
  then show ?thesis unfolding hs' using assms(2) by (intro map_h_row_map2) simp
qed

lemma epoch_column_dated:
  "\<forall>r\<in>set rs. release_date r \<noteq> None \<Longrightarrow> \<exists>ss. epoch_column rs = Inr ss"
  by (metis epoch_column_Inl epoch_column_error sum.exhaust)

text \<open>C21: the jitter step of chart 8 fails exactly when some hit show has no release
  date (pandas refuses to convert NaT to an integer); otherwise it succeeds.\<close>

theorem hit_jitter_update_error:
  "hit_jitter_update us hs = Inl NaTToInteger \<longleftrightarrow> (\<exists>h\<in>set hs. release_date (h_row h) = None)"
proof -
  have "hit_jitter_update us hs = Inl NaTToInteger \<longleftrightarrow> epoch_column (map h_row hs) = Inl NaTToInteger"
    by (auto simp: hit_jitter_update_def split: sum.splits)
  then show ?thesis by (simp add: epoch_column_Inl)
qed

text \<open>The first day of the Unix epoch, and the dates reached from it day by day.\<close>

lemma next_day_wf:
  assumes "1 \<le> d_month d" "d_month d \<le> 12" "1 \<le> d_day d" "d_day d \<le> days_in_month (d_year d) (d_month d)"
  shows "1 \<le> d_month (next_day d) \<and> d_month (next_day d) \<le> 12 \<and> 1 \<le> d_day (next_day d)
         \<and> d_day (next_day d) \<le> days_in_month (d_year (next_day d)) (d_month (next_day d))"
  using assms by (auto simp: next_day_def days_in_month_def)

lemma epoch_day_iterate:
  "epoch_day ((next_day ^^ n) \<lparr>d_year = 1970, d_month = 1, d_day = 1\<rparr>) = int n
   \<and> 1 \<le> d_month ((next_day ^^ n) \<lparr>d_year = 1970, d_month = 1, d_day = 1\<rparr>)
   \<and> d_month ((next_day ^^ n) \<lparr>d_year = 1970, d_month = 1, d_day = 1\<rparr>) \<le> 12
   \<and> 1 \<le> d_day ((next_day ^^ n) \<lparr>d_year = 1970, d_month = 1, d_day = 1\<rparr>)
   \<and> d_day ((next_day ^^ n) \<lparr>d_year = 1970, d_month = 1, d_day = 1\<rparr>)
       \<le> days_in_month (d_year ((next_day ^^ n) \<lparr>d_year = 1970, d_month = 1, d_day = 1\<rparr>))
                       (d_month ((next_day ^^ n) \<lparr>d_year = 1970, d_month = 1, d_day = 1\<rparr>))"
proof (induction n)
  case 0
  show ?case by (simp add: epoch_day_def era_days_def days_in_month_def)
next
  case (Suc n)
  let ?d = "(next_day ^^ n) \<lparr>d_year = 1970, d_month = 1, d_day = 1\<rparr>"
  have "epoch_day (next_day ?d) = epoch_day ?d + 1"
    using Suc.IH by (intro epoch_day_next_day) simp_all
  then show ?case using Suc.IH next_day_wf[of ?d] by simp
qed

text \<open>C22: with draws from [-5, 5), one per hit show, the jitter step keeps every hit show
  and plots each one within 5 seconds of its release in seconds since the Unix epoch
  (\<open>astype(np.int64) // 10**9\<close>, line 335): a title released n days after
  1 January 1970 is plotted within 5 seconds of 86400 n.\<close>

theorem hit_jitter_bounds:
  assumes "valid_draws us (length hs)" and "hit_jitter_update us hs = Inr hs'"
  shows "map h_row hs' = map h_row hs \<and>
         (\<forall>h\<in>set hs'. \<exists>d s. release_date (h_row h) = Some d \<and> h_jitter h = Some s
            \<and> (\<forall>n. (next_day ^^ n) \<lparr>d_year = 1970, d_month = 1, d_day = 1\<rparr> = d
                    \<longrightarrow> real (86400 * n) - 5 \<le> s \<and> s < real (86400 * n) + 5))"
proof -
  obtain ss where e: "epoch_column (map h_row hs) = Inr ss"
    and hs': "hs' = map2 (\<lambda>h s. h\<lparr>h_jitter := Some s\<rparr>) hs (map2 (\<lambda>s u. real_of_int s + u) ss us)"
    using assms(2) by (auto simp: hit_jitter_update_def split: sum.splits)
  have ls: "length ss = length hs"
    and nth: "\<And>i. i < length hs \<Longrightarrow> \<exists>d. release_date (h_row (hs ! i)) = Some d \<and> ss ! i = epoch_seconds d"
    using epoch_column_Inr[OF e] by auto
  have lu: "length us = length hs" and ub: "\<And>u. u \<in> set us \<Longrightarrow> -5 \<le> u \<and> u < 5"
    using assms(1) by (auto simp: valid_draws_def)
  have len: "length hs' = length hs" using ls lu hs' by simp
  have at: "hs' ! i = (hs ! i)\<lparr>h_jitter := Some (real_of_int (ss ! i) + us ! i)\<rparr>" if "i < length hs" for i
    using that ls lu hs' by simp
  have "map h_row hs' = map h_row hs" using hit_jitter_update_rows[OF assms(2) lu] .
  moreover have "\<exists>d s. release_date (h_row h) = Some d \<and> h_jitter h = Some s
       \<and> (\<forall>n. (next_day ^^ n) \<lparr>d_year = 1970, d_month = 1, d_day = 1\<rparr> = d
               \<longrightarrow> real (86400 * n) - 5 \<le> s \<and> s < real (86400 * n) + 5)"
    if "h \<in> set hs'" for h
  proof -
    obtain i where i: "i < length hs" and h: "h = hs' ! i" using \<open>h \<in> set hs'\<close> len by (auto simp: in_set_conv_nth)
    obtain d where d: "release_date (h_row (hs ! i)) = Some d" and s: "ss ! i = epoch_seconds d"
      using nth[OF i] by blast
    have u: "-5 \<le> us ! i \<and> us ! i < 5" using ub i lu by simp
    have "real (86400 * n) - 5 \<le> real_of_int (ss ! i) + us ! i \<and> real_of_int (ss ! i) + us ! i < real (86400 * n) + 5"
      if "(next_day ^^ n) \<lparr>d_year = 1970, d_month = 1, d_day = 1\<rparr> = d" for n
    proof -
      have "ss ! i = 86400 * int n" using epoch_day_iterate[of n] that s by (simp add: epoch_seconds_def)
      then show ?thesis using u by simp
    qed
    then show ?thesis using d at[OF i] h by simp
  qed
  ultimately show ?thesis by blast
qed

lemma hit_shows_per_year_member:
  assumes "r \<in> set (hit_shows_per_year hs)"
  shows "\<exists>i<length (groupby (\<lambda>h. year (h_row h)) length hs).
           (hy_year r, hy_count r) = groupby (\<lambda>h. year (h_row h)) length hs ! i
           \<and> hy_smoothed r = rolling_mean 5 1 (map (\<lambda>(y, c). Some (real c)) (groupby (\<lambda>h. year (h_row h)) length hs)) ! i"
proof -
  let ?t = "groupby (\<lambda>h. year (h_row h)) length hs"
  let ?sm = "rolling_mean 5 1 (map (\<lambda>(y, c). Some (real c)) ?t)"
  obtain i where i: "i < length ?t" and r: "r = (case ?t ! i of (y, c) \<Rightarrow> \<lambda>s. \<lparr>hy_year = y, hy_count = c, hy_smoothed = s\<rparr>) (?sm ! i)"
    using set_map2_nth[OF assms[unfolded hit_shows_per_year_def Let_def]] by blast
  then show ?thesis by (intro exI[of _ i]) (simp split: prod.splits)
qed

text \<open>C23: every row of the chart-9 table counts at least one hit, and its smoothed count
  (5-year trailing mean with at least one period) is defined and between 1 and the number
  of hit shows.\<close>

theorem hit_shows_per_year_bounds:
  assumes "r \<in> set (hit_shows_per_year hs)"
  shows "1 \<le> hy_count r \<and> (\<exists>v. hy_smoothed r = Some v \<and> 1 \<le> v \<and> v \<le> real (length hs))"
proof -
  let ?t = "groupby (\<lambda>h. year (h_row h)) length hs"
  let ?vs = "map (\<lambda>(y, c). Some (real c)) ?t"
  obtain i where i: "i < length ?t" and ri: "(hy_year r, hy_count r) = ?t ! i"
    and si: "hy_smoothed r = rolling_mean 5 1 ?vs ! i"
    using hit_shows_per_year_member[OF assms] by blast
  have inb: "\<forall>v. Some v \<in> set ?vs \<longrightarrow> 1 \<le> v \<and> v \<le> real (length hs)"
  proof (intro allI impI)
    fix v assume "Some v \<in> set ?vs"
    then obtain k c where "(k, c) \<in> set ?t" and "v = real c" by auto
    then show "1 \<le> v \<and> v \<le> real (length hs)" using groupby_length_bounds[of k c] by simp
  qed
  have "(hy_year r, hy_count r) \<in> set ?t" using i ri by (metis nth_mem)
  then have c: "1 \<le> hy_count r" using groupby_length_bounds by blast
  have "None \<notin> set ?vs" by auto
  then have "None \<notin> set (rolling_mean 5 1 ?vs)" by (intro rolling_mean_no_nan) auto
  moreover have "rolling_mean 5 1 ?vs ! i \<in> set (rolling_mean 5 1 ?vs)" using i by simp
  ultimately obtain v where v: "rolling_mean 5 1 ?vs ! i = Some v"
    by (cases "rolling_mean 5 1 ?vs ! i") auto
  have "1 \<le> v \<and> v \<le> real (length hs)" using rolling_mean_between[OF v _ inb] i by simp
  then show ?thesis using c si v by simp
qed

lemma df_sampled_member:
  "(y, m) \<in> set (df_sampled df) \<Longrightarrow> m = nanmedian (map close (year_rows df y))"
  by (auto simp: df_sampled_def Let_def split: if_splits)

text \<open>C25: each defined yearly median of the closing price in chart 9 lies between two
  closing prices of titles released in that year.\<close>

theorem df_sampled_median_bounds:
  assumes "(y, Some v) \<in> set (df_sampled df)"
  shows "\<exists>r1\<in>set df. \<exists>r2\<in>set df. map_option d_year (release_date r1) = Some y
           \<and> map_option d_year (release_date r2) = Some y
           \<and> (\<exists>a b. close r1 = Some a \<and> close r2 = Some b \<and> a \<le> v \<and> v \<le> b)"
proof -
  have "nanmedian (map close (year_rows df y)) = Some v" using df_sampled_member[OF assms] by simp
  then obtain a b where a: "Some a \<in> set (map close (year_rows df y))"
    and b: "Some b \<in> set (map close (year_rows df y))" and ab: "a \<le> v" "v \<le> b"
    by (blast dest: nanmedian_in_range)
  from a obtain r1 where r1: "r1 \<in> set (year_rows df y)" "close r1 = Some a" by auto
  from b obtain r2 where r2: "r2 \<in> set (year_rows df y)" "close r2 = Some b" by auto
  have "r1 \<in> set df" "map_option d_year (release_date r1) = Some y"
       "r2 \<in> set df" "map_option d_year (release_date r2) = Some y"
    using r1(1) r2(1) by (simp_all add: year_rows_def)
  then show ?thesis using r1(2) r2(2) ab by blast
qed

section \<open>Witnesses\<close>

theorem epoch_day_next_day_witness:
  "epoch_day (next_day \<lparr>d_year = 2000, d_month = 2, d_day = 29\<rparr>) = epoch_day \<lparr>d_year = 2000, d_month = 2, d_day = 29\<rparr> + 1
   \<and> epoch_day \<lparr>d_year = 2000, d_month = 2, d_day = 29\<rparr> = 11016"
  using epoch_day_next_day[of "\<lparr>d_year = 2000, d_month = 2, d_day = 29\<rparr>"]
  by (simp add: frame_eval)

theorem hit_jitter_bounds_witness:
  "hit_jitter_update [1/2] (hit_shows_of [(sample_hit 1970 9 150000)\<lparr>release_date := Some \<lparr>d_year = 1970, d_month = 1, d_day = 2\<rparr>\<rparr>])
     = Inr [\<lparr>h_row = with_year ((sample_hit 1970 9 150000)\<lparr>release_date := Some \<lparr>d_year = 1970, d_month = 1, d_day = 2\<rparr>\<rparr>),
             h_jitter = Some (86400 + 1/2)\<rparr>]
   \<and> (next_day ^^ 1) \<lparr>d_year = 1970, d_month = 1, d_day = 1\<rparr> = \<lparr>d_year = 1970, d_month = 1, d_day = 2\<rparr>
   \<and> real (86400 * 1) - 5 \<le> (86400 + 1/2 :: real) \<and> (86400 + 1/2 :: real) < real (86400 * 1) + 5"
proof -
  let ?r = "(sample_hit 1970 9 150000)\<lparr>release_date := Some \<lparr>d_year = 1970, d_month = 1, d_day = 2\<rparr>\<rparr>"
  have u: "hit_jitter_update [1/2] (hit_shows_of [?r])
     = Inr [\<lparr>h_row = with_year ?r, h_jitter = Some (86400 + 1/2)\<rparr>]"
    by (simp add: frame_eval sample_hit_def sample_row_def)
  have v: "valid_draws [1/2] (length (hit_shows_of [?r]))"
    by (simp add: frame_eval sample_hit_def sample_row_def)
  have n: "(next_day ^^ 1) \<lparr>d_year = 1970, d_month = 1, d_day = 1\<rparr> = \<lparr>d_year = 1970, d_month = 1, d_day = 2\<rparr>"
    by (simp add: next_day_def days_in_month_def)
  have "release_date (with_year ?r) = Some \<lparr>d_year = 1970, d_month = 1, d_day = 2\<rparr>"
    by (simp add: with_year_def)
  then show ?thesis using hit_jitter_bounds[OF v u] u n by auto
qed

theorem hit_shows_per_year_bounds_witness:
  "hit_shows_per_year (hit_shows_of [sample_hit 2018 8.5 200000, sample_hit 2019 9 150000, sample_hit 2019 8 100000])
     = [\<lparr>hy_year = 2018, hy_count = 1, hy_smoothed = Some 1\<rparr>, \<lparr>hy_year = 2019, hy_count = 2, hy_smoothed = Some (3/2)\<rparr>]
   \<and> 1 \<le> (3/2::real) \<and> (3/2::real) \<le> 3"
proof -
  let ?hs = "hit_shows_of [sample_hit 2018 8.5 200000, sample_hit 2019 9 150000, sample_hit 2019 8 100000]"
  have e: "hit_shows_per_year ?hs
     = [\<lparr>hy_year = 2018, hy_count = 1, hy_smoothed = Some 1\<rparr>, \<lparr>hy_year = 2019, hy_count = 2, hy_smoothed = Some (3/2)\<rparr>]"
    by (simp add: frame_eval sample_hit_def)
  have l: "length ?hs = 3" by (simp add: frame_eval sample_hit_def)
  show ?thesis
    using hit_shows_per_year_bounds[of "\<lparr>hy_year = 2019, hy_count = 2, hy_smoothed = Some (3/2)\<rparr>" ?hs] e l by simp
qed

theorem df_sampled_median_bounds_witness:
  "df_sampled [sample_row 2018 7 10, sample_row 2020 7 30, sample_row 2020 7 20] = [(2018, Some 10), (2019, None), (2020, Some 25)]
   \<and> (20::real) \<le> 25 \<and> (25::real) \<le> 30"
proof -
  have e: "df_sampled [sample_row 2018 7 10, sample_row 2020 7 30, sample_row 2020 7 20] = [(2018, Some 10), (2019, None), (2020, Some 25)]"
    by (simp add: frame_eval)
  show ?thesis using df_sampled_median_bounds[of 2020 25 "[sample_row 2018 7 10, sample_row 2020 7 30, sample_row 2020 7 20]"] e
    by simp
qed

end
