(* ===== verification/Volatility.thy ===== *)
theory Volatility
  imports Content_Table
begin

text \<open>
  Chart 7 of \<open>src/app/visualization.py\<close> (lines 255--328): the titles released
  before 2010 and after 2015 are split off (lines 258--259), each part is resampled into
  calendar quarters by mean (lines 261--262), \<open>fit_trendline\<close> (lines 264--275)
  drops the quarters with a NaN and fits an ordinary least-squares line of volatility
  on score when at least two quarters remain, and \<open>Series.corr\<close> (lines 280--281)
  gives the Pearson correlation, NaN (\<open>None\<close>) when it is undefined. The least-squares
  fit is that of scikit-learn's \<open>LinearRegression\<close>: slope \<open>Sxy / Sxx\<close> and the
  intercept through the means; when all scores are equal the minimum-norm solution has
  slope 0 and predicts the mean volatility.
\<close>

definition early_cut :: date where "early_cut = year_start 2010"
definition recent_cut :: date where "recent_cut = year_start 2015"

definition is_early :: "row \<Rightarrow> bool" where
  "is_early r \<longleftrightarrow> (case release_date r of Some d \<Rightarrow> date_lt d early_cut | None \<Rightarrow> False)"

definition is_recent :: "row \<Rightarrow> bool" where
  "is_recent r \<longleftrightarrow> (case release_date r of Some d \<Rightarrow> date_lt recent_cut d | None \<Rightarrow> False)"

section \<open>Quarterly resampling\<close>

definition quarter_index :: "date \<Rightarrow> int" where
  "quarter_index d = 4 * d_year d + (d_month d - 1) div 3"

record qrow =
  q_index :: int
  q_score :: fval
  q_vol :: fval

definition quarter_rows :: "row list \<Rightarrow> int \<Rightarrow> row list" where
  "quarter_rows rs k = filter (\<lambda>r. map_option quarter_index (release_date r) = Some k) rs"

definition resample_quarterly :: "row list \<Rightarrow> qrow list" where
  "resample_quarterly rs =
     (let ks = [quarter_index d. Some d \<leftarrow> map release_date rs]
      in if ks = [] then []
         else map (\<lambda>k. \<lparr>q_index = k, q_score = nanmean (map imdb_score (quarter_rows rs k)),
                         q_vol = nanmean (map volatility (quarter_rows rs k))\<rparr>)
                [Min (set ks)..Max (set ks)])"

section \<open>Least squares and correlation\<close>

definition mean_of :: "real list \<Rightarrow> real" where
  "mean_of xs = sum_list xs / real (length xs)"

definition sxy :: "(real \<times> real) list \<Rightarrow> real" where
  "sxy ps = (let mx = mean_of (map fst ps); my = mean_of (map snd ps)
             in sum_list (map (\<lambda>(x, y). (x - mx) * (y - my)) ps))"

definition sxx :: "(real \<times> real) list \<Rightarrow> real" where
  "sxx ps = sxy (map (\<lambda>(x, y). (x, x)) ps)"

definition syy :: "(real \<times> real) list \<Rightarrow> real" where
  "syy ps = sxy (map (\<lambda>(x, y). (y, y)) ps)"

definition ols_fit :: "(real \<times> real) list \<Rightarrow> real \<times> real" where
  "ols_fit ps = (let a = (if sxx ps = 0 then 0 else sxy ps / sxx ps)
                 in (a, mean_of (map snd ps) - a * mean_of (map fst ps)))"

definition pearson :: "(real \<times> real) list \<Rightarrow> fval" where
  "pearson ps = (if ps = [] \<or> sxx ps = 0 \<or> syy ps = 0 then None
                 else Some (sxy ps / sqrt (sxx ps * syy ps)))"

record trend_row =
  t_index :: int
  t_score :: real
  t_vol :: real
  t_trend :: fval

definition complete_pairs :: "qrow list \<Rightarrow> (int \<times> real \<times> real) list" where
  "complete_pairs qs = [(k, x, y). (k, Some x, Some y) \<leftarrow> map (\<lambda>q. (q_index q, q_score q, q_vol q)) qs]"

definition fit_trendline :: "qrow list \<Rightarrow> trend_row list" where
  "fit_trendline qs =
     (let ps = complete_pairs qs
      in if 1 < length ps
         then (let (a, b) = ols_fit (map snd ps)
               in map (\<lambda>(k, x, y). \<lparr>t_index = k, t_score = x, t_vol = y, t_trend = Some (a * x + b)\<rparr>) ps)
         else map (\<lambda>(k, x, y). \<lparr>t_index = k, t_score = x, t_vol = y, t_trend = None\<rparr>) ps)"

definition trend_corr :: "trend_row list \<Rightarrow> fval" where
  "trend_corr ts = pearson (map (\<lambda>t. (t_score t, t_vol t)) ts)"

definition volatility_split :: "row list \<Rightarrow> trend_row list \<times> trend_row list \<times> fval \<times> fval" where
  "volatility_split df =
     (let early = fit_trendline (resample_quarterly (filter is_early df));
          recent = fit_trendline (resample_quarterly (filter is_recent df))
      in (early, recent, trend_corr early, trend_corr recent))"

definition centered :: "(real \<times> real) list \<Rightarrow> (real \<times> real) list" where
  "centered ps = map (\<lambda>(x, y). (x - mean_of (map fst ps), y - mean_of (map snd ps))) ps"

declare early_cut_def [frame_eval] recent_cut_def [frame_eval] is_early_def [frame_eval]
  is_recent_def [frame_eval] quarter_index_def [frame_eval] quarter_rows_def [frame_eval]
  resample_quarterly_def [frame_eval] mean_of_def [frame_eval] sxy_def [frame_eval]
  sxx_def [frame_eval] syy_def [frame_eval] ols_fit_def [frame_eval] pearson_def [frame_eval]
  complete_pairs_def [frame_eval] fit_trendline_def [frame_eval] trend_corr_def [frame_eval]
  volatility_split_def [frame_eval] centered_def [frame_eval]

section \<open>Helper lemmas\<close>

lemma sum_list_pairs_expand:
  "sum_list (map (\<lambda>(x, y). (x - c) * (y - d)) ps)
   = sum_list (map (\<lambda>(x, y). x * y) ps) - d * sum_list (map fst ps) - c * sum_list (map snd ps)
     + real (length ps) * c * (d::real)"
  by (induction ps) (auto simp: algebra_simps)

lemma sum_squares_nonneg: "0 \<le> sum_list (map (\<lambda>(a, b). (a::real)\<^sup>2) ps)"
  by (induction ps) auto

lemma sum_squares_zero:
  "sum_list (map (\<lambda>(a, b). (a::real)\<^sup>2) ps) = 0 \<Longrightarrow> \<forall>p\<in>set ps. fst p = 0"
proof (induction ps)
  case (Cons p ps)
  have "0 \<le> sum_list (map (\<lambda>(a, b). (a::real)\<^sup>2) ps)" by (rule sum_squares_nonneg)
  moreover have "0 \<le> (fst p)\<^sup>2" by simp
  ultimately show ?case using Cons by (cases p) (auto simp: add_nonneg_eq_0_iff)
qed simp

lemma cauchy_schwarz_pairs:
  fixes ps :: "(real \<times> real) list"
  shows "(sum_list (map (\<lambda>(a, b). a * b) ps))\<^sup>2
     \<le> sum_list (map (\<lambda>(a, b). a\<^sup>2) ps) * sum_list (map (\<lambda>(a, b). b\<^sup>2) ps)"
proof -
  define A where "A = sum_list (map (\<lambda>(a, b). a\<^sup>2) ps)"
  define B where "B = sum_list (map (\<lambda>(a, b). a * b) ps)"
  define C where "C = sum_list (map (\<lambda>(a, b). b\<^sup>2) ps)"
  have quad: "0 \<le> A * t\<^sup>2 + 2 * B * t + C" for t :: real
  proof -
    have "0 \<le> sum_list (map (\<lambda>(a, b). (a * t + b)\<^sup>2) ps)"
      by (induction ps) auto
    also have "\<dots> = A * t\<^sup>2 + 2 * B * t + C"
      unfolding A_def B_def C_def by (induction ps) (auto simp: algebra_simps power2_eq_square)
    finally show ?thesis .
  qed
  have A0: "0 \<le> A" unfolding A_def by (rule sum_squares_nonneg)
  show ?thesis
  proof (cases "A = 0")
    case True
    have "\<forall>p\<in>set ps. fst p = 0" using True unfolding A_def by (rule sum_squares_zero)
    then have "B = 0" unfolding B_def by (induction ps) auto
    then show ?thesis using True by (simp add: A_def B_def C_def)
  next
    case False
    with A0 have Apos: "0 < A" by simp
    have "0 \<le> A * (- B / A)\<^sup>2 + 2 * B * (- B / A) + C" by (rule quad)
    also have "\<dots> = C - B\<^sup>2 / A" using Apos by (simp add: field_simps power2_eq_square)
    finally have "B\<^sup>2 / A \<le> C" by simp
    then have "B\<^sup>2 \<le> C * A" using Apos by (simp add: divide_le_eq)
    then show ?thesis by (simp add: A_def B_def C_def mult.commute)
  qed
qed

lemma sum_mean_mult: "real (length xs) * mean_of xs = sum_list (xs :: real list)"
  by (cases "xs = []") (simp_all add: mean_of_def)

lemma sxy_expand:
  "sxy ps = sum_list (map (\<lambda>(x, y). x * y) ps)
            - real (length ps) * mean_of (map fst ps) * mean_of (map snd ps)"
proof -
  let ?mx = "mean_of (map fst ps)" and ?my = "mean_of (map snd ps)" and ?n = "real (length ps)"
  have "sxy ps = sum_list (map (\<lambda>(x, y). x * y) ps) - ?my * sum_list (map fst ps)
                 - ?mx * sum_list (map snd ps) + ?n * ?mx * ?my"
    by (simp add: sxy_def Let_def sum_list_pairs_expand)
  also have "\<dots> = sum_list (map (\<lambda>(x, y). x * y) ps) - ?n * ?mx * ?my"
    using sum_mean_mult[of "map fst ps", symmetric] sum_mean_mult[of "map snd ps", symmetric]
    by (simp add: algebra_simps)
  finally show ?thesis .
qed

lemma sxx_expand:
  "sxx ps = sum_list (map (\<lambda>(x, y). x * x) ps) - real (length ps) * (mean_of (map fst ps))\<^sup>2"
  by (simp add: sxx_def sxy_expand comp_def case_prod_beta' power2_eq_square)

lemma sum_residuals:
  fixes ps :: "(real \<times> real) list"
  shows "sum_list (map (\<lambda>(x, y). y - (a * x + b)) ps)
   = sum_list (map snd ps) - a * sum_list (map fst ps) - real (length ps) * b"
  by (induction ps) (auto simp: algebra_simps)

lemma sum_x_residuals:
  fixes ps :: "(real \<times> real) list"
  shows "sum_list (map (\<lambda>(x, y). x * (y - (a * x + b))) ps)
   = sum_list (map (\<lambda>(x, y). x * y) ps) - a * sum_list (map (\<lambda>(x, y). x * x) ps) - b * sum_list (map fst ps)"
  by (induction ps) (auto simp: algebra_simps)

lemma sxy_centered: "sxy ps = sum_list (map (\<lambda>(a, b). a * b) (centered ps))"
  by (simp add: sxy_def centered_def Let_def comp_def case_prod_beta')

lemma sxx_centered: "sxx ps = sum_list (map (\<lambda>(a, b). a\<^sup>2) (centered ps))"
  by (simp add: sxx_def sxy_def centered_def Let_def comp_def case_prod_beta' power2_eq_square)

lemma syy_centered: "syy ps = sum_list (map (\<lambda>(a, b). b\<^sup>2) (centered ps))"
  by (simp add: syy_def sxy_def centered_def Let_def comp_def case_prod_beta' power2_eq_square)

lemma sxy_sq_le: "(sxy ps)\<^sup>2 \<le> sxx ps * syy ps"
  unfolding sxy_centered sxx_centered syy_centered by (rule cauchy_schwarz_pairs)

lemma sxx_nonneg: "0 \<le> sxx ps"
  unfolding sxx_centered by (rule sum_squares_nonneg)

lemma sum_squares_snd_nonneg: "0 \<le> sum_list (map (\<lambda>(a, b). (b::real)\<^sup>2) ps)"
  by (induction ps) auto

lemma syy_nonneg: "0 \<le> syy ps"
  unfolding syy_centered by (rule sum_squares_snd_nonneg)

lemma abs_le_one_div: "\<bar>x\<bar> \<le> y \<Longrightarrow> 0 < y \<Longrightarrow> -1 \<le> x / y \<and> x / (y::real) \<le> 1"
  by (auto simp: divide_le_eq le_divide_eq abs_le_iff)

lemma sxx_single: "sxx [p] = 0"
  by (simp add: sxx_def sxy_def mean_of_def case_prod_beta')

lemma pearson_short: "length ps \<le> 1 \<Longrightarrow> pearson ps = None"
  by (cases ps) (auto simp: pearson_def sxx_single)

lemma complete_pairs_fit: "map (\<lambda>t. (t_score t, t_vol t)) (fit_trendline qs) = map snd (complete_pairs qs)"
  by (simp add: fit_trendline_def Let_def comp_def case_prod_beta' split: prod.splits)

lemma early_upto_2010: "is_early r \<Longrightarrow> release_date r = Some d \<Longrightarrow> d_year d \<le> 2010"
  by (auto simp: is_early_def early_cut_def year_start_def date_lt_def less_prod_def)

lemma early_before_2010:
  "is_early r \<Longrightarrow> release_date r = Some d \<Longrightarrow> valid_date d \<Longrightarrow> d_year d < 2010"
  by (auto simp: is_early_def early_cut_def year_start_def date_lt_def less_prod_def valid_date_def)

lemma recent_from_2015: "is_recent r \<Longrightarrow> release_date r = Some d \<Longrightarrow> 2015 \<le> d_year d"
  by (auto simp: is_recent_def recent_cut_def year_start_def date_lt_def less_prod_def)

lemma early_recent_disjoint: "\<not> (is_early r \<and> is_recent r)"
proof
  assume h: "is_early r \<and> is_recent r"
  then obtain d where d: "release_date r = Some d" by (cases "release_date r") (auto simp: is_early_def)
  from h d have "d_year d \<le> 2010" and "2015 \<le> d_year d"
    using early_upto_2010 recent_from_2015 by blast+
  then show False by simp
qed

lemma resample_quarterly_index:
  "map q_index (resample_quarterly rs)
     = (let ks = [quarter_index d. Some d \<leftarrow> map release_date rs]
        in if ks = [] then [] else [Min (set ks)..Max (set ks)])"
  by (simp add: resample_quarterly_def Let_def comp_def)

section \<open>Properties of chart 7\<close>

text \<open>C9: a degenerate cohort draws nothing and raises nothing. When fewer than two
  quarters of a cohort have both a mean score and a mean volatility,
  \<open>fit_trendline\<close> returns a trend column that is NaN everywhere and the correlation
  shown in the subplot title is NaN; neither step fails.\<close>

theorem trendline_degenerate:
  assumes "length (complete_pairs qs) \<le> 1"
  shows "(\<forall>t\<in>set (fit_trendline qs). t_trend t = None) \<and> trend_corr (fit_trendline qs) = None"
proof
  show "\<forall>t\<in>set (fit_trendline qs). t_trend t = None"
    using assms by (auto simp: fit_trendline_def Let_def)
  show "trend_corr (fit_trendline qs) = None"
    using assms by (simp add: trend_corr_def complete_pairs_fit pearson_short)
qed

theorem trendline_degenerate_witness:
  "length (complete_pairs [\<lparr>q_index = 8032, q_score = Some 6, q_vol = Some 1\<rparr>]) \<le> 1 \<and>
   fit_trendline [\<lparr>q_index = 8032, q_score = Some 6, q_vol = Some 1\<rparr>]
     = [\<lparr>t_index = 8032, t_score = 6, t_vol = 1, t_trend = None\<rparr>] \<and>
   trend_corr (fit_trendline [\<lparr>q_index = 8032, q_score = Some 6, q_vol = Some 1\<rparr>]) = None"
proof -
  have h: "length (complete_pairs [\<lparr>q_index = 8032, q_score = Some 6, q_vol = Some (1::real)\<rparr>]) \<le> 1"
    by (simp add: frame_eval)
  show ?thesis using h trendline_degenerate[OF h] by (simp add: frame_eval)
qed

text \<open>C10: the trend line of chart 7 is the least-squares line. When the scores are not
  all equal, the residuals of the fitted line \<open>a * x + b\<close> sum to zero and are
  orthogonal to the scores: the normal equations, which characterise the ordinary
  least-squares fit that \<open>LinearRegression\<close> computes.\<close>

theorem ols_normal_equations:
  assumes fit: "ols_fit ps = (a, b)" and nz: "sxx ps \<noteq> 0"
  shows "sum_list (map (\<lambda>(x, y). y - (a * x + b)) ps) = 0
       \<and> sum_list (map (\<lambda>(x, y). x * (y - (a * x + b))) ps) = 0"
proof -
  let ?mx = "mean_of (map fst ps)" and ?my = "mean_of (map snd ps)" and ?n = "real (length ps)"
  have a: "a = sxy ps / sxx ps" and b: "b = ?my - a * ?mx"
    using fit nz by (auto simp: ols_fit_def Let_def)
  have sx: "sum_list (map fst ps) = ?n * ?mx" using sum_mean_mult[of "map fst ps"] by simp
  have sy: "sum_list (map snd ps) = ?n * ?my" using sum_mean_mult[of "map snd ps"] by simp
  have "a * sxx ps = sxy ps" using nz by (simp add: a)
  then have key: "sum_list (map (\<lambda>(x, y). x * y) ps) - ?n * ?mx * ?my
                  = a * (sum_list (map (\<lambda>(x, y). x * x) ps) - ?n * ?mx\<^sup>2)"
    by (simp add: sxy_expand sxx_expand)
  have "sum_list (map (\<lambda>(x, y). y - (a * x + b)) ps) = 0"
    unfolding sum_residuals by (simp add: sx sy b algebra_simps)
  moreover have "sum_list (map (\<lambda>(x, y). x * (y - (a * x + b))) ps) = 0"
    using key unfolding sum_x_residuals by (simp add: sx b algebra_simps power2_eq_square)
  ultimately show ?thesis ..
qed

theorem ols_normal_equations_witness:
  "ols_fit [(6, 1), (8, 3)] = (1, -5) \<and> sxx [(6, 1), (8, 3)] \<noteq> 0 \<and>
   sum_list (map (\<lambda>(x, y). y - (1 * x + -5)) [(6::real, 1::real), (8, 3)]) = 0"
proof -
  have f: "ols_fit [(6, 1), (8, 3)] = (1, -5)" and n: "sxx [(6, 1), (8, 3)] \<noteq> 0"
    by (simp_all add: frame_eval)
  show ?thesis using f n ols_normal_equations[OF f n] by simp
qed

text \<open>C11: the correlation printed in each subplot title, when defined, is a number
  between -1 and 1 (Cauchy-Schwarz on the centred scores and volatilities).\<close>

theorem pearson_bounds:
  assumes "pearson ps = Some r"
  shows "-1 \<le> r \<and> r \<le> 1"
proof -
  have nz: "sxx ps \<noteq> 0 \<and> syy ps \<noteq> 0" and r: "r = sxy ps / sqrt (sxx ps * syy ps)"
    using assms unfolding pearson_def by (metis option.distinct(1) option.inject)+
  have pos: "0 < sxx ps * syy ps"
    using nz sxx_nonneg[of ps] syy_nonneg[of ps] by (simp add: zero_less_mult_iff)
  have "\<bar>sxy ps\<bar> = sqrt ((sxy ps)\<^sup>2)" by simp
  also have "\<dots> \<le> sqrt (sxx ps * syy ps)" using sxy_sq_le by (rule real_sqrt_le_mono)
  finally have le: "\<bar>sxy ps\<bar> \<le> sqrt (sxx ps * syy ps)" .
  have "0 < sqrt (sxx ps * syy ps)" using pos by simp
  with le show ?thesis unfolding r by (rule abs_le_one_div)
qed

theorem pearson_bounds_witness:
  "pearson [(6, 1), (8, 3)] = Some 1 \<and> -1 \<le> (1::real) \<and> (1::real) \<le> 1"
proof -
  have p: "pearson [(6, 1), (8, 3)] = Some 1" by (simp add: frame_eval)
  show ?thesis using p pearson_bounds[OF p] by simp
qed

text \<open>C12: the recent cohort starts on 2 January 2015, not in 2016. The filter
  \<open>df["release_date"] > "2015"\<close> compares with midnight on 1 January 2015, so every
  title released later in 2015 is in the recent cohort (and not in the early one).\<close>

theorem recent_includes_2015:
  assumes "release_date r = Some d" and "d_year d = 2015" and "valid_date d"
    and "(d_month d, d_day d) \<noteq> (1, 1)"
  shows "is_recent r \<and> \<not> is_early r"
proof -
  have "1 \<le> d_month d" "1 \<le> d_day d" using assms(3) by (simp_all add: valid_date_def)
  then have "date_lt recent_cut d"
    using assms(2,4) by (auto simp: recent_cut_def year_start_def date_lt_def less_prod_def)
  then have "is_recent r" using assms(1) by (simp add: is_recent_def)
  then show ?thesis using early_recent_disjoint by blast
qed

theorem recent_includes_2015_witness:
  "release_date (sample_row 2015 8 20) = Some \<lparr>d_year = 2015, d_month = 6, d_day = 1\<rparr> \<and>
   is_recent (sample_row 2015 8 20) \<and> \<not> is_early (sample_row 2015 8 20)"
proof -
  let ?d = "\<lparr>d_year = 2015, d_month = 6, d_day = 1\<rparr>"
  have r: "release_date (sample_row 2015 8 20) = Some ?d" by (simp add: frame_eval)
  have y: "d_year ?d = 2015" and v: "valid_date ?d" and m: "(d_month ?d, d_day ?d) \<noteq> (1, 1)"
    by (simp_all add: frame_eval)
  show ?thesis using r recent_includes_2015[OF r y v m] by simp
qed

lemma quarter_index_decomp:
  assumes "1 \<le> d_month d" "d_month d \<le> 12"
  shows "quarter_index d = k \<longleftrightarrow> d_year d = k div 4 \<and> (d_month d - 1) div 3 = k mod 4"
proof -
  have q: "0 \<le> (d_month d - 1) div 3" "(d_month d - 1) div 3 < 4" using assms by auto
  show ?thesis
  proof
    assume "quarter_index d = k"
    then show "d_year d = k div 4 \<and> (d_month d - 1) div 3 = k mod 4"
      using q unfolding quarter_index_def by auto
  next
    assume "d_year d = k div 4 \<and> (d_month d - 1) div 3 = k mod 4"
    then show "quarter_index d = k" unfolding quarter_index_def by simp
  qed
qed

lemma quarter_rows_calendar:
  assumes "\<forall>r\<in>set rs. \<forall>d. release_date r = Some d \<longrightarrow> 1 \<le> d_month d \<and> d_month d \<le> 12"
  shows "quarter_rows rs k = filter (\<lambda>r. \<exists>d. release_date r = Some d \<and> d_year d = k div 4
                                              \<and> (d_month d - 1) div 3 = k mod 4) rs"
  unfolding quarter_rows_def
proof (rule filter_cong[OF refl])
  fix r assume r: "r \<in> set rs"
  show "(map_option quarter_index (release_date r) = Some k)
        = (\<exists>d. release_date r = Some d \<and> d_year d = k div 4 \<and> (d_month d - 1) div 3 = k mod 4)"
  proof (cases "release_date r")
    case None
    then show ?thesis by simp
  next
    case (Some d)
    then have "1 \<le> d_month d" "d_month d \<le> 12" using assms r by auto
    then show ?thesis using Some quarter_index_decomp[of d k] by auto
  qed
qed

text \<open>C13: the quarterly resampling of a cohort (\<open>resample("QE")\<close>, lines 261--262) is
  the calendar grid: its rows are consecutive quarters, empty quarters included, the quarter
  of every dated title is a row, and the row of year y and quarter q (January--March is
  0) holds the mean score and volatility of exactly the titles released in that year and
  quarter.\<close>

theorem resample_quarterly_covers:
  assumes "\<forall>r\<in>set rs. \<forall>d. release_date r = Some d \<longrightarrow> 1 \<le> d_month d \<and> d_month d \<le> 12"
  shows "(\<forall>i. Suc i < length (resample_quarterly rs)
             \<longrightarrow> q_index (resample_quarterly rs ! Suc i) = q_index (resample_quarterly rs ! i) + 1)
       \<and> (\<forall>r\<in>set rs. \<forall>d. release_date r = Some d \<longrightarrow> quarter_index d \<in> set (map q_index (resample_quarterly rs)))
       \<and> (\<forall>row\<in>set (resample_quarterly rs).
             q_score row = nanmean (map imdb_score (filter (\<lambda>r. \<exists>d. release_date r = Some d
                 \<and> d_year d = q_index row div 4 \<and> (d_month d - 1) div 3 = q_index row mod 4) rs))
           \<and> q_vol row = nanmean (map volatility (filter (\<lambda>r. \<exists>d. release_date r = Some d
                 \<and> d_year d = q_index row div 4 \<and> (d_month d - 1) div 3 = q_index row mod 4) rs)))"
proof -
  let ?ks = "[quarter_index d. Some d \<leftarrow> map release_date rs]"
  have cover: "quarter_index d \<in> set (map q_index (resample_quarterly rs))"
    if "r \<in> set rs" "release_date r = Some d" for r d
  proof -
    have k: "quarter_index d \<in> set ?ks" using that by (force simp: set_concat_map_Some)
    then have ne: "?ks \<noteq> []" by (metis empty_iff list.set(1))
    have "Min (set ?ks) \<le> quarter_index d" by (rule Min_le[OF List.finite_set k])
    moreover have "quarter_index d \<le> Max (set ?ks)" by (rule Max_ge[OF List.finite_set k])
    ultimately show ?thesis using ne by (simp only: resample_quarterly_index Let_def if_False) simp
  qed
  have step: "q_index (resample_quarterly rs ! Suc i) = q_index (resample_quarterly rs ! i) + 1"
    if "Suc i < length (resample_quarterly rs)" for i
  proof -
    have l: "Suc i < length (map q_index (resample_quarterly rs))" using that by simp
    have "map q_index (resample_quarterly rs) ! Suc i = map q_index (resample_quarterly rs) ! i + 1"
    proof (cases "?ks = []")
      case True
      then show ?thesis using l by (simp only: resample_quarterly_index Let_def if_True) simp
    next
      case False
      then have e: "map q_index (resample_quarterly rs) = [Min (set ?ks)..Max (set ?ks)]"
        by (simp only: resample_quarterly_index Let_def if_False)
      show ?thesis using l unfolding e by (simp add: nth_upto)
    qed
    then show ?thesis using that by simp
  qed
  have bins: "q_score row = nanmean (map imdb_score (quarter_rows rs (q_index row)))
              \<and> q_vol row = nanmean (map volatility (quarter_rows rs (q_index row)))"
    if "row \<in> set (resample_quarterly rs)" for row
    using that by (auto simp: resample_quarterly_def Let_def split: if_splits)
  show ?thesis
  proof (intro conjI allI impI ballI)
    show "q_index (resample_quarterly rs ! Suc i) = q_index (resample_quarterly rs ! i) + 1"
      if "Suc i < length (resample_quarterly rs)" for i using step[OF that] .
    show "quarter_index d \<in> set (map q_index (resample_quarterly rs))"
      if "r \<in> set rs" "release_date r = Some d" for r d using cover[OF that] .
  next
    fix row assume "row \<in> set (resample_quarterly rs)"
    then show "q_score row = nanmean (map imdb_score (filter (\<lambda>r. \<exists>d. release_date r = Some d
                 \<and> d_year d = q_index row div 4 \<and> (d_month d - 1) div 3 = q_index row mod 4) rs))"
      and "q_vol row = nanmean (map volatility (filter (\<lambda>r. \<exists>d. release_date r = Some d
                 \<and> d_year d = q_index row div 4 \<and> (d_month d - 1) div 3 = q_index row mod 4) rs))"
      using bins quarter_rows_calendar[OF assms, of "q_index row"] by simp_all
  qed
qed

theorem resample_quarterly_covers_witness:
  "map (\<lambda>r. map_option d_month (release_date r)) [sample_row 2008 7 10, sample_row 2009 8 12] = [Some 6, Some 6]
   \<and> map q_index (resample_quarterly [sample_row 2008 7 10, sample_row 2009 8 12]) = [8033, 8034, 8035, 8036, 8037]
   \<and> q_score (resample_quarterly [sample_row 2008 7 10, sample_row 2009 8 12] ! 1) = None"
proof -
  let ?rs = "[sample_row 2008 7 10, sample_row 2009 8 12]"
  have h: "\<forall>r\<in>set ?rs. \<forall>d. release_date r = Some d \<longrightarrow> 1 \<le> d_month d \<and> d_month d \<le> 12"
    by (simp add: sample_row_def)
  have t1: "[quarter_index d. Some d \<leftarrow> map release_date ?rs] = [8033, 8037]"
    by (simp add: sample_row_def quarter_index_def)
  have t2: "[8033..8037::int] = [8033, 8034, 8035, 8036, 8037]"
    by (simp add: upto.simps)
  have m: "map q_index (resample_quarterly ?rs) = [8033, 8034, 8035, 8036, 8037]"
    unfolding resample_quarterly_index Let_def t1 by (simp add: t2)
  have l: "1 < length (resample_quarterly ?rs)"
    using arg_cong[OF m, of length] by simp
  have q: "q_index (resample_quarterly ?rs ! 1) = 8034"
    using nth_map[OF l, of q_index] m by simp
  have "resample_quarterly ?rs ! 1 \<in> set (resample_quarterly ?rs)" using l by simp
  then have "q_score (resample_quarterly ?rs ! 1) = nanmean (map imdb_score (filter (\<lambda>r. \<exists>d. release_date r = Some d
                 \<and> d_year d = q_index (resample_quarterly ?rs ! 1) div 4
                 \<and> (d_month d - 1) div 3 = q_index (resample_quarterly ?rs ! 1) mod 4) ?rs))"
    using resample_quarterly_covers[OF h] by blast
  also have "\<dots> = None" unfolding q by (simp add: sample_row_def nanmean_def frame_eval)
  finally show ?thesis using m by (simp add: sample_row_def)
qed

end
