(* ===== verification/Figures.thy ===== *)
theory Figures
  imports Genre_Country Hit_Shows Volatility "HOL-Library.AList"
begin

text \<open>
  The figures that the twelve \<open>plot_*\<close> functions of \<open>src/app/visualization.py\<close>
  return. A figure holds its title, its axis titles, its traces, the range of the secondary
  axis of chart 6, the colour range of chart 12, the subplot titles of chart 7, the
  vertical lines and the annotations, and the remaining layout properties that the code
  sets (\<open>fig_layout\<close>). A trace holds its kind, name, drawing mode, x and y data,
  y axis, subplot column and animation frame, and its remaining properties
  (\<open>tr_style\<close>: line and marker colours and sizes, hover templates, opacity, the
  marker data of chart 8).
  Properties are plotly's nested dictionaries (\<open>pval\<close>). \<open>prop_update\<close> is
  \<open>update_layout\<close>/\<open>update_traces\<close>: a key with underscores addresses a nested
  property (\<open>title_font\<close> is \<open>title.font\<close>), a dictionary is merged into the
  dictionary already there, any other value replaces it, and a string given for a
  \<open>title\<close> becomes the title's \<open>text\<close>.
  plotly express colours its traces from \<open>color_discrete_map\<close>, extended in the order
  in which the values occur by the next colour of \<open>color_discrete_sequence\<close>
  (\<open>px_colors\<close>); a figure with \<open>color=\<close> has one trace per value of the colour
  column, in the order in which the values first occur, each with the rows of that value
  in table order (\<open>color_traces\<close>).
  Every plot function takes the module-level tables it reads as arguments; the
  functions that write a global (\<open>plot_stock_vs_releases\<close>,
  \<open>plot_impact_of_hit_shows_on_stock\<close>) return the written value with the figure, and
  \<open>Dashboard\<close> threads it.
  The correlations of chart 7 are printed with \<open>{:.2f}\<close>: the exact value rounded to
  two decimals, ties to even, \<open>nan\<close> for NaN.
\<close>

datatype cell = CNum fval | CInt int | CDate "date option" | CSec real | CText "string option"

datatype pval = PStr string | PNum real | PBool bool | PCells "cell list" | PList "pval list"
  | PDict "(string \<times> pval) list"

type_synonym props = "(string \<times> pval) list"

record trace =
  tr_kind :: string
  tr_name :: string
  tr_mode :: string
  tr_x :: "cell list"
  tr_y :: "cell list"
  tr_yaxis :: string
  tr_col :: nat
  tr_frame :: "year option"
  tr_style :: props

record annotation =
  an_x :: real
  an_y :: real
  an_text :: string
  an_style :: props

record figure =
  fig_title :: string
  fig_traces :: "trace list"
  fig_xtitles :: "string list"
  fig_ytitle :: string
  fig_y2title :: string
  fig_y2range :: "(real \<times> real) option"
  fig_color_range :: "(real \<times> real) option"
  fig_subplot_titles :: "string list"
  fig_vlines :: "(real \<times> props) list"
  fig_annotations :: "annotation list"
  fig_layout :: props

section \<open>Property updates\<close>

fun pmerge :: "props \<Rightarrow> props \<Rightarrow> props"
  and pmerge_val :: "string \<Rightarrow> pval option \<Rightarrow> pval \<Rightarrow> pval" where
  "pmerge a [] = a"
| "pmerge a ((k, v) # b) = pmerge (AList.update k (pmerge_val k (map_of a k) v) a) b"
| "pmerge_val k (Some (PDict d)) (PDict e) = PDict (pmerge d e)"
| "pmerge_val k _ (PDict e) = PDict (pmerge [] e)"
| "pmerge_val k _ (PStr s) = (if k = ''title'' then PDict [(''text'', PStr s)] else PStr s)"
| "pmerge_val k _ v = v"

fun nest :: "string list \<Rightarrow> pval \<Rightarrow> pval" where
  "nest [] v = v"
| "nest (k # ks) v = PDict [(k, nest ks v)]"

definition magic :: "string \<times> pval \<Rightarrow> string \<times> pval" where
  "magic kv = (case str_split ''_'' (fst kv) of [] \<Rightarrow> kv | k # ks \<Rightarrow> (k, nest ks (snd kv)))"

definition prop_update :: "props \<Rightarrow> props \<Rightarrow> props" where
  "prop_update a kw = pmerge a (map magic kw)"

fun pget :: "string list \<Rightarrow> props \<Rightarrow> pval option" where
  "pget [] p = Some (PDict p)"
| "pget [k] p = map_of p k"
| "pget (k # ks) p = (case map_of p k of Some (PDict d) \<Rightarrow> pget ks d | _ \<Rightarrow> None)"

section \<open>Traces, colours and the empty figure\<close>

definition scatter :: "string \<Rightarrow> string \<Rightarrow> cell list \<Rightarrow> cell list \<Rightarrow> string \<Rightarrow> trace" where
  "scatter name mode xs ys axis = \<lparr>tr_kind = ''scatter'', tr_name = name, tr_mode = mode, tr_x = xs,
     tr_y = ys, tr_yaxis = axis, tr_col = 1, tr_frame = None, tr_style = []\<rparr>"

definition styled :: "props \<Rightarrow> trace \<Rightarrow> trace" where
  "styled st tr = tr\<lparr>tr_style := st\<rparr>"

definition base_figure :: "string \<Rightarrow> trace list \<Rightarrow> string \<Rightarrow> string \<Rightarrow> figure" where
  "base_figure t trs xt yt = \<lparr>fig_title = t, fig_traces = trs, fig_xtitles = [xt], fig_ytitle = yt,
     fig_y2title = [], fig_y2range = None, fig_color_range = None, fig_subplot_titles = [],
     fig_vlines = [], fig_annotations = [], fig_layout = []\<rparr>"

definition update_layout :: "props \<Rightarrow> figure \<Rightarrow> figure" where
  "update_layout kw fig = fig\<lparr>fig_layout := prop_update (fig_layout fig) kw\<rparr>"

definition update_traces :: "props \<Rightarrow> trace \<Rightarrow> trace" where
  "update_traces kw tr = tr\<lparr>tr_style := prop_update (tr_style tr) kw\<rparr>"

definition plotly_colorway :: "string list" where
  "plotly_colorway = [''#636efa'', ''#EF553B'', ''#00cc96'', ''#ab63fa'', ''#FFA15A'', ''#19d3f3'',
     ''#FF6692'', ''#B6E880'', ''#FF97FF'', ''#FECB52'']"

definition dark24 :: "string list" where
  "dark24 = [''#2E91E5'', ''#E15F99'', ''#1CA71C'', ''#FB0D0D'', ''#DA16FF'', ''#222A2A'', ''#B68100'',
     ''#750D86'', ''#EB663B'', ''#511CFB'', ''#00A08B'', ''#FB00D1'', ''#FC0080'', ''#B2828D'', ''#6C7C32'',
     ''#778AAE'', ''#862A16'', ''#A777F1'', ''#620042'', ''#1616A7'', ''#DA60CA'', ''#6C4E31'', ''#0D2A63'',
     ''#AF0038'']"

fun px_colors :: "string list \<Rightarrow> (string \<times> string) list \<Rightarrow> string list \<Rightarrow> (string \<times> string) list" where
  "px_colors seq m [] = m"
| "px_colors seq m (v # vs) =
     px_colors seq (if map_of m v = None then m @ [(v, seq ! (length m mod length seq))] else m) vs"

definition px_line_style :: "props \<Rightarrow> (string \<times> string) list \<Rightarrow> string \<Rightarrow> props" where
  "px_line_style patch cm v =
     pmerge patch [(''line'', PDict [(''color'', PStr (case map_of cm v of Some c \<Rightarrow> c | None \<Rightarrow> []))])]"

definition color_traces :: "string \<Rightarrow> props \<Rightarrow> (string \<times> string) list \<Rightarrow> string list
    \<Rightarrow> (('x \<times> 'c) \<times> 'y) list \<Rightarrow> ('c \<Rightarrow> string) \<Rightarrow> ('x \<Rightarrow> cell) \<Rightarrow> ('y \<Rightarrow> cell) \<Rightarrow> trace list" where
  "color_traces mode patch cmap seq rows name cx cy =
     (let cs = unique (map (\<lambda>((_, c), _). c) rows);
          cm = px_colors seq cmap (map name cs)
      in map (\<lambda>c. let rs = filter (\<lambda>((x, c'), y). c' = c) rows
                  in styled (px_line_style patch cm (name c))
                       (scatter (name c) mode (map (\<lambda>((x, _), _). cx x) rs) (map (\<lambda>((_, _), y). cy y) rs) ''y''))
           cs)"

definition white_font :: pval where
  "white_font = PDict [(''color'', PStr ''white'')]"

definition arrow_note :: "real \<Rightarrow> real \<Rightarrow> string \<Rightarrow> real \<Rightarrow> props \<Rightarrow> annotation" where
  "arrow_note x y t head extra = \<lparr>an_x = x, an_y = y, an_text = t,
     an_style = [(''showarrow'', PBool True), (''arrowhead'', PNum head), (''font'', white_font)] @ extra\<rparr>"

section \<open>Charts 1--4\<close>

definition plot_imdb_score_trend :: "row list \<Rightarrow> figure" where
  "plot_imdb_score_trend df =
     (let t = score_trend df
      in update_layout [(''template'', PStr ''plotly_dark''), (''xaxis'', PDict [(''showgrid'', PBool False)]),
                        (''yaxis'', PDict [(''showgrid'', PBool True), (''zeroline'', PBool False)])]
           ((base_figure ''Netflix IMDb Score Trend Over Time''
               [styled (px_line_style [(''line'', PDict [(''shape'', PStr ''spline'')])] (px_colors [''red''] [] [[]]) [])
                  (scatter [] ''lines'' (map (CInt \<circ> fst) t) (map (CNum \<circ> snd) t) ''y'')]
               ''Year'' ''Average IMDb Score'')
            \<lparr>fig_annotations := [arrow_note 2015 6.5 ''2015: Netflix began rapid expansion'' 2
                                  [(''xref'', PStr ''x''), (''yref'', PStr ''y'')]]\<rparr>))"

definition plot_high_quality_proportion :: "row list \<Rightarrow> figure" where
  "plot_high_quality_proportion df =
     (let q = quality_proportion df
      in update_layout [(''title_font'', PDict [(''size'', PNum 20), (''color'', PStr ''white'')]),
                        (''xaxis'', PDict [(''color'', PStr ''white'')]), (''yaxis'', PDict [(''color'', PStr ''white'')]),
                        (''template'', PStr ''plotly_dark''), (''font'', white_font), (''bargap'', PNum 0.2),
                        (''legend'', PDict [(''x'', PNum 0.85), (''y'', PNum 1), (''bgcolor'', PStr ''rgba(0,0,0,0)''),
                                            (''bordercolor'', PStr ''white'')])]
           ((base_figure ''High-Quality Content Proportion Over Time''
               [styled [(''marker'', PDict [(''color'', PStr ''rgba(229, 9, 20, 0.7)''),
                          (''line'', PDict [(''color'', PStr ''#E50914''), (''width'', PNum 1)])])]
                 ((scatter ''High-Quality Content'' [] (map (CInt \<circ> fst) q) (map (\<lambda>(_, p). CNum (Some p)) q) ''y'')
                    \<lparr>tr_kind := ''bar''\<rparr>)]
               ''Year'' ''Proportion of High-Rated Content'')
            \<lparr>fig_annotations := [arrow_note 2017 0.1
                 ''2017: Netflix surpasses 100M <br> subscribers, reinforcing leadership'' 7
                 [(''xref'', PStr ''x''), (''yref'', PStr ''y''), (''ax'', PNum 0), (''ay'', PNum (-40))]]\<rparr>))"

definition type_colors :: "(string \<times> string) list" where
  "type_colors = [(''MOVIE'', ''#E50914''), (''SHOW'', ''#B3B3B3'')]"

definition type_line_traces :: "((year \<times> string) \<times> 'y) list \<Rightarrow> ('y \<Rightarrow> cell) \<Rightarrow> trace list" where
  "type_line_traces rows cy =
     map (\<lambda>tr. update_traces [(''line'', PDict [(''width'', PNum 3)])] (tr\<lparr>tr_mode := ''lines+markers''\<rparr>))
       (color_traces ''lines'' [] type_colors plotly_colorway rows id CInt cy)"

definition type_layout :: props where
  "type_layout = [(''template'', PStr ''plotly_dark''), (''xaxis'', PDict [(''tickangle'', PNum (-45))]),
     (''yaxis'', PDict [(''gridcolor'', PStr ''rgba(255,255,255,0.2)'')]), (''font'', PDict [(''size'', PNum 14)])]"

definition plot_movie_vs_tv_production :: "row list \<Rightarrow> figure" where
  "plot_movie_vs_tv_production df =
     update_layout type_layout
       ((base_figure ''Movie vs. TV Show Production Trend''
           (type_line_traces (type_counts df) (\<lambda>n. CNum (Some (real n)))) ''Year'' ''Number of Productions'')
        \<lparr>fig_annotations := [arrow_note 2013 50 ''2013: House of Cards Released'' 2
                              [(''xref'', PStr ''x''), (''yref'', PStr ''y'')]]\<rparr>)"

definition plot_movie_vs_tv_imdb :: "row list \<Rightarrow> figure" where
  "plot_movie_vs_tv_imdb df =
     update_layout type_layout
       (base_figure ''Movie vs. TV Show IMDb Score Trend''
          (type_line_traces (type_scores df) CNum) ''Year'' ''Average IMDb Score'')"

section \<open>Charts 5 and 6: the stock table\<close>

definition line_style :: "string \<Rightarrow> props \<Rightarrow> string \<Rightarrow> props" where
  "line_style c extra hover = [(''line'', PDict ((''color'', PStr c) # extra)), (''hovertemplate'', PStr hover)]"

definition stock_traces :: "stock_row list \<Rightarrow> string \<Rightarrow> cell list \<Rightarrow> string \<Rightarrow> string \<Rightarrow> trace list" where
  "stock_traces st name2 ys2 color2 hover2 =
     [styled (line_style ''#E50914'' [(''width'', PNum 2)] ''Year: %{x}<br>Stock Price: %{y:.2f} USD'')
        (scatter ''Stock Price'' ''lines'' (map (CInt \<circ> s_year) st) (map (CNum \<circ> s_close) st) ''y''),
      styled (line_style color2 [(''dash'', PStr ''dash'')] hover2)
        (scatter name2 ''lines'' (map (CInt \<circ> s_year) st) ys2 ''y2''),
      styled (line_style ''orange'' [(''width'', PNum 2)] ''Year: %{x}<br>Stock Change: %{y:.2f}%'')
        (scatter ''Stock Price Change (%)'' ''lines+markers'' (map (CInt \<circ> s_year) st)
          (map (CNum \<circ> s_price_change) st) ''y2'')]"

definition stock_layout :: props where
  "stock_layout =
     [(''title_font'', PDict [(''size'', PNum 18), (''color'', PStr ''white'')]),
      (''yaxis'', PDict [(''side'', PStr ''left''), (''tickfont'', white_font)]),
      (''yaxis2'', PDict [(''overlaying'', PStr ''y''), (''side'', PStr ''right''), (''tickfont'', white_font)]),
      (''legend'', PDict [(''x'', PNum 0.5), (''y'', PNum (-0.2)), (''xanchor'', PStr ''center''),
                          (''yanchor'', PStr ''top''), (''orientation'', PStr ''h''),
                          (''bgcolor'', PStr ''rgba(0,0,0,0.4)''), (''bordercolor'', PStr ''white''),
                          (''borderwidth'', PNum 1)]),
      (''template'', PStr ''plotly_dark''),
      (''margin'', PDict [(''l'', PNum 50), (''r'', PNum 50), (''t'', PNum 50), (''b'', PNum 50)]),
      (''font'', PDict [(''family'', PStr ''Arial''), (''color'', PStr ''white'')])]"

definition plot_stock_vs_releases :: "stock_row list \<Rightarrow> figure \<times> stock_row list" where
  "plot_stock_vs_releases st =
     (let st' = stock_vs_releases_update st
      in (update_layout stock_layout
            ((base_figure ''Netflix Content Releases & Stock Price Over Time''
               (stock_traces st' ''Content Releases'' (map (\<lambda>s. CNum (Some (real (s_title s)))) st') ''white''
                  ''Year: %{x}<br>Content Releases: %{y}'')
               ''Year'' ''Stock Price (USD)'')
             \<lparr>fig_y2title := ''Content Releases & Stock Price Change (%)''\<rparr>), st'))"

definition y2_range :: "real list \<Rightarrow> (real \<times> real) option" where
  "y2_range vs = (if vs = [] then None else Some (Min (set vs) * 0.8, Max (set vs) * 1.2))"

definition y2_values :: "stock_row list \<Rightarrow> real list" where
  "y2_values st = dropna (map s_high_quality_ratio st @ map s_price_change st)"

definition plot_stock_vs_quality :: "stock_row list \<Rightarrow> figure" where
  "plot_stock_vs_quality st =
     update_layout stock_layout
       ((base_figure ''Netflix High-Quality Content & Stock Price Over Time''
          (stock_traces st ''High-Quality Content Ratio (%)'' (map (CNum \<circ> s_high_quality_ratio) st) ''lightblue''
             ''Year: %{x}<br>High-Quality Content: %{y:.2f}%'')
          ''Year'' ''Stock Price (USD)'')
        \<lparr>fig_y2title := ''High-Quality Content Ratio (%) & Stock Price Change (%)'',
         fig_y2range := y2_range (y2_values st)\<rparr>)"

section \<open>Chart 7: printed correlations and the two panels\<close>

definition round_half_even :: "real \<Rightarrow> int" where
  "round_half_even x = (let f = \<lfloor>x\<rfloor>; d = x - of_int f
     in if d < 1/2 then f else if 1/2 < d then f + 1 else if even f then f else f + 1)"

fun show_nat :: "nat \<Rightarrow> string" where
  "show_nat n = (if n < 10 then [char_of (48 + n)] else show_nat (n div 10) @ [char_of (48 + n mod 10)])"

definition format_2f :: "fval \<Rightarrow> string" where
  "format_2f v = (case v of
      None \<Rightarrow> ''nan''
    | Some x \<Rightarrow> (let n = nat (round_half_even (\<bar>x\<bar> * 100))
                in (if x < 0 then ''-'' else []) @ show_nat (n div 100) @ ''.'' @ show_digits 2 (n mod 100)))"

definition trend_traces :: "string \<Rightarrow> string \<Rightarrow> string \<Rightarrow> string \<Rightarrow> nat \<Rightarrow> trend_row list \<Rightarrow> trace list" where
  "trend_traces pts pts_color line line_color col ts =
     [(styled [(''marker'', PDict [(''color'', PStr pts_color), (''size'', PNum 8), (''opacity'', PNum 0.8)])]
         (scatter pts ''markers'' (map (\<lambda>t. CNum (Some (t_score t))) ts) (map (\<lambda>t. CNum (Some (t_vol t))) ts) ''y''))
        \<lparr>tr_col := col\<rparr>,
      (styled [(''line'', PDict [(''color'', PStr line_color), (''width'', PNum 2)])]
         (scatter line ''lines'' (map (\<lambda>t. CNum (Some (t_score t))) ts) (map (CNum \<circ> t_trend) ts) ''y''))
        \<lparr>tr_col := col\<rparr>]"

definition plot_quality_vs_stock_volatility :: "trend_row list \<Rightarrow> trend_row list \<Rightarrow> fval \<Rightarrow> fval \<Rightarrow> figure" where
  "plot_quality_vs_stock_volatility early recent corr_early corr_recent =
     (update_layout [(''title_x'', PNum 0.5), (''title_font'', PDict [(''size'', PNum 20), (''color'', PStr ''white'')]),
                     (''template'', PStr ''plotly_dark''), (''font'', white_font)]
        (base_figure ''Does Content Quality Affect Stock Volatility? (Early vs. Recent)''
           (trend_traces ''Early Years'' ''#FF4C4C'' ''Trend (Early)'' ''#FFAA4C'' 1 early
            @ trend_traces ''Recent Years'' ''#E50914'' ''Trend (Recent)'' ''#FFC14C'' 2 recent)
           [] []))
     \<lparr>fig_xtitles := [''IMDb Score (Early Years)'', ''IMDb Score (Recent Years)''],
      fig_subplot_titles := [''Early Years (<2010): Corr='' @ format_2f corr_early,
                             ''Recent Years (>2015): Corr='' @ format_2f corr_recent]\<rparr>"

section \<open>Charts 8 and 9\<close>

definition hit_marker :: "hit_row list \<Rightarrow> props" where
  "hit_marker hs =
     [(''marker'', PDict [(''size'', PCells (map (\<lambda>h. CNum (map_option (\<lambda>v. v / 20000) (imdb_votes (h_row h)))) hs)),
                          (''color'', PCells (map (CNum \<circ> imdb_score \<circ> h_row) hs)),
                          (''colorscale'', PStr ''YlOrRd''), (''opacity'', PNum 1), (''symbol'', PStr ''circle-open''),
                          (''line'', PDict [(''width'', PNum 1.2), (''color'', PStr ''white'')])]),
      (''legendgroup'', PStr ''Hit Shows''),
      (''hovertemplate'', PStr ''<b>%{text}</b><br>IMDb: %{marker.color}<br>Stock Price: %{y}''),
      (''text'', PCells (map (CText \<circ> title \<circ> h_row) hs))]"

definition hit_legend :: pval where
  "hit_legend = PDict [(''x'', PNum 0.02), (''y'', PNum 1.15), (''orientation'', PStr ''h''),
     (''font'', PDict [(''size'', PNum 12)])]"

definition hit_colorbar :: pval where
  "hit_colorbar = PDict [(''title'', PStr ''IMDb Score''), (''thickness'', PNum 15), (''x'', PNum 1.07),
     (''xanchor'', PStr ''center'')]"

definition plot_impact_of_hit_shows_on_stock ::
    "real list \<Rightarrow> row list \<Rightarrow> hit_row list \<Rightarrow> plot_error + figure \<times> hit_row list" where
  "plot_impact_of_hit_shows_on_stock us df hs =
     (case hit_jitter_update us hs of
        Inl e \<Rightarrow> Inl e
      | Inr hs' \<Rightarrow> Inr (update_layout
            [(''title'', PDict [(''font'', PDict [(''size'', PNum 18)])]),
             (''coloraxis'', PDict [(''colorscale'', PStr ''YlOrRd''), (''colorbar'', hit_colorbar)]),
             (''legend'', hit_legend), (''font'', white_font), (''template'', PStr ''plotly_dark'')]
            (base_figure ''Impact of Hit Shows on Netflix Stock (Short-term)''
              [styled [(''line'', PDict [(''color'', PStr ''lightgrey''), (''width'', PNum 1.5), (''dash'', PStr ''solid'')]),
                       (''opacity'', PNum 0.8)]
                 (scatter ''Netflix Stock Trend'' ''lines'' (map (CDate \<circ> release_date) df) (map (CNum \<circ> close) df) ''y''),
               styled (hit_marker hs')
                 (scatter ''Hit Shows'' ''markers'' (map (\<lambda>h. case h_jitter h of Some s \<Rightarrow> CSec s | None \<Rightarrow> CNum None) hs')
                    (map (CNum \<circ> close \<circ> h_row) hs') ''y'')]
              ''Release Date'' ''Stock Price''), hs'))"

definition plot_hit_shows_vs_stock_long_term :: "(year \<times> fval) list \<Rightarrow> hit_year_row list \<Rightarrow> figure" where
  "plot_hit_shows_vs_stock_long_term sampled per_year =
     (update_layout
        [(''title'', PDict [(''font'', PDict [(''size'', PNum 18)])]),
         (''xaxis'', PDict [(''showgrid'', PBool True), (''gridcolor'', PStr ''gray'')]),
         (''yaxis'', PDict [(''showgrid'', PBool True), (''gridcolor'', PStr ''gray'')]),
         (''yaxis2'', PDict [(''overlaying'', PStr ''y''), (''side'', PStr ''right''), (''tickfont'', white_font),
                             (''showgrid'', PBool False)]),
         (''coloraxis_colorbar'', hit_colorbar), (''legend'', hit_legend), (''font'', white_font),
         (''template'', PStr ''plotly_dark'')]
        (base_figure ''Netflix Annual Hit Shows vs. Stock Price (Long-term)''
           [styled [(''line'', PDict [(''color'', PStr ''white''), (''width'', PNum 2)]), (''opacity'', PNum 0.8)]
              (scatter ''Netflix Stock Trend'' ''lines'' (map (CInt \<circ> fst) sampled) (map (CNum \<circ> snd) sampled) ''y''),
            styled [(''line'', PDict [(''color'', PStr ''red''), (''width'', PNum 2), (''dash'', PStr ''solid'')]),
                    (''marker'', PDict [(''size'', PNum 5), (''color'', PStr ''red'')]), (''opacity'', PNum 0.8)]
              (scatter ''Hit Shows Per Year (Smoothed)'' ''lines+markers'' (map (CInt \<circ> hy_year) per_year)
                 (map (CNum \<circ> hy_smoothed) per_year) ''y2'')]
           ''Year'' ''Stock Price''))
     \<lparr>fig_y2title := ''Hit Shows Per Year (Smoothed)''\<rparr>"

section \<open>Charts 10--12\<close>

definition plot_genre_trends :: "string share_row list \<Rightarrow> figure" where
  "plot_genre_trends t =
     update_layout
       [(''template'', PStr ''plotly_dark''), (''font'', white_font),
        (''title_font'', PDict [(''size'', PNum 20), (''color'', PStr ''white'')]),
        (''legend_title_font'', PDict [(''size'', PNum 14), (''color'', PStr ''white'')]),
        (''legend_font'', PDict [(''size'', PNum 12), (''color'', PStr ''white'')]),
        (''xaxis'', PDict [(''tickfont'', white_font), (''gridcolor'', PStr ''gray'')]),
        (''yaxis'', PDict [(''tickfont'', white_font), (''gridcolor'', PStr ''gray'')])]
       (base_figure ''Netflix Content Genre Trends Over Time''
          (color_traces ''lines'' [(''stackgroup'', PNum 1)] [] dark24
             (map (\<lambda>r. ((sh_year r, sh_cat r), sh_pct r)) t) id CInt CNum)
          ''Year'' ''Percentage of Content'')"

definition intl_axis :: pval where
  "intl_axis = PDict [(''tickfont'', PDict [(''color'', PStr ''white''), (''size'', PNum 14)]),
     (''gridcolor'', PStr ''rgba(255,255,255,0.3)''), (''showgrid'', PBool True), (''mirror'', PBool True)]"

definition dashed_vline :: "real \<Rightarrow> real \<times> props" where
  "dashed_vline x = (x, prop_update [] [(''line_width'', PNum 2), (''line_dash'', PStr ''dash''), (''line_color'', PStr ''gray'')])"

definition plot_international_trend :: "intl_row list \<Rightarrow> figure" where
  "plot_international_trend t =
     (update_layout
        [(''template'', PStr ''plotly_dark''), (''font'', white_font),
         (''title_font'', PDict [(''size'', PNum 22), (''color'', PStr ''white'')]),
         (''xaxis'', intl_axis), (''yaxis'', intl_axis),
         (''margin'', PDict [(''l'', PNum 60), (''r'', PNum 60), (''t'', PNum 60), (''b'', PNum 60)])]
        (base_figure ''Trend of International Content Over Time''
           [update_traces [(''line'', PDict [(''color'', PStr ''#E50914''), (''width'', PNum 3)]),
                           (''marker'', PDict [(''size'', PNum 8), (''color'', PStr ''white''),
                              (''line'', PDict [(''width'', PNum 2), (''color'', PStr ''#E50914'')])])]
              (styled (px_line_style [] (px_colors plotly_colorway [] [[]]) [])
                 (scatter [] ''lines+markers'' (map (CInt \<circ> i_year) t) (map (CNum \<circ> i_smoothed) t) ''y''))]
           ''Year'' ''Percentage of International Content''))
     \<lparr>fig_vlines := [dashed_vline 2010, dashed_vline 2016],
      fig_annotations := [arrow_note 2010 0.05 ''Netflix expands to Canada'' 2 [],
                          arrow_note 2016 0.3 ''Global Expansion'' 2 [],
                          arrow_note 2015 0.05 ''Growth starts'' 2 []]\<rparr>"

definition plot_country_production_growth :: "string option share_row list \<Rightarrow> figure" where
  "plot_country_production_growth t =
     update_layout
       [(''template'', PStr ''plotly_dark''),
        (''geo'', PDict [(''showcoastlines'', PBool True), (''coastlinecolor'', PStr ''gray''), (''showland'', PBool True),
                         (''landcolor'', PStr ''grey''), (''showframe'', PBool False), (''showcountries'', PBool True),
                         (''countrycolor'', PStr ''white'')]),
        (''margin'', PDict [(''l'', PNum 0), (''r'', PNum 0), (''t'', PNum 90), (''b'', PNum 50)]),
        (''font'', white_font), (''title_x'', PNum 0.18),
        (''title_font'', PDict [(''size'', PNum 20), (''color'', PStr ''white'')]),
        (''coloraxis_colorbar'', PDict [(''title'', PStr ''Percentage of Netflix Titles''),
            (''thicknessmode'', PStr ''pixels''), (''thickness'', PNum 25), (''yanchor'', PStr ''middle''), (''y'', PNum 0.4)])]
       ((base_figure ''Netflix Content Production Growth by Country (2003-2021)''
          (map (\<lambda>y. let rs = filter (\<lambda>r. sh_year r = y) t
                    in \<lparr>tr_kind = ''choropleth'', tr_name = [], tr_mode = [],
                        tr_x = map (CText \<circ> sh_cat) rs, tr_y = map (CNum \<circ> sh_pct) rs,
                        tr_yaxis = [], tr_col = 1, tr_frame = Some y,
                        tr_style = [(''locationmode'', PStr ''country names'')]\<rparr>)
               (unique (map sh_year t)))
          [] [])
        \<lparr>fig_color_range := Some (0, 1), fig_layout := [(''coloraxis'', PDict [(''colorscale'', PStr ''YlOrRd'')])]\<rparr>)"

text \<open>Plotly draws a trace from its x and y columns paired point by point; a trace is
  well formed when the two columns have the same length.\<close>

definition wf_trace :: "trace \<Rightarrow> bool" where
  "wf_trace tr \<longleftrightarrow> length (tr_x tr) = length (tr_y tr)"

definition wf_figure :: "figure \<Rightarrow> bool" where
  "wf_figure fig \<longleftrightarrow> list_all wf_trace (fig_traces fig)"

text \<open>Reading a printed number back, to state what the printed text means.\<close>

definition read_2f :: "string \<Rightarrow> real option" where
  "read_2f s = (let neg = (take 1 s = ''-''); t = (if neg then drop 1 s else s);
       ip = takeWhile (\<lambda>c. c \<noteq> CHR ''.'') t; rest = dropWhile (\<lambda>c. c \<noteq> CHR ''.'') t
     in if ip = [] \<or> length rest \<noteq> 3 then None
        else (case (digits_acc 0 ip, digits_acc 0 (drop 1 rest)) of
                (Some a, Some b) \<Rightarrow> Some ((if neg then -1 else 1) * (real a + real b / 100))
              | _ \<Rightarrow> None))"

declare show_nat.simps [simp del]

declare show_nat.simps [frame_eval] scatter_def [frame_eval] styled_def [frame_eval] base_figure_def [frame_eval]
  color_traces_def [frame_eval] px_line_style_def [frame_eval] plotly_colorway_def [frame_eval] dark24_def [frame_eval]
  type_colors_def [frame_eval] type_line_traces_def [frame_eval] line_style_def [frame_eval] hit_marker_def [frame_eval]
  arrow_note_def [frame_eval] dashed_vline_def [frame_eval]
  plot_imdb_score_trend_def [frame_eval] plot_high_quality_proportion_def [frame_eval]
  plot_movie_vs_tv_production_def [frame_eval] plot_movie_vs_tv_imdb_def [frame_eval]
  stock_traces_def [frame_eval] plot_stock_vs_releases_def [frame_eval] y2_range_def [frame_eval]
  y2_values_def [frame_eval] plot_stock_vs_quality_def [frame_eval] round_half_even_def [frame_eval]
  format_2f_def [frame_eval] trend_traces_def [frame_eval] plot_quality_vs_stock_volatility_def [frame_eval]
  plot_impact_of_hit_shows_on_stock_def [frame_eval] plot_hit_shows_vs_stock_long_term_def [frame_eval]
  plot_genre_trends_def [frame_eval] plot_international_trend_def [frame_eval]
  plot_country_production_growth_def [frame_eval]

section \<open>Lemmas on the figures\<close>

lemma show_nat_digits: "c \<in> set (show_nat n) \<Longrightarrow> is_digit c"
proof (induction n rule: show_nat.induct)
  case (1 n)
  show ?case
  proof (cases "n < 10")
    case True
    then show ?thesis using "1.prems" is_digit_char_of[of n] by (simp add: show_nat.simps[of n])
  next
    case False
    have d: "n mod 10 < 10" by simp
    show ?thesis using "1.prems" "1.IH"[OF False] is_digit_char_of[OF d] False
      by (auto simp: show_nat.simps[of n])
  qed
qed

lemma show_digits_digits: "c \<in> set (show_digits w n) \<Longrightarrow> is_digit c"
proof (induction w arbitrary: n)
  case 0
  then show ?case by simp
next
  case (Suc w)
  have d: "n mod 10 < 10" by simp
  show ?case using Suc is_digit_char_of[OF d] by auto
qed

lemma show_nat_nonempty: "show_nat n \<noteq> []"
  by (simp add: show_nat.simps[of n])

lemma digits_acc_show_nat: "digits_acc acc (show_nat n) = Some (acc * 10 ^ length (show_nat n) + n)"
proof (induction n arbitrary: acc rule: show_nat.induct)
  case (1 n)
  show ?case
  proof (cases "n < 10")
    case True
    then show ?thesis using is_digit_char_of[OF True] of_char_digit[OF True]
      by (simp add: show_nat.simps[of n])
  next
    case False
    have d: "n mod 10 < 10" by simp
    have "10 * (n div 10) + n mod 10 = n" by simp
    then show ?thesis using "1.IH"[OF False] is_digit_char_of[OF d] of_char_digit[OF d] False
      by (simp add: show_nat.simps[of n] digits_acc_append algebra_simps)
  qed
qed

lemma digit_not_sign: "is_digit c \<Longrightarrow> c \<noteq> CHR ''.'' \<and> c \<noteq> CHR ''-''"
  by (auto simp: is_digit_def)

lemma round_half_even_bound: "\<bar>real_of_int (round_half_even y) - y\<bar> \<le> 1/2"
proof -
  define f where "f = \<lfloor>y\<rfloor>"
  have f: "real_of_int f \<le> y" "y < real_of_int f + 1" unfolding f_def by linarith+
  have "round_half_even y = f \<or> round_half_even y = f + 1"
    by (simp add: round_half_even_def Let_def f_def)
  moreover have "round_half_even y = f \<Longrightarrow> y - real_of_int f \<le> 1/2"
    by (auto simp: round_half_even_def Let_def f_def split: if_splits)
  moreover have "round_half_even y = f + 1 \<Longrightarrow> 1/2 \<le> y - real_of_int f"
    by (auto simp: round_half_even_def Let_def f_def split: if_splits)
  ultimately show ?thesis using f by (auto simp: abs_if)
qed

lemma round_half_even_nonneg: "0 \<le> y \<Longrightarrow> 0 \<le> round_half_even y"
  unfolding round_half_even_def Let_def by auto

lemma wf_trace_scatter [simp]: "wf_trace (scatter n m xs ys a) \<longleftrightarrow> length xs = length ys"
  by (simp add: wf_trace_def scatter_def)

text \<open>The layout and style updates leave the data of a figure alone.\<close>

lemma update_layout_sel [simp]:
  "fig_title (update_layout kw fig) = fig_title fig" "fig_traces (update_layout kw fig) = fig_traces fig"
  "fig_xtitles (update_layout kw fig) = fig_xtitles fig" "fig_ytitle (update_layout kw fig) = fig_ytitle fig"
  "fig_y2title (update_layout kw fig) = fig_y2title fig" "fig_y2range (update_layout kw fig) = fig_y2range fig"
  "fig_color_range (update_layout kw fig) = fig_color_range fig"
  "fig_subplot_titles (update_layout kw fig) = fig_subplot_titles fig"
  "fig_vlines (update_layout kw fig) = fig_vlines fig" "fig_annotations (update_layout kw fig) = fig_annotations fig"
  "fig_layout (update_layout kw fig) = prop_update (fig_layout fig) kw"
  by (simp_all add: update_layout_def)

lemma update_traces_sel [simp]:
  "tr_kind (update_traces kw tr) = tr_kind tr" "tr_name (update_traces kw tr) = tr_name tr"
  "tr_mode (update_traces kw tr) = tr_mode tr" "tr_x (update_traces kw tr) = tr_x tr"
  "tr_y (update_traces kw tr) = tr_y tr" "tr_yaxis (update_traces kw tr) = tr_yaxis tr"
  "tr_col (update_traces kw tr) = tr_col tr" "tr_frame (update_traces kw tr) = tr_frame tr"
  "tr_style (update_traces kw tr) = prop_update (tr_style tr) kw"
  by (simp_all add: update_traces_def)

lemma wf_trace_update [simp]: "wf_trace (tr\<lparr>tr_kind := k\<rparr>) = wf_trace tr" "wf_trace (tr\<lparr>tr_col := c\<rparr>) = wf_trace tr"
  "wf_trace (tr\<lparr>tr_mode := m\<rparr>) = wf_trace tr" "wf_trace (styled st tr) = wf_trace tr"
  "wf_trace (update_traces kw tr) = wf_trace tr"
  by (simp_all add: wf_trace_def styled_def)

lemma wf_color_traces [simp]: "list_all wf_trace (color_traces mode patch cmap seq rows name cx cy)"
  by (simp add: color_traces_def list_all_iff Let_def)

lemma styled_sel [simp]:
  "tr_kind (styled st tr) = tr_kind tr" "tr_name (styled st tr) = tr_name tr"
  "tr_mode (styled st tr) = tr_mode tr" "tr_x (styled st tr) = tr_x tr"
  "tr_y (styled st tr) = tr_y tr" "tr_yaxis (styled st tr) = tr_yaxis tr"
  "tr_col (styled st tr) = tr_col tr" "tr_frame (styled st tr) = tr_frame tr"
  "tr_style (styled st tr) = st"
  by (simp_all add: styled_def)

lemma wf_type_line_traces [simp]: "list_all wf_trace (type_line_traces rows cy)"
  using wf_color_traces[of "''lines''" "[]" type_colors plotly_colorway rows id CInt cy]
  by (simp add: type_line_traces_def list_all_iff)

lemma wf_figure_base [simp]: "wf_figure (base_figure t trs xt yt) \<longleftrightarrow> list_all wf_trace trs"
  by (simp add: wf_figure_def base_figure_def)

lemma wf_figure_update [simp]:
  "wf_figure (fig\<lparr>fig_annotations := a\<rparr>) = wf_figure fig" "wf_figure (fig\<lparr>fig_y2title := t\<rparr>) = wf_figure fig"
  "wf_figure (fig\<lparr>fig_vlines := v, fig_annotations := a\<rparr>) = wf_figure fig"
  "wf_figure (fig\<lparr>fig_color_range := r, fig_layout := l\<rparr>) = wf_figure fig"
  "wf_figure (fig\<lparr>fig_xtitles := x, fig_subplot_titles := st\<rparr>) = wf_figure fig"
  "wf_figure (fig\<lparr>fig_y2title := t, fig_y2range := yr\<rparr>) = wf_figure fig"
  "wf_figure (update_layout kw fig) = wf_figure fig"
  by (simp_all add: wf_figure_def)

lemma wf_trend_traces [simp]: "list_all wf_trace (trend_traces a ac b bc c ts)"
  by (simp add: trend_traces_def)

lemma wf_stock_traces [simp]: "list_all wf_trace (stock_traces st n ys c h) \<longleftrightarrow> length ys = length st"
  by (auto simp: stock_traces_def)

lemma wf_country_map: "wf_figure (plot_country_production_growth t)"
  by (simp add: plot_country_production_growth_def base_figure_def wf_figure_def list_all_iff wf_trace_def Let_def)

lemma wf_plots:
  "wf_figure (plot_imdb_score_trend df)" "wf_figure (plot_high_quality_proportion df)"
  "wf_figure (plot_movie_vs_tv_production df)" "wf_figure (plot_movie_vs_tv_imdb df)"
  "wf_figure (fst (plot_stock_vs_releases st))" "wf_figure (plot_stock_vs_quality st)"
  "wf_figure (plot_quality_vs_stock_volatility early recent ce cr)"
  "wf_figure (plot_hit_shows_vs_stock_long_term sampled per_year)"
  "wf_figure (plot_genre_trends t)" "wf_figure (plot_international_trend it)"
  by (simp_all add: plot_imdb_score_trend_def plot_high_quality_proportion_def plot_movie_vs_tv_production_def
      plot_movie_vs_tv_imdb_def plot_stock_vs_releases_def plot_stock_vs_quality_def
      plot_quality_vs_stock_volatility_def plot_hit_shows_vs_stock_long_term_def plot_genre_trends_def
      plot_international_trend_def wf_figure_def base_figure_def update_layout_def Let_def)

lemma wf_hit_impact: "plot_impact_of_hit_shows_on_stock us df hs = Inr (fig, hs') \<Longrightarrow> wf_figure fig"
  by (auto simp: plot_impact_of_hit_shows_on_stock_def split: sum.splits)

text \<open>What a property update and the colour assignment of plotly express compute.\<close>

lemma pget_pmerge_single:
  assumes "k2 \<noteq> ''title''"
  shows "pget [k, k2] (pmerge a [(k, PDict [(k2, PStr s)])]) = Some (PStr s)"
proof (cases "map_of a k")
  case None
  then show ?thesis using assms by (simp add: update_conv')
next
  case (Some v)
  then show ?thesis using assms by (cases v) (simp_all add: update_conv')
qed

lemma px_colors_fresh:
  "set vs \<inter> fst ` set m = {} \<Longrightarrow> distinct vs \<Longrightarrow>
   px_colors seq m vs = m @ zip vs (map (\<lambda>i. seq ! ((length m + i) mod length seq)) [0..<length vs])"
proof (induction vs arbitrary: m)
  case Nil
  then show ?case by simp
next
  case (Cons v vs)
  have none: "map_of m v = None" using Cons.prems(1) by (simp add: map_of_eq_None_iff)
  let ?m = "m @ [(v, seq ! (length m mod length seq))]"
  have "px_colors seq m (v # vs) = px_colors seq ?m vs" using none by simp
  also have "\<dots> = ?m @ zip vs (map (\<lambda>i. seq ! ((length ?m + i) mod length seq)) [0..<length vs])"
    using Cons.prems by (intro Cons.IH) auto
  also have "\<dots> = m @ zip (v # vs) (map (\<lambda>i. seq ! ((length m + i) mod length seq)) [0..<length (v # vs)])"
    by (simp add: upt_conv_Cons map_Suc_upt[symmetric] o_def del: upt_Suc)
  finally show ?case .
qed

lemma px_colors_nth:
  assumes "distinct vs" and "j < length vs"
  shows "map_of (px_colors seq [] vs) (vs ! j) = Some (seq ! (j mod length seq))"
  using assms by (simp add: px_colors_fresh map_of_zip_nth)

lemma px_line_color:
  "pget [''line'', ''color''] (px_line_style patch cm v) = Some (PStr (case map_of cm v of Some c \<Rightarrow> c | None \<Rightarrow> []))"
  unfolding px_line_style_def by (rule pget_pmerge_single) simp

lemma color_traces_colors:
  "map (\<lambda>tr. pget [''line'', ''color''] (tr_style tr)) (color_traces mode patch [] seq rows id cx cy)
   = map (\<lambda>j. Some (PStr (seq ! (j mod length seq)))) [0..<length (unique (map (\<lambda>((_, c), _). c) rows))]"
proof -
  let ?cs = "unique (map (\<lambda>((_, c), _). c) rows)"
  have "map (\<lambda>tr. pget [''line'', ''color''] (tr_style tr)) (color_traces mode patch [] seq rows id cx cy)
        = map (\<lambda>c. Some (PStr (case map_of (px_colors seq [] ?cs) c of Some c \<Rightarrow> c | None \<Rightarrow> []))) ?cs"
    by (simp add: color_traces_def Let_def px_line_color del: pget.simps)
  also have "\<dots> = map (\<lambda>j. Some (PStr (case map_of (px_colors seq [] ?cs) (?cs ! j) of Some c \<Rightarrow> c | None \<Rightarrow> [])))
                     [0..<length ?cs]"
    by (subst map_nth[symmetric, of ?cs]) (simp only: map_map o_def)
  also have "\<dots> = map (\<lambda>j. Some (PStr (seq ! (j mod length seq)))) [0..<length ?cs]"
    by (intro map_cong refl) (simp add: px_colors_nth)
  finally show ?thesis .
qed

lemma top_genres_length: "length (top_genres t) \<le> 10"
  by (simp add: top_genres_def nlargest_def)

lemma genre_trend_filtered_genres:
  "length (unique (map sh_cat (genre_trend_filtered df))) \<le> 10"
proof -
  have "set (unique (map sh_cat (genre_trend_filtered df))) \<subseteq> set (top_genres (genre_trend df))"
    by (auto simp: genre_trend_filtered_def Let_def)
  then have "card (set (unique (map sh_cat (genre_trend_filtered df)))) \<le> card (set (top_genres (genre_trend df)))"
    by (simp add: card_mono)
  also have "\<dots> \<le> length (top_genres (genre_trend df))" by (rule card_length)
  finally show ?thesis using top_genres_length[of "genre_trend df"]
      distinct_card[OF distinct_unique[of "map sh_cat (genre_trend_filtered df)"]] by simp
qed

lemma distinct_dark24: "distinct dark24" and length_dark24: "length dark24 = 24"
  by (simp_all add: dark24_def)

lemma hit_jitter_update_row:
  assumes "hit_jitter_update us hs = Inr hs'" and "h \<in> set hs'"
  shows "h_row h \<in> h_row ` set hs"
proof -
  obtain ss where hs': "hs' = map2 (\<lambda>h s. h\<lparr>h_jitter := Some s\<rparr>) hs (map2 (\<lambda>s u. real_of_int s + u) ss us)"
    using assms(1) by (auto simp: hit_jitter_update_def split: sum.splits)
  obtain i where "i < length hs" "h = (hs ! i)\<lparr>h_jitter := Some (map2 (\<lambda>s u. real_of_int s + u) ss us ! i)\<rparr>"
    using set_map2_nth[OF assms(2)[unfolded hs']] by blast
  then show ?thesis by simp
qed

lemma hit_votes: "h \<in> set (hit_shows_of df) \<Longrightarrow> \<exists>v. imdb_votes (h_row h) = Some v \<and> 100000 \<le> v"
  by (auto simp: hit_shows_of_def is_hit_def with_year_def split: option.splits)

lemma px_colors_keeps:
  "map_of m v = Some c \<Longrightarrow> map_of (px_colors seq m vs) v = Some c"
  by (induction vs arbitrary: m) (auto simp: map_of_append)

lemma line_width_update:
  "prop_update [(''line'', PDict [(''color'', PStr c)])] [(''line'', PDict [(''width'', PNum 3)])]
   = [(''line'', PDict [(''color'', PStr c), (''width'', PNum 3)])]"
  by (simp add: prop_update_def magic_def str_split_def split_acc.simps starts_with_iff)

lemma type_line_trace_style:
  assumes "tr \<in> set (type_line_traces rows cy)"
  shows "\<exists>c. tr_style tr = [(''line'', PDict [(''color'', PStr c), (''width'', PNum 3)])]
           \<and> (\<forall>c'. map_of type_colors (tr_name tr) = Some c' \<longrightarrow> c = c') \<and> tr_mode tr = ''lines+markers''"
proof -
  let ?cs = "unique (map (\<lambda>((_, c), _). c) rows)"
  let ?cm = "px_colors plotly_colorway type_colors (map id ?cs)"
  obtain v where tr: "tr = update_traces [(''line'', PDict [(''width'', PNum 3)])]
      ((styled (px_line_style [] ?cm v)
         (scatter v ''lines'' (map (\<lambda>((x, _), _). CInt x) (filter (\<lambda>((x, c'), y). c' = v) rows))
            (map (\<lambda>((_, _), y). cy y) (filter (\<lambda>((x, c'), y). c' = v) rows)) ''y''))\<lparr>tr_mode := ''lines+markers''\<rparr>)"
    using assms by (auto simp: type_line_traces_def color_traces_def Let_def)
  define c where "c = (case map_of ?cm v of Some c \<Rightarrow> c | None \<Rightarrow> [])"
  have st: "tr_style tr = [(''line'', PDict [(''color'', PStr c), (''width'', PNum 3)])]"
    using line_width_update[of c] by (simp add: tr c_def px_line_style_def styled_def update_traces_def)
  have "\<forall>c'. map_of type_colors (tr_name tr) = Some c' \<longrightarrow> c = c'"
    using px_colors_keeps[of type_colors v _ plotly_colorway "map id ?cs"]
    by (auto simp: tr c_def styled_def update_traces_def scatter_def)
  then show ?thesis using st by (auto simp: tr styled_def update_traces_def)
qed

lemma read_2f_parts:
  assumes "\<forall>c\<in>set ip. is_digit c" and "ip \<noteq> []" and "length fr = 2" and "\<forall>c\<in>set fr. is_digit c"
    and "digits_acc 0 ip = Some a" and "digits_acc 0 fr = Some b"
  shows "read_2f ((if neg then ''-'' else []) @ ip @ ''.'' @ fr) = Some ((if neg then -1 else 1) * (real a + real b / 100))"
proof -
  obtain c ip' where ip: "ip = c # ip'" using assms(2) by (cases ip) auto
  have c: "c \<noteq> CHR ''-''" using assms(1) ip digit_not_sign by auto
  have tw: "takeWhile (\<lambda>c. c \<noteq> CHR ''.'') (ip @ ''.'' @ fr) = ip"
    using assms(1) digit_not_sign by (simp add: takeWhile_append2)
  have dw: "dropWhile (\<lambda>c. c \<noteq> CHR ''.'') (ip @ ''.'' @ fr) = ''.'' @ fr"
    using assms(1) digit_not_sign by (simp add: dropWhile_append2)
  show ?thesis using assms(2-6) tw dw c ip by (cases neg) (simp_all add: read_2f_def Let_def)
qed

text \<open>C27: the correlations printed in the subplot titles of chart 7
  (\<open>{corr:.2f}\<close>) read back as a number within 0.005 of the correlation, and an
  undefined correlation prints as "nan", which reads back as no number.\<close>

theorem format_2f_roundtrip:
  "read_2f (format_2f None) = None \<and> (\<exists>v. read_2f (format_2f (Some x)) = Some v \<and> \<bar>v - x\<bar> \<le> 1/200)"
proof
  show "read_2f (format_2f None) = None" by (simp add: format_2f_def read_2f_def)
next
  let ?k = "round_half_even (\<bar>x\<bar> * 100)"
  let ?n = "nat ?k"
  have k0: "0 \<le> ?k" by (rule round_half_even_nonneg) simp
  have rn: "real ?n = real_of_int ?k" using k0 by simp
  have b: "\<bar>real ?n - \<bar>x\<bar> * 100\<bar> \<le> 1/2" using round_half_even_bound[of "\<bar>x\<bar> * 100"] rn by simp
  have q: "real (?n div 100) + real (?n mod 100) / 100 = real ?n / 100"
  proof -
    define q where "q = ?n div 100"
    define m where "m = ?n mod 100"
    have "?n = 100 * q + m" unfolding q_def m_def by simp
    then have "real ?n = 100 * real q + real m" by simp
    then show ?thesis unfolding q_def[symmetric] m_def[symmetric] by simp
  qed
  have r: "read_2f (format_2f (Some x))
           = Some ((if x < 0 then -1 else 1) * (real (?n div 100) + real (?n mod 100) / 100))"
    unfolding format_2f_def option.case Let_def
    by (rule read_2f_parts[where neg = "x < 0"])
       (auto simp: show_nat_digits show_nat_nonempty digits_acc_show_nat digits_acc_show_digits_small
             intro: show_digits_digits)
  show "\<exists>v. read_2f (format_2f (Some x)) = Some v \<and> \<bar>v - x\<bar> \<le> 1/200"
  proof (intro exI conjI)
    show "read_2f (format_2f (Some x)) = Some ((if x < 0 then -1 else 1) * (real ?n / 100))"
      using r q by simp
    show "\<bar>(if x < 0 then -1 else 1) * (real ?n / 100) - x\<bar> \<le> 1/200"
      using b by (cases "x < 0") (auto simp: abs_if split: if_splits)
  qed
qed

lemma y2_range_visible:
  assumes "y2_range vs = Some (lo, hi)"
  shows "(\<forall>v\<in>set vs. lo \<le> v \<and> v \<le> hi) \<longleftrightarrow> (\<forall>v\<in>set vs. 0 \<le> v)"
proof -
  have ne: "vs \<noteq> []" and lo: "lo = Min (set vs) * 0.8" and hi: "hi = Max (set vs) * 1.2"
    using assms by (auto simp: y2_range_def split: if_splits)
  have mn: "Min (set vs) \<in> set vs" and mx: "Max (set vs) \<in> set vs" using ne by simp_all
  have le: "Min (set vs) \<le> v" "v \<le> Max (set vs)" if "v \<in> set vs" for v using that by simp_all
  show ?thesis
  proof
    assume all: "\<forall>v\<in>set vs. lo \<le> v \<and> v \<le> hi"
    have "lo \<le> Min (set vs)" using all mn by blast
    then have m0: "0 \<le> Min (set vs)" unfolding lo by simp
    show "\<forall>v\<in>set vs. 0 \<le> v"
    proof
      fix v assume "v \<in> set vs"
      then show "0 \<le> v" using m0 le(1) by (meson order_trans)
    qed
  next
    assume nn: "\<forall>v\<in>set vs. 0 \<le> v"
    have m0: "0 \<le> Min (set vs)" "0 \<le> Max (set vs)" using nn mn mx by blast+
    show "\<forall>v\<in>set vs. lo \<le> v \<and> v \<le> hi"
    proof
      fix v assume v: "v \<in> set vs"
      have "Min (set vs) * 0.8 \<le> Min (set vs)" "Max (set vs) \<le> Max (set vs) * 1.2" using m0 by simp_all
      then show "lo \<le> v \<and> v \<le> hi" unfolding lo hi using le[OF v] by linarith
    qed
  qed
qed

text \<open>C26: the secondary axis of chart 6 spans [0.8 min, 1.2 max] of the ratio and
  price-change values (lines 227--228). Every plotted value lies inside that range exactly
  when no value is negative: a negative minimum m is below 0.8 m, so the lowest price
  change falls outside the axis.\<close>

theorem stock_vs_quality_y2_visible:
  assumes "fig_y2range (plot_stock_vs_quality st) = Some (lo, hi)"
  shows "(\<forall>v\<in>set (y2_values st). lo \<le> v \<and> v \<le> hi) \<longleftrightarrow> (\<forall>v\<in>set (y2_values st). 0 \<le> v)"
  using assms by (intro y2_range_visible) (simp add: plot_stock_vs_quality_def base_figure_def)

text \<open>C28: chart 12 fixes the colour range to (0, 1), and every value it colours is a
  country's share of a year's titles in (0, 1].\<close>

theorem country_map_in_color_range:
  assumes "tr \<in> set (fig_traces (plot_country_production_growth (country_growth df)))"
    and "cv \<in> set (tr_y tr)"
  shows "fig_color_range (plot_country_production_growth (country_growth df)) = Some (0, 1)
         \<and> (\<exists>p. cv = CNum (Some p) \<and> 0 < p \<and> p \<le> 1)"
proof -
  obtain r where "r \<in> set (country_growth df)" and "cv = CNum (sh_pct r)"
    using assms by (auto simp: plot_country_production_growth_def base_figure_def Let_def)
  then show ?thesis using country_growth_pct
    by (fastforce simp: plot_country_production_growth_def base_figure_def)
qed

text \<open>C3: every marker of the hit shows in chart 8 has a size, one per hit show, and
  each size is at least 5 pixels: the size is \<open>imdb_votes / 20000\<close> (line 354) and a
  hit show has at least 100000 votes (line 331).\<close>

theorem hit_marker_sizes:
  assumes "plot_impact_of_hit_shows_on_stock us df (hit_shows_of df0) = Inr (fig, hs')"
  shows "\<exists>sz. pget [''marker'', ''size''] (tr_style (fig_traces fig ! 1)) = Some (PCells sz)
           \<and> length sz = length hs' \<and> (\<forall>c\<in>set sz. \<exists>v. c = CNum (Some v) \<and> 5 \<le> v)"
proof -
  have j: "hit_jitter_update us (hit_shows_of df0) = Inr hs'"
    using assms by (auto simp: plot_impact_of_hit_shows_on_stock_def split: sum.splits)
  let ?sz = "map (\<lambda>h. CNum (map_option (\<lambda>v. v / 20000) (imdb_votes (h_row h)))) hs'"
  have p: "pget [''marker'', ''size''] (tr_style (fig_traces fig ! 1)) = Some (PCells ?sz)"
    using assms by (auto simp: plot_impact_of_hit_shows_on_stock_def base_figure_def hit_marker_def split: sum.splits)
  have "\<exists>v. c = CNum (Some v) \<and> 5 \<le> v" if cin: "c \<in> set ?sz" for c
  proof -
    obtain h where h: "h \<in> set hs'" and c: "c = CNum (map_option (\<lambda>v. v / 20000) (imdb_votes (h_row h)))"
      using cin unfolding set_map by blast
    obtain h0 where "h0 \<in> set (hit_shows_of df0)" and "h_row h = h_row h0"
      using hit_jitter_update_row[OF j h] by auto
    then obtain v where "imdb_votes (h_row h) = Some v" and "100000 \<le> v" using hit_votes by metis
    moreover have "5 \<le> v / 20000" using \<open>100000 \<le> v\<close> by (simp add: le_divide_eq)
    ultimately show ?thesis using c by (intro exI[of _ "v / 20000"]) simp
  qed
  then show ?thesis using p by auto
qed

text \<open>C14: the genre chart (chart 10) draws each genre in its own colour: plotly
  express gives the n-th genre the n-th colour of Dark24 (line 506), which has 24 distinct
  colours, and the chart shows at most the ten largest genres (line 495).\<close>

theorem genre_trend_colors_distinct:
  "distinct (map (\<lambda>tr. pget [''line'', ''color''] (tr_style tr))
              (fig_traces (plot_genre_trends (genre_trend_filtered df))))"
proof -
  let ?rows = "map (\<lambda>r. ((sh_year r, sh_cat r), sh_pct r)) (genre_trend_filtered df)"
  let ?n = "length (unique (map (\<lambda>((_, c), _). c) ?rows))"
  have n: "?n \<le> 10" using genre_trend_filtered_genres[of df] by (simp add: o_def)
  have "inj_on (\<lambda>j. Some (PStr (dark24 ! (j mod length dark24)))) {0..<?n}"
  proof (rule inj_onI)
    fix i j assume "i \<in> {0..<?n}" "j \<in> {0..<?n}"
      and "Some (PStr (dark24 ! (i mod length dark24))) = Some (PStr (dark24 ! (j mod length dark24)))"
    then show "i = j" using n distinct_dark24 by (simp add: length_dark24 nth_eq_iff_index_eq)
  qed
  moreover have "map (\<lambda>tr. pget [''line'', ''color''] (tr_style tr)) (fig_traces (plot_genre_trends (genre_trend_filtered df)))
      = map (\<lambda>j. Some (PStr (dark24 ! (j mod length dark24)))) [0..<?n]"
    by (simp add: plot_genre_trends_def base_figure_def color_traces_colors del: pget.simps)
  ultimately show ?thesis by (simp add: distinct_map del: pget.simps)
qed

text \<open>C7: charts 3 and 4 draw the movies in Netflix red and the shows in grey whatever
  order the types first occur in (\<open>color_discrete_map\<close>, lines 83 and 110), and
  \<open>update_traces(line=dict(width=3))\<close> (lines 85 and 112) adds the width to that line
  without dropping its colour, as plotly merges nested properties.\<close>

theorem type_trace_colors:
  assumes "tr \<in> set (fig_traces (plot_movie_vs_tv_production df)) \<union> set (fig_traces (plot_movie_vs_tv_imdb df))"
  shows "(tr_name tr = ''MOVIE'' \<longrightarrow> pget [''line'', ''color''] (tr_style tr) = Some (PStr ''#E50914''))
       \<and> (tr_name tr = ''SHOW'' \<longrightarrow> pget [''line'', ''color''] (tr_style tr) = Some (PStr ''#B3B3B3''))
       \<and> pget [''line'', ''width''] (tr_style tr) = Some (PNum 3) \<and> tr_mode tr = ''lines+markers''"
proof -
  have "tr \<in> set (type_line_traces (type_counts df) (\<lambda>n. CNum (Some (real n))))
        \<or> tr \<in> set (type_line_traces (type_scores df) CNum)"
    using assms by (auto simp: plot_movie_vs_tv_production_def plot_movie_vs_tv_imdb_def base_figure_def)
  then have "\<exists>c. tr_style tr = [(''line'', PDict [(''color'', PStr c), (''width'', PNum 3)])]
           \<and> (\<forall>c'. map_of type_colors (tr_name tr) = Some c' \<longrightarrow> c = c') \<and> tr_mode tr = ''lines+markers''"
    by (elim disjE) (rule type_line_trace_style, assumption)+
  then obtain c where "tr_style tr = [(''line'', PDict [(''color'', PStr c), (''width'', PNum 3)])]"
    and "\<forall>c'. map_of type_colors (tr_name tr) = Some c' \<longrightarrow> c = c'" and "tr_mode tr = ''lines+markers''"
    by blast
  then show ?thesis by (auto simp: type_colors_def)
qed

section \<open>Witnesses\<close>

theorem stock_vs_quality_y2_visible_witness:
  "fig_y2range (plot_stock_vs_quality (df_stock_v6 [sample_row 2018 7 10, sample_row 2019 8 8, sample_row 2020 7.5 6]))
     = Some (-12, 120)
   \<and> (\<exists>v\<in>set (y2_values (df_stock_v6 [sample_row 2018 7 10, sample_row 2019 8 8, sample_row 2020 7.5 6])).
        v < -12 \<or> 120 < v)"
proof -
  let ?st = "df_stock_v6 [sample_row 2018 7 10, sample_row 2019 8 8, sample_row 2020 7.5 6]"
  have r: "fig_y2range (plot_stock_vs_quality ?st) = Some (-12, 120)" by (simp add: frame_eval)
  have v: "y2_values ?st = [0, 100, 100, 0, -10, -15]" by (simp add: frame_eval)
  have "\<not> (\<forall>v\<in>set (y2_values ?st). -12 \<le> v \<and> v \<le> 120)"
    using stock_vs_quality_y2_visible[OF r] v by simp
  then show ?thesis using r by force
qed

theorem country_map_in_color_range_witness:
  "fig_color_range (plot_country_production_growth (country_growth [sample_title 2019 ''Dramas'' ''France''])) = Some (0, 1)
   \<and> fig_traces (plot_country_production_growth (country_growth [sample_title 2019 ''Dramas'' ''France'']))
       = [\<lparr>tr_kind = ''choropleth'', tr_name = [], tr_mode = [], tr_x = [CText (Some ''France'')],
           tr_y = [CNum (Some 1)], tr_yaxis = [], tr_col = 1, tr_frame = Some 2019,
           tr_style = [(''locationmode'', PStr ''country names'')]\<rparr>]
   \<and> (0::real) < 1"
proof -
  let ?f = "plot_country_production_growth (country_growth [sample_title 2019 ''Dramas'' ''France''])"
  let ?tr = "\<lparr>tr_kind = ''choropleth'', tr_name = [], tr_mode = [], tr_x = [CText (Some ''France'')],
           tr_y = [CNum (Some 1)], tr_yaxis = [], tr_col = 1, tr_frame = Some 2019,
           tr_style = [(''locationmode'', PStr ''country names'')]\<rparr>"
  have t: "fig_traces ?f = [?tr]" by (simp add: frame_eval)
  have "fig_color_range ?f = Some (0, 1) \<and> (\<exists>p. CNum (Some 1) = CNum (Some p) \<and> 0 < p \<and> p \<le> 1)"
  proof (rule country_map_in_color_range[of ?tr])
    show "?tr \<in> set (fig_traces ?f)" by (simp add: t)
    show "CNum (Some 1) \<in> set (tr_y ?tr)" by simp
  qed
  then show ?thesis using t by simp
qed

theorem format_2f_roundtrip_witness:
  "format_2f (Some (-0.456)) = ''-0.46'' \<and> read_2f ''-0.46'' = Some (-0.46)"
proof -
  have f: "format_2f (Some (-0.456)) = ''-0.46''" by (simp add: frame_eval)
  obtain v where "read_2f (format_2f (Some (-0.456))) = Some v" using format_2f_roundtrip by blast
  then show ?thesis using f by (simp add: read_2f_def frame_eval)
qed

theorem hit_marker_sizes_witness:
  "\<exists>fig. plot_impact_of_hit_shows_on_stock [1/2] [] (hit_shows_of [sample_hit 2019 9 150000])
     = Inr (fig, [\<lparr>h_row = with_year (sample_hit 2019 9 150000), h_jitter = Some (1559347200 + 1/2)\<rparr>])
     \<and> pget [''marker'', ''size''] (tr_style (fig_traces fig ! 1)) = Some (PCells [CNum (Some (15/2))])
     \<and> (5::real) \<le> 15/2"
proof -
  let ?hs = "[\<lparr>h_row = with_year (sample_hit 2019 9 150000), h_jitter = Some (1559347200 + 1/2)\<rparr>]"
  have j: "hit_jitter_update [1/2] (hit_shows_of [sample_hit 2019 9 150000]) = Inr ?hs"
    by (simp add: frame_eval sample_hit_def)
  obtain fig where r: "plot_impact_of_hit_shows_on_stock [1/2] [] (hit_shows_of [sample_hit 2019 9 150000]) = Inr (fig, ?hs)"
    using j unfolding plot_impact_of_hit_shows_on_stock_def by auto
  obtain sz where sz: "pget [''marker'', ''size''] (tr_style (fig_traces fig ! 1)) = Some (PCells sz)"
    using hit_marker_sizes[OF r] by blast
  have "pget [''marker'', ''size''] (tr_style (fig_traces fig ! 1)) = Some (PCells [CNum (Some (15/2))])"
    using r unfolding plot_impact_of_hit_shows_on_stock_def j
    by (auto simp: base_figure_def hit_marker_def sample_hit_def sample_row_def with_year_def)
  then show ?thesis using r by auto
qed

theorem type_trace_colors_witness:
  "fig_traces (plot_movie_vs_tv_production [sample_row 2019 7 10]) \<noteq> []
   \<and> tr_name (hd (fig_traces (plot_movie_vs_tv_production [sample_row 2019 7 10]))) = ''MOVIE''
   \<and> pget [''line'', ''color''] (tr_style (hd (fig_traces (plot_movie_vs_tv_production [sample_row 2019 7 10]))))
       = Some (PStr ''#E50914'')"
proof -
  let ?f = "plot_movie_vs_tv_production [sample_row 2019 7 10]"
  have ne: "fig_traces ?f \<noteq> []" and nm: "tr_name (hd (fig_traces ?f)) = ''MOVIE''"
    by (simp_all add: frame_eval sample_row_def type_line_traces_def del: pget.simps)
  have "hd (fig_traces ?f) \<in> set (fig_traces ?f) \<union> set (fig_traces (plot_movie_vs_tv_imdb [sample_row 2019 7 10]))"
    using ne by simp
  then show ?thesis using type_trace_colors[of "hd (fig_traces ?f)"] ne nm by blast
qed

end
