(* ===== verification/Csv_Tokenizer.thy ===== *)
theory Csv_Tokenizer
  imports Content_Table "HOL-Library.While_Combinator"
begin

text \<open>
  \<open>pd.read_csv(DATA_PATH)\<close> (\<open>src/app/visualization.py\<close>, lines 12 and 397) with
  its default options: the records of the text, as pandas' C tokenizer
  (\<open>tokenize_bytes\<close> of \<open>tokenizer.c\<close>) splits them. The tokenizer is a loop over
  the characters with one state of \<open>tok_state\<close>; a comma ends a field, a newline a
  record, a double quote opens a quoted field in which a doubled quote stands for one.
  Blank lines are skipped; a line that starts with blanks is first taken for a blank
  line, and when another character shows it is not, the loop scans back to the start of
  the line and reads it again as a record (\<open>WHITESPACE_LINE\<close>). A carriage return
  ends a record as well (\<open>EAT_CRNL\<close>, \<open>EAT_CRNL_NOP\<close>), and the character after
  it is read again. \<open>end_line\<close> pads a short record with empty fields to the length of
  the previous record and fails with \<open>TooManyFields\<close> on a longer one, except for the
  header and the first data record; the end of the text inside a quoted field fails with
  \<open>EOFInsideString\<close>.

  \<open>tok_run\<close> is that loop as a \<open>while_option\<close> over the position and the
  tokenizer state, so that it has a result only if it stops. \<open>tok_ref\<close> is a one-pass
  reading of the same text, which keeps the blanks of a line aside instead of scanning
  back. \<open>to_csv\<close> writes a table as Python's \<open>csv\<close> module does with
  \<open>QUOTE_MINIMAL\<close> and newline line ends (the data file is such a table).

  Lemmas: the loop returns on every text without carriage return, with the result of
  \<open>tok_ref\<close> (a simulation in which one backtracking step of the loop is matched by
  the replay of the buffered blanks); writing a table and reading it back gives the
  table; the records after the header all have one length, at least that of the header.
\<close>

section \<open>The tokenizer loop\<close>

abbreviation csv_nl :: char where "csv_nl \<equiv> CHR ''\<newline>''"

abbreviation csv_cr :: char where "csv_cr \<equiv> CHR 0x0D"

abbreviation csv_quote :: char where "csv_quote \<equiv> CHR 0x22"

abbreviation csv_comma :: char where "csv_comma \<equiv> CHR '',''"

text \<open>\<open>isblank\<close> of C: space and tab.\<close>

definition is_blank :: "char \<Rightarrow> bool" where
  "is_blank c \<longleftrightarrow> c = CHR '' '' \<or> c = CHR 0x09"

datatype tok_state = StartRecord | StartField | InField | InQuotedField | QuoteInQuotedField
  | EatCrnl | EatCrnlNop | WhitespaceLine

record tokenizer =
  tk_state :: tok_state
  tk_field :: string
  tk_fields :: "string list"
  tk_rows :: "string list list"
  tk_error :: "load_error option"

definition tok_init :: tokenizer where
  "tok_init = \<lparr>tk_state = StartRecord, tk_field = [], tk_fields = [], tk_rows = [], tk_error = None\<rparr>"

definition push_char :: "tokenizer \<Rightarrow> char \<Rightarrow> tokenizer" where
  "push_char t c = t\<lparr>tk_field := tk_field t @ [c]\<rparr>"

definition end_field :: "tokenizer \<Rightarrow> tokenizer" where
  "end_field t = t\<lparr>tk_fields := tk_fields t @ [tk_field t], tk_field := []\<rparr>"

text \<open>\<open>end_line\<close>: the first record is the header; from the second data record on, a
  record with more fields than the previous one is an error; a shorter one is padded.\<close>

definition end_line :: "tokenizer \<Rightarrow> tokenizer" where
  "end_line t = (let fs = tk_fields t; rs = tk_rows t in
     if rs = [] then t\<lparr>tk_rows := [fs], tk_fields := [], tk_state := StartRecord\<rparr>
     else let ex = length (last rs) in
       if 2 \<le> length rs \<and> ex < length fs then t\<lparr>tk_error := Some (TooManyFields ex (length fs))\<rparr>
       else t\<lparr>tk_rows := rs @ [fs @ replicate (ex - length fs) []], tk_fields := [], tk_state := StartRecord\<rparr>)"

text \<open>\<open>START_FIELD\<close>, also reached from \<open>START_RECORD\<close> by falling through.\<close>

definition field_start :: "tokenizer \<Rightarrow> char \<Rightarrow> tokenizer" where
  "field_start t c =
     (if c = csv_nl then end_line (end_field t)
      else if c = csv_cr then (end_field t)\<lparr>tk_state := EatCrnl\<rparr>
      else if c = csv_quote then t\<lparr>tk_state := InQuotedField\<rparr>
      else if c = csv_comma then (end_field t)\<lparr>tk_state := StartField\<rparr>
      else (push_char t c)\<lparr>tk_state := InField\<rparr>)"

text \<open>One character in each state, as the \<open>switch\<close> of \<open>tokenize_bytes\<close> treats it
  where it consumes the character.\<close>

definition char_step :: "tokenizer \<Rightarrow> char \<Rightarrow> tokenizer" where
  "char_step t c = (case tk_state t of
      StartRecord \<Rightarrow>
        if c = csv_nl then t else if c = csv_cr then t\<lparr>tk_state := EatCrnlNop\<rparr>
        else if is_blank c then t\<lparr>tk_state := WhitespaceLine\<rparr> else field_start t c
    | StartField \<Rightarrow> field_start t c
    | InField \<Rightarrow>
        if c = csv_nl then end_line (end_field t)
        else if c = csv_cr then (end_field t)\<lparr>tk_state := EatCrnl\<rparr>
        else if c = csv_comma then (end_field t)\<lparr>tk_state := StartField\<rparr>
        else push_char t c
    | InQuotedField \<Rightarrow> if c = csv_quote then t\<lparr>tk_state := QuoteInQuotedField\<rparr> else push_char t c
    | QuoteInQuotedField \<Rightarrow>
        if c = csv_quote then (push_char t c)\<lparr>tk_state := InQuotedField\<rparr>
        else if c = csv_comma then (end_field t)\<lparr>tk_state := StartField\<rparr>
        else if c = csv_nl then end_line (end_field t)
        else if c = csv_cr then (end_field t)\<lparr>tk_state := EatCrnl\<rparr>
        else (push_char t c)\<lparr>tk_state := InField\<rparr>
    | EatCrnl \<Rightarrow> if c = csv_nl then end_line t else (end_line t)\<lparr>tk_state := StartField\<rparr>
    | EatCrnlNop \<Rightarrow> t\<lparr>tk_state := StartRecord\<rparr>
    | WhitespaceLine \<Rightarrow>
        if c = csv_nl then t\<lparr>tk_state := StartRecord\<rparr> else if c = csv_cr then t\<lparr>tk_state := EatCrnlNop\<rparr>
        else t)"

text \<open>The position after the last newline before position \<open>i\<close>: where the backtracking of
  \<open>WHITESPACE_LINE\<close> stops (the text is one buffer).\<close>

definition line_start :: "string \<Rightarrow> nat \<Rightarrow> nat" where
  "line_start s i = i - length (takeWhile (\<lambda>c. c \<noteq> csv_nl) (rev (take i s)))"

text \<open>One iteration of the loop: the backtracking of \<open>WHITESPACE_LINE\<close>, and the two
  states after a carriage return that read the next character again.\<close>

definition tok_step :: "string \<Rightarrow> nat \<times> tokenizer \<Rightarrow> nat \<times> tokenizer" where
  "tok_step s = (\<lambda>(i, t). let c = s ! i in
     (case tk_state t of
        WhitespaceLine \<Rightarrow>
          if c \<noteq> csv_nl \<and> c \<noteq> csv_cr \<and> \<not> is_blank c then (line_start s i, t\<lparr>tk_state := StartField\<rparr>)
          else (Suc i, char_step t c)
      | EatCrnl \<Rightarrow> if c \<noteq> csv_nl \<and> c \<noteq> csv_comma then (i, end_line t) else (Suc i, char_step t c)
      | EatCrnlNop \<Rightarrow> if c \<noteq> csv_nl \<and> c \<noteq> csv_comma then (i, char_step t c) else (Suc i, char_step t c)
      | _ \<Rightarrow> (Suc i, char_step t c)))"

definition tok_run :: "string \<Rightarrow> (nat \<times> tokenizer) option" where
  "tok_run s = while_option (\<lambda>(i, t). i < length s \<and> tk_error t = None) (tok_step s) (0, tok_init)"

text \<open>\<open>parser_handle_eof\<close>, and the records or the error.\<close>

definition tok_eof :: "tokenizer \<Rightarrow> tokenizer" where
  "tok_eof t = (if tk_error t \<noteq> None then t else (case tk_state t of
      InQuotedField \<Rightarrow> t\<lparr>tk_error := Some EOFInsideString\<rparr>
    | InField \<Rightarrow> end_line (end_field t)
    | StartField \<Rightarrow> end_line (end_field t)
    | QuoteInQuotedField \<Rightarrow> end_line (end_field t)
    | EatCrnl \<Rightarrow> end_line t
    | _ \<Rightarrow> t))"

definition csv_records :: "string \<Rightarrow> (load_error + string list list) option" where
  "csv_records s = map_option (\<lambda>(i, t). let t' = tok_eof t in
     case tk_error t' of Some e \<Rightarrow> Inl e | None \<Rightarrow> Inr (tk_rows t')) (tok_run s)"

section \<open>The one-pass reading and the writer\<close>

text \<open>The reference: one pass over the text, the blanks of a line that starts with blanks
  kept aside and replayed as the start of a record when the line is not blank.\<close>

fun tok_ref :: "tokenizer \<Rightarrow> string \<Rightarrow> string \<Rightarrow> tokenizer" where
  "tok_ref t b [] = t"
| "tok_ref t b (c # cs) = (if tk_error t \<noteq> None then t else (case tk_state t of
      WhitespaceLine \<Rightarrow>
        if c \<noteq> csv_nl \<and> c \<noteq> csv_cr \<and> \<not> is_blank c then tok_ref (foldl char_step (t\<lparr>tk_state := StartField\<rparr>) (b @ [c])) [] cs
        else tok_ref (char_step t c) (b @ [c]) cs
    | StartRecord \<Rightarrow> tok_ref (char_step t c) [c] cs
    | EatCrnl \<Rightarrow> if c \<noteq> csv_nl \<and> c \<noteq> csv_comma then
          (let t' = end_line t in if tk_error t' \<noteq> None then t' else tok_ref (char_step t' c) [c] cs)
        else tok_ref (char_step t c) b cs
    | EatCrnlNop \<Rightarrow> if c \<noteq> csv_nl \<and> c \<noteq> csv_comma then tok_ref (char_step (char_step t c) c) [c] cs
        else tok_ref (char_step t c) b cs
    | _ \<Rightarrow> tok_ref (char_step t c) b cs))"

text \<open>Python's \<open>csv.writer\<close> with \<open>QUOTE_MINIMAL\<close>: a field is quoted when it holds a
  comma, a quote or a line end, a quote doubled inside; a record of one empty field is
  written as two quotes.\<close>

definition needs_quotes :: "string \<Rightarrow> bool" where
  "needs_quotes f \<longleftrightarrow> (\<exists>c\<in>set f. c = csv_comma \<or> c = csv_quote \<or> c = csv_nl \<or> c = csv_cr)"

definition escape_quotes :: "string \<Rightarrow> string" where
  "escape_quotes f = concat (map (\<lambda>c. if c = csv_quote then [csv_quote, csv_quote] else [c]) f)"

definition field_text :: "string \<Rightarrow> string" where
  "field_text f = (if needs_quotes f then csv_quote # escape_quotes f @ [csv_quote] else f)"

fun fields_text :: "string list \<Rightarrow> string" where
  "fields_text [] = []"
| "fields_text [f] = field_text f"
| "fields_text (f # fs) = field_text f @ csv_comma # fields_text fs"

definition row_text :: "string list \<Rightarrow> string" where
  "row_text fs = (if fs = [''''] then [csv_quote, csv_quote] else fields_text fs) @ [csv_nl]"

definition to_csv :: "string list list \<Rightarrow> string" where
  "to_csv rs = concat (map row_text rs)"

section \<open>Proof vocabulary\<close>

text \<open>What holds of the loop at position \<open>j\<close> with the blanks \<open>b\<close> of \<open>tok_ref\<close>:
  a record starts right after a newline, and the blanks of a whitespace line are those
  from its start to \<open>j\<close>.\<close>

definition tok_inv :: "string \<Rightarrow> nat \<Rightarrow> tokenizer \<Rightarrow> string \<Rightarrow> bool" where
  "tok_inv s j t b \<longleftrightarrow> tk_state t \<noteq> EatCrnl \<and> tk_state t \<noteq> EatCrnlNop
     \<and> (tk_state t = StartRecord \<longrightarrow> line_start s j = j)
     \<and> (tk_state t = WhitespaceLine \<longrightarrow> b = drop (line_start s j) (take j s) \<and> (\<forall>c\<in>set b. is_blank c))"

abbreviation tok_cond :: "string \<Rightarrow> nat \<times> tokenizer \<Rightarrow> bool" where
  "tok_cond s \<equiv> \<lambda>(i, t). i < length s \<and> tk_error t = None"

definition ref_buf :: "tokenizer \<Rightarrow> string \<Rightarrow> char \<Rightarrow> string" where
  "ref_buf t b c = (case tk_state t of StartRecord \<Rightarrow> [c] | WhitespaceLine \<Rightarrow> b @ [c] | _ \<Rightarrow> b)"

definition plain_state :: "tok_state \<Rightarrow> bool" where
  "plain_state st \<longleftrightarrow> st = StartField \<or> st = InField \<or> st = InQuotedField \<or> st = QuoteInQuotedField"

fun plain_path :: "tokenizer \<Rightarrow> string \<Rightarrow> bool" where
  "plain_path t [] = True"
| "plain_path t (x # xs) = (plain_state (tk_state t) \<and> tk_error t = None \<and> plain_path (char_step t x) xs)"

definition line_text :: "string list \<Rightarrow> string" where
  "line_text fs = (if fs = [''''] then [csv_quote, csv_quote] else fields_text fs)"

definition blank_row :: "string list \<Rightarrow> bool" where
  "blank_row fs \<longleftrightarrow> (case fs of [f] \<Rightarrow> f \<noteq> [] \<and> (\<forall>c\<in>set f. is_blank c) | _ \<Rightarrow> False)"

definition rows_inv :: "string list list \<Rightarrow> bool" where
  "rows_inv rs \<longleftrightarrow> (case rs of h # r # rest \<Rightarrow> length h \<le> length r \<and> (\<forall>x\<in>set rest. length x = length r) | _ \<Rightarrow> True)"

lemmas csv_eval = tok_init_def char_step_def field_start_def push_char_def end_field_def end_line_def
  tok_eof_def is_blank_def

section \<open>The loop returns the one-pass reading\<close>

lemma line_start_le: "line_start s i \<le> i"
  by (simp add: line_start_def)

lemma line_start_Suc:
  assumes "i < length s"
  shows "line_start s (Suc i) = (if s ! i = csv_nl then Suc i else line_start s i)"
proof -
  have "take (Suc i) s = take i s @ [s ! i]" using assms by (simp add: take_Suc_conv_app_nth)
  moreover have "length (takeWhile (\<lambda>c. c \<noteq> csv_nl) (rev (take i s))) \<le> i"
    using length_takeWhile_le[of _ "rev (take i s)"] assms by simp
  ultimately show ?thesis by (simp add: line_start_def)
qed

lemma drop_take_Suc:
  "p \<le> i \<Longrightarrow> i < length s \<Longrightarrow> drop p (take (Suc i) s) = drop p (take i s) @ [s ! i]"
  by (simp add: take_Suc_conv_app_nth)

lemma tok_ref_error: "tk_error t \<noteq> None \<Longrightarrow> tok_ref t b xs = t"
  by (cases xs) auto

lemma end_line_state: "tk_error (end_line t) = None \<Longrightarrow> tk_state (end_line t) = StartRecord"
  by (auto simp: end_line_def Let_def split: if_splits)

lemma end_line_error_state: "tk_error (end_line t) \<noteq> None \<Longrightarrow> tk_error t = None \<Longrightarrow> tk_state (end_line t) = tk_state t"
  by (auto simp: end_line_def Let_def split: if_splits)

lemma blank_not_special [simp]:
  "is_blank c \<Longrightarrow> c \<noteq> csv_nl \<and> c \<noteq> csv_cr \<and> c \<noteq> csv_quote \<and> c \<noteq> csv_comma"
  by (auto simp: is_blank_def)

lemma char_step_blank:
  "is_blank c \<Longrightarrow> tk_state t = StartField \<or> tk_state t = InField \<Longrightarrow>
   tk_state (char_step t c) = InField \<and> tk_error (char_step t c) = tk_error t"
  by (auto simp: char_step_def field_start_def push_char_def)

lemma tok_replay:
  "p + length xs \<le> length s \<Longrightarrow> take (length xs) (drop p s) = xs \<Longrightarrow> \<forall>c\<in>set xs. is_blank c \<Longrightarrow>
   tk_state t = StartField \<or> tk_state t = InField \<Longrightarrow> tk_error t = None \<Longrightarrow>
   while_option (tok_cond s) (tok_step s) (p, t)
   = while_option (tok_cond s) (tok_step s) (p + length xs, foldl char_step t xs)"
proof (induction xs arbitrary: p t)
  case Nil
  then show ?case by simp
next
  case (Cons x xs)
  have p1: "p < length s" using Cons.prems(1) by simp
  have d: "drop p s = s ! p # drop (Suc p) s" using Cons_nth_drop_Suc[OF p1] by simp
  have p: "p < length s" "s ! p = x" using p1 Cons.prems(2) d by auto
  have st: "tok_step s (p, t) = (Suc p, char_step t x)"
    using Cons.prems(4) p(2) by (auto simp: tok_step_def)
  have x: "is_blank x" using Cons.prems(3) by simp
  have nx: "tk_state (char_step t x) = InField" "tk_error (char_step t x) = None"
    using char_step_blank[OF x Cons.prems(4)] Cons.prems(5) by auto
  have tk: "take (length xs) (drop (Suc p) s) = xs" using Cons.prems(2) d by simp
  have "while_option (tok_cond s) (tok_step s) (p, t) = while_option (tok_cond s) (tok_step s) (Suc p, char_step t x)"
    using p(1) Cons.prems(5) st by (subst while_option_unfold) simp
  also have "\<dots> = while_option (tok_cond s) (tok_step s) (Suc p + length xs, foldl char_step (char_step t x) xs)"
    using Cons.IH[of "Suc p" "char_step t x"] Cons.prems(1,3) tk nx by auto
  finally show ?case by simp
qed

lemma char_step_StartRecord:
  "tk_state t \<noteq> EatCrnl \<Longrightarrow> tk_state t \<noteq> EatCrnlNop \<Longrightarrow> tk_error (char_step t c) = None \<Longrightarrow>
   tk_state (char_step t c) = StartRecord \<Longrightarrow> c = csv_nl"
  by (cases "tk_state t")
     (auto simp: char_step_def field_start_def push_char_def end_field_def end_line_def Let_def split: if_splits)

lemma char_step_Eat:
  "tk_state t \<noteq> EatCrnl \<Longrightarrow> tk_state t \<noteq> EatCrnlNop \<Longrightarrow> tk_error (char_step t c) = None \<Longrightarrow>
   tk_state (char_step t c) = EatCrnl \<or> tk_state (char_step t c) = EatCrnlNop \<Longrightarrow> c = csv_cr"
  by (cases "tk_state t")
     (auto simp: char_step_def field_start_def push_char_def end_field_def end_line_def Let_def split: if_splits)

lemma char_step_WS:
  "tk_state (char_step t c) = WhitespaceLine \<Longrightarrow> tk_error (char_step t c) = None \<Longrightarrow>
   (tk_state t = StartRecord \<and> is_blank c) \<or> (tk_state t = WhitespaceLine \<and> c \<noteq> csv_nl \<and> c \<noteq> csv_cr)"
  by (cases "tk_state t")
     (auto simp: char_step_def field_start_def push_char_def end_field_def end_line_def Let_def split: if_splits)

lemma foldl_char_step_blanks:
  "\<forall>c\<in>set xs. is_blank c \<Longrightarrow> tk_state t = StartField \<or> tk_state t = InField \<Longrightarrow> tk_error t = None \<Longrightarrow>
   (tk_state (foldl char_step t xs) = StartField \<or> tk_state (foldl char_step t xs) = InField)
   \<and> tk_error (foldl char_step t xs) = None"
proof (induction xs arbitrary: t)
  case (Cons x xs)
  then show ?case using char_step_blank[of x t] by simp
qed simp

lemma tok_ref_step:
  "tk_error t = None \<Longrightarrow> tk_state t \<noteq> EatCrnl \<Longrightarrow> tk_state t \<noteq> EatCrnlNop \<Longrightarrow>
   \<not> (tk_state t = WhitespaceLine \<and> c \<noteq> csv_nl \<and> c \<noteq> csv_cr \<and> \<not> is_blank c) \<Longrightarrow>
   tok_ref t b (c # cs) = tok_ref (char_step t c) (ref_buf t b c) cs"
  by (cases "tk_state t") (auto simp: ref_buf_def)

lemma tok_step_plain:
  "tk_state t \<noteq> EatCrnl \<Longrightarrow> tk_state t \<noteq> EatCrnlNop \<Longrightarrow>
   \<not> (tk_state t = WhitespaceLine \<and> s ! j \<noteq> csv_nl \<and> s ! j \<noteq> csv_cr \<and> \<not> is_blank (s ! j)) \<Longrightarrow>
   tok_step s (j, t) = (Suc j, char_step t (s ! j))"
  by (cases "tk_state t") (auto simp: tok_step_def)

lemma tok_inv_step:
  assumes "tok_inv s j t b" "j < length s" "s ! j \<noteq> csv_cr" "tk_error (char_step t (s ! j)) = None"
    and "\<not> (tk_state t = WhitespaceLine \<and> s ! j \<noteq> csv_nl \<and> \<not> is_blank (s ! j))"
  shows "tok_inv s (Suc j) (char_step t (s ! j)) (ref_buf t b (s ! j))"
proof -
  let ?t = "char_step t (s ! j)"
  have e: "tk_state t \<noteq> EatCrnl" "tk_state t \<noteq> EatCrnlNop" using assms(1) by (auto simp: tok_inv_def)
  have "tk_state ?t \<noteq> EatCrnl \<and> tk_state ?t \<noteq> EatCrnlNop" using char_step_Eat[OF e assms(4)] assms(3) by blast
  moreover have "tk_state ?t = StartRecord \<longrightarrow> line_start s (Suc j) = Suc j"
    using char_step_StartRecord[OF e assms(4)] line_start_Suc[OF assms(2)] by auto
  moreover have "tk_state ?t = WhitespaceLine \<longrightarrow> ref_buf t b (s ! j) = drop (line_start s (Suc j)) (take (Suc j) s)
      \<and> (\<forall>c\<in>set (ref_buf t b (s ! j)). is_blank c)"
  proof
    assume ws: "tk_state ?t = WhitespaceLine"
    have ls: "line_start s (Suc j) = line_start s j" if "s ! j \<noteq> csv_nl"
      using line_start_Suc[OF assms(2)] that by simp
    consider "tk_state t = StartRecord" "is_blank (s ! j)" | "tk_state t = WhitespaceLine" "s ! j \<noteq> csv_nl"
      using char_step_WS[OF ws assms(4)] by blast
    then show "ref_buf t b (s ! j) = drop (line_start s (Suc j)) (take (Suc j) s)
      \<and> (\<forall>c\<in>set (ref_buf t b (s ! j)). is_blank c)"
    proof cases
      case 1
      then have "line_start s j = j" using assms(1) by (simp add: tok_inv_def)
      then show ?thesis using 1 ls assms(2) by (simp add: ref_buf_def take_Suc_conv_app_nth)
    next
      case 2
      then have b: "b = drop (line_start s j) (take j s)" "\<forall>c\<in>set b. is_blank c"
        using assms(1) by (auto simp: tok_inv_def)
      have "is_blank (s ! j)" using 2 assms(5) by blast
      then show ?thesis using 2 ls b drop_take_Suc[OF line_start_le assms(2)]
        by (simp add: ref_buf_def)
    qed
  qed
  ultimately show ?thesis by (simp add: tok_inv_def)
qed

lemma tok_run_from:
  assumes cr: "csv_cr \<notin> set s"
  shows "j \<le> length s \<Longrightarrow> (tk_error t = None \<Longrightarrow> tok_inv s j t b) \<Longrightarrow>
    \<exists>i. while_option (tok_cond s) (tok_step s) (j, t) = Some (i, tok_ref t b (drop j s))"
proof (induction "length s - j" arbitrary: j t b)
  case 0
  then have "j = length s" by simp
  then show ?case by (subst while_option_unfold) simp
next
  case (Suc k)
  then have j: "j < length s" by simp
  show ?case
  proof (cases "tk_error t = None")
    case False
    then show ?thesis by (subst while_option_unfold) (auto simp: tok_ref_error)
  next
    case True
    let ?c = "s ! j"
    have inv: "tok_inv s j t b" using Suc.prems(2) True .
    have d: "drop j s = ?c # drop (Suc j) s" using Cons_nth_drop_Suc[OF j] by simp
    have c: "?c \<noteq> csv_cr" using cr nth_mem[OF j] by auto
    have e: "tk_state t \<noteq> EatCrnl" "tk_state t \<noteq> EatCrnlNop" using inv by (auto simp: tok_inv_def)
    have un: "while_option (tok_cond s) (tok_step s) (j, t) = while_option (tok_cond s) (tok_step s) (tok_step s (j, t))"
      using j True by (subst while_option_unfold) simp
    show ?thesis
    proof (cases "tk_state t = WhitespaceLine \<and> ?c \<noteq> csv_nl \<and> \<not> is_blank ?c")
      case True
      let ?p = "line_start s j"
      have b: "b = drop ?p (take j s)" "\<forall>c\<in>set b. is_blank c" using inv True by (auto simp: tok_inv_def)
      have lb: "?p + length b = j" using b(1) line_start_le[of s j] j by simp
      have tb: "take (length b) (drop ?p s) = b" using b(1) lb j line_start_le[of s j] by (simp add: take_drop)
      let ?t0 = "t\<lparr>tk_state := StartField\<rparr>"
      let ?t1 = "foldl char_step ?t0 b"
      have st: "tok_step s (j, t) = (?p, ?t0)" using True c by (simp add: tok_step_def)
      have t1: "(tk_state ?t1 = StartField \<or> tk_state ?t1 = InField) \<and> tk_error ?t1 = None"
        using foldl_char_step_blanks[OF b(2), of ?t0] \<open>tk_error t = None\<close> by simp
      have "while_option (tok_cond s) (tok_step s) (j, t) = while_option (tok_cond s) (tok_step s) (j, ?t1)"
        using un st tok_replay[of ?p b s ?t0] lb tb b(2) \<open>tk_error t = None\<close> j by simp
      also have "\<dots> = while_option (tok_cond s) (tok_step s) (Suc j, char_step ?t1 ?c)"
        using t1 j by (subst while_option_unfold) (auto simp: tok_step_def)
      finally have w: "while_option (tok_cond s) (tok_step s) (j, t) = while_option (tok_cond s) (tok_step s) (Suc j, char_step ?t1 ?c)" .
      have r: "tok_ref t b (drop j s) = tok_ref (char_step ?t1 ?c) [] (drop (Suc j) s)"
        using d True c \<open>tk_error t = None\<close> by simp
      have e1: "tk_state ?t1 \<noteq> EatCrnl" "tk_state ?t1 \<noteq> EatCrnlNop" using t1 by auto
      have "tok_inv s (Suc j) (char_step ?t1 ?c) []" if "tk_error (char_step ?t1 ?c) = None"
      proof -
        have "tk_state (char_step ?t1 ?c) \<noteq> StartRecord" using char_step_StartRecord[OF e1 that] True by blast
        moreover have "tk_state (char_step ?t1 ?c) \<noteq> EatCrnl \<and> tk_state (char_step ?t1 ?c) \<noteq> EatCrnlNop"
          using char_step_Eat[OF e1 that] c by blast
        moreover have "tk_state (char_step ?t1 ?c) \<noteq> WhitespaceLine"
          using char_step_WS[of ?t1 ?c] that t1 by auto
        ultimately show ?thesis by (simp add: tok_inv_def)
      qed
      then show ?thesis using Suc.hyps(1)[of "Suc j" "char_step ?t1 ?c" "[]"] Suc.hyps(2) j w r by simp
    next
      case False
      have st: "tok_step s (j, t) = (Suc j, char_step t ?c)" using tok_step_plain[OF e] False c by blast
      have r: "tok_ref t b (drop j s) = tok_ref (char_step t ?c) (ref_buf t b ?c) (drop (Suc j) s)"
        using tok_ref_step[OF \<open>tk_error t = None\<close> e] False c d by simp
      have "tok_inv s (Suc j) (char_step t ?c) (ref_buf t b ?c)" if "tk_error (char_step t ?c) = None"
        using tok_inv_step[OF inv j c that] False by blast
      then show ?thesis using Suc.hyps(1)[of "Suc j" "char_step t ?c" "ref_buf t b ?c"] Suc.hyps(2) j un st r by simp
    qed
  qed
qed

lemma csv_records_ref:
  "csv_cr \<notin> set s \<Longrightarrow> csv_records s = Some (let t' = tok_eof (tok_ref tok_init [] s) in
     case tk_error t' of Some e \<Rightarrow> Inl e | None \<Rightarrow> Inr (tk_rows t'))"
  using tok_run_from[of s 0 tok_init "[]"]
  by (auto simp: csv_records_def tok_run_def tok_inv_def tok_init_def line_start_def)

text \<open>The tokenizer loop of \<open>pd.read_csv\<close> returns on every text without carriage
  returns, although it moves back when a line of blanks turns out to hold a record; and
  what it returns is the one-pass reading \<open>tok_ref\<close>.\<close>

theorem tok_run_terminates:
  "csv_cr \<notin> set s \<Longrightarrow> \<exists>i. tok_run s = Some (i, tok_ref tok_init [] s)"
  using tok_run_from[of s 0 tok_init "[]"] by (simp add: tok_run_def tok_inv_def tok_init_def line_start_def)

section \<open>Writing and reading back\<close>

lemma tok_ref_plain:
  "plain_path t xs \<Longrightarrow> tok_ref t b (xs @ rest) = tok_ref (foldl char_step t xs) b rest"
proof (induction xs arbitrary: t)
  case (Cons x xs)
  then have "tok_ref t b ((x # xs) @ rest) = tok_ref (char_step t x) b (xs @ rest)"
    by (auto simp: plain_state_def)
  then show ?case using Cons by simp
qed simp

lemma plain_path_append:
  "plain_path t (xs @ ys) \<longleftrightarrow> plain_path t xs \<and> plain_path (foldl char_step t xs) ys"
  by (induction xs arbitrary: t) auto

lemma escape_run:
  "tk_state t = InQuotedField \<Longrightarrow> tk_error t = None \<Longrightarrow>
   plain_path t (escape_quotes f @ [csv_quote])
   \<and> foldl char_step t (escape_quotes f @ [csv_quote]) = t\<lparr>tk_field := tk_field t @ f, tk_state := QuoteInQuotedField\<rparr>"
proof (induction f arbitrary: t)
  case Nil
  then show ?case by (simp add: escape_quotes_def char_step_def plain_state_def)
next
  case (Cons x f)
  show ?case
  proof (cases "x = csv_quote")
    case True
    let ?t = "(push_char (t\<lparr>tk_state := QuoteInQuotedField\<rparr>) x)\<lparr>tk_state := InQuotedField\<rparr>"
    have "tk_state ?t = InQuotedField" "tk_error ?t = None" using Cons.prems by (auto simp: push_char_def)
    from Cons.IH[OF this] show ?thesis using Cons.prems True
      by (simp add: escape_quotes_def char_step_def plain_state_def push_char_def)
  next
    case False
    let ?t = "push_char t x"
    have "tk_state ?t = InQuotedField" "tk_error ?t = None" using Cons.prems by (auto simp: push_char_def)
    from Cons.IH[OF this] show ?thesis using Cons.prems False
      by (simp add: escape_quotes_def char_step_def plain_state_def push_char_def)
  qed
qed

lemma unquoted_run:
  "tk_state t = InField \<Longrightarrow> tk_error t = None \<Longrightarrow> \<not> needs_quotes f \<Longrightarrow>
   plain_path t f \<and> foldl char_step t f = t\<lparr>tk_field := tk_field t @ f\<rparr>"
proof (induction f arbitrary: t)
  case (Cons x f)
  have x: "x \<noteq> csv_nl" "x \<noteq> csv_cr" "x \<noteq> csv_comma" "\<not> needs_quotes f"
    using Cons.prems(3) by (auto simp: needs_quotes_def)
  let ?t = "push_char t x"
  have "tk_state ?t = InField" "tk_error ?t = None" using Cons.prems by (auto simp: push_char_def)
  from Cons.IH[OF this x(4)] show ?case using Cons.prems x
    by (simp add: char_step_def plain_state_def push_char_def)
qed simp

lemma field_text_run:
  assumes "tk_state t = StartField" "tk_field t = []" "tk_error t = None"
  shows "\<exists>st. plain_path t (field_text f) \<and> foldl char_step t (field_text f) = t\<lparr>tk_field := f, tk_state := st\<rparr>
           \<and> (st = StartField \<or> st = InField \<or> st = QuoteInQuotedField)"
proof (cases "needs_quotes f")
  case True
  let ?t = "t\<lparr>tk_state := InQuotedField\<rparr>"
  have "plain_path ?t (escape_quotes f @ [csv_quote])
     \<and> foldl char_step ?t (escape_quotes f @ [csv_quote]) = ?t\<lparr>tk_field := tk_field ?t @ f, tk_state := QuoteInQuotedField\<rparr>"
    by (rule escape_run) (use assms in simp_all)
  moreover have "char_step t csv_quote = ?t" using assms by (simp add: char_step_def field_start_def)
  ultimately show ?thesis using assms True
    by (intro exI[of _ QuoteInQuotedField]) (simp add: field_text_def plain_state_def del: foldl_append)
next
  case False
  show ?thesis
  proof (cases f)
    case Nil
    then show ?thesis using assms False by (intro exI[of _ StartField]) (simp add: field_text_def)
  next
    case (Cons x f')
    have x: "x \<noteq> csv_nl" "x \<noteq> csv_cr" "x \<noteq> csv_comma" "x \<noteq> csv_quote" "\<not> needs_quotes f'"
      using False Cons by (auto simp: needs_quotes_def)
    let ?t = "(push_char t x)\<lparr>tk_state := InField\<rparr>"
    have "plain_path ?t f' \<and> foldl char_step ?t f' = ?t\<lparr>tk_field := tk_field ?t @ f'\<rparr>"
      by (rule unquoted_run) (use assms x in \<open>simp_all add: push_char_def\<close>)
    then show ?thesis using assms False Cons x
      by (intro exI[of _ InField]) (simp add: field_text_def char_step_def field_start_def plain_state_def push_char_def)
  qed
qed

lemma char_step_comma_end:
  "st = StartField \<or> st = InField \<or> st = QuoteInQuotedField \<Longrightarrow>
   char_step (t\<lparr>tk_state := st\<rparr>) csv_comma = (end_field t)\<lparr>tk_state := StartField\<rparr>"
  by (auto simp: char_step_def field_start_def end_field_def)

lemma char_step_nl_end:
  "st = StartField \<or> st = InField \<or> st = QuoteInQuotedField \<Longrightarrow>
   char_step (t\<lparr>tk_state := st\<rparr>) csv_nl = end_line (end_field (t\<lparr>tk_state := st\<rparr>))"
  by (auto simp: char_step_def field_start_def)

lemma fields_run:
  "fs \<noteq> [] \<Longrightarrow> tk_state t = StartField \<Longrightarrow> tk_field t = [] \<Longrightarrow> tk_error t = None \<Longrightarrow>
   \<exists>st. plain_path t (fields_text fs)
     \<and> foldl char_step t (fields_text fs) = t\<lparr>tk_fields := tk_fields t @ butlast fs, tk_field := last fs, tk_state := st\<rparr>
     \<and> (st = StartField \<or> st = InField \<or> st = QuoteInQuotedField)"
proof (induction fs arbitrary: t rule: fields_text.induct)
  case (2 f)
  then show ?case using field_text_run[of t f] by simp
next
  case (3 f g fs)
  obtain st where st: "plain_path t (field_text f)" "foldl char_step t (field_text f) = t\<lparr>tk_field := f, tk_state := st\<rparr>"
    "st = StartField \<or> st = InField \<or> st = QuoteInQuotedField"
    using field_text_run[OF "3.prems"(2-4)] by blast
  let ?t = "(end_field (t\<lparr>tk_field := f\<rparr>))\<lparr>tk_state := StartField\<rparr>"
  have c: "char_step (t\<lparr>tk_field := f, tk_state := st\<rparr>) csv_comma = ?t"
    using char_step_comma_end[OF st(3), of "t\<lparr>tk_field := f\<rparr>"] by simp
  have "tk_state ?t = StartField" "tk_field ?t = []" "tk_error ?t = None"
    using "3.prems" by (auto simp: end_field_def)
  from "3.IH"[OF _ this] obtain st' where
    ih: "plain_path ?t (fields_text (g # fs))"
      "foldl char_step ?t (fields_text (g # fs)) = ?t\<lparr>tk_fields := tk_fields ?t @ butlast (g # fs), tk_field := last (g # fs), tk_state := st'\<rparr>"
      "st' = StartField \<or> st' = InField \<or> st' = QuoteInQuotedField" by blast
  have pp: "plain_state st" using st(3) by (auto simp: plain_state_def)
  have eq: "foldl char_step t (fields_text (f # g # fs)) = foldl char_step ?t (fields_text (g # fs))"
    using st(2) c by simp
  have pa: "plain_path t (fields_text (f # g # fs))"
    using st(1,2) ih(1) c pp "3.prems"(4) by (simp add: plain_path_append)
  have "?t\<lparr>tk_fields := tk_fields ?t @ butlast (g # fs), tk_field := last (g # fs), tk_state := st'\<rparr>
      = t\<lparr>tk_fields := tk_fields t @ butlast (f # g # fs), tk_field := last (f # g # fs), tk_state := st'\<rparr>"
    by (simp add: end_field_def)
  then show ?case using eq pa ih(2,3) by (intro exI[of _ st']) simp
qed simp

lemma row_text_line: "row_text fs = line_text fs @ [csv_nl]"
  by (simp add: row_text_def line_text_def)

lemma fields_text_Cons:
  "fields_text (f # gs) = field_text f @ (if gs = [] then [] else csv_comma # fields_text gs)"
  by (cases gs) auto

lemma line_run:
  assumes "fs \<noteq> []" "tk_state t = StartField" "tk_field t = []" "tk_error t = None"
  shows "\<exists>st. plain_path t (line_text fs)
     \<and> foldl char_step t (line_text fs) = t\<lparr>tk_fields := tk_fields t @ butlast fs, tk_field := last fs, tk_state := st\<rparr>
     \<and> (st = StartField \<or> st = InField \<or> st = QuoteInQuotedField)"
proof (cases "fs = ['''']")
  case True
  then show ?thesis using assms
    by (intro exI[of _ QuoteInQuotedField])
       (simp add: line_text_def char_step_def field_start_def plain_state_def)
next
  case False
  then show ?thesis using fields_run[OF assms] by (simp add: line_text_def)
qed

lemma first_nonblank:
  assumes "fs \<noteq> []" "\<not> blank_row fs"
  shows "\<exists>bl c ys. line_text fs = bl @ c # ys \<and> (\<forall>x\<in>set bl. is_blank x) \<and> \<not> is_blank c
           \<and> c \<noteq> csv_nl \<and> c \<noteq> csv_cr"
proof (cases "fs = ['''']")
  case True
  then show ?thesis by (intro exI[of _ "[]"]) (simp add: line_text_def is_blank_def)
next
  case False
  obtain f gs where fs: "fs = f # gs" using assms(1) by (cases fs) auto
  have lt: "line_text fs = field_text f @ (if gs = [] then [] else csv_comma # fields_text gs)"
    using False fs by (auto simp: line_text_def fields_text_Cons)
  show ?thesis
  proof (cases "needs_quotes f")
    case True
    then show ?thesis using lt by (intro exI[of _ "[]"]) (simp add: field_text_def is_blank_def)
  next
    case nq: False
    let ?bl = "takeWhile is_blank f" and ?r = "dropWhile is_blank f"
    have bl: "\<forall>x\<in>set ?bl. is_blank x" by (auto dest: set_takeWhileD)
    show ?thesis
    proof (cases ?r)
      case (Cons c r')
      have f: "f = ?bl @ c # r'" using Cons takeWhile_dropWhile_id[of is_blank f] by simp
      have "\<not> is_blank c" using Cons hd_dropWhile[of is_blank f] by simp
      moreover have "c \<in> set f" using Cons set_dropWhileD[of c is_blank f] by simp
      then have "c \<noteq> csv_nl \<and> c \<noteq> csv_cr" using nq by (auto simp: needs_quotes_def)
      moreover have "line_text fs = ?bl @ c # (r' @ (if gs = [] then [] else csv_comma # fields_text gs))"
        using lt nq arg_cong[OF f, of "\<lambda>x. x @ (if gs = [] then [] else csv_comma # fields_text gs)"]
        by (simp add: field_text_def)
      ultimately show ?thesis using bl by blast
    next
      case Nil
      then have fb: "\<forall>x\<in>set f. is_blank x" using bl takeWhile_dropWhile_id[of is_blank f] by (metis append_Nil2)
      have "gs \<noteq> []"
      proof
        assume "gs = []"
        then show False using fb fs False assms(2) by (auto simp: blank_row_def)
      qed
      then show ?thesis using lt nq fb
        by (intro exI[of _ f] exI[of _ csv_comma] exI[of _ "fields_text gs"]) (simp add: field_text_def is_blank_def)
    qed
  qed
qed

lemma tok_ref_buf:
  "tk_state t \<noteq> WhitespaceLine \<Longrightarrow> tok_ref t b xs = tok_ref t [] xs"
proof (induction xs arbitrary: t b)
  case (Cons c cs)
  have ih: "tk_state (char_step t c) \<noteq> WhitespaceLine \<Longrightarrow> tok_ref (char_step t c) b cs = tok_ref (char_step t c) [] cs"
    by (rule Cons.IH)
  have nws: "tk_state t \<noteq> StartRecord \<Longrightarrow> tk_state (char_step t c) \<noteq> WhitespaceLine"
    using Cons.prems
    by (cases "tk_state t") (auto simp: char_step_def field_start_def push_char_def end_field_def end_line_def Let_def)
  show ?case
  proof (cases "tk_error t = None")
    case True
    then show ?thesis using ih nws Cons.prems by (cases "tk_state t") (auto simp: Let_def)
  qed simp
qed simp

lemma ws_run:
  "tk_state t = WhitespaceLine \<Longrightarrow> tk_error t = None \<Longrightarrow> \<forall>x\<in>set bl. is_blank x \<Longrightarrow>
   \<not> is_blank c \<Longrightarrow> c \<noteq> csv_nl \<Longrightarrow> c \<noteq> csv_cr \<Longrightarrow>
   tok_ref t b (bl @ c # ys) = tok_ref (foldl char_step (t\<lparr>tk_state := StartField\<rparr>) (b @ bl @ [c])) [] ys"
proof (induction bl arbitrary: b)
  case (Cons x bl)
  have "char_step t x = t" using Cons.prems by (simp add: char_step_def)
  then show ?case using Cons by simp
qed simp

lemma sr_run:
  assumes "tk_state t = StartRecord" "tk_error t = None" "\<forall>x\<in>set bl. is_blank x"
    "\<not> is_blank c" "c \<noteq> csv_nl" "c \<noteq> csv_cr"
  shows "tok_ref t b (bl @ c # ys) = tok_ref (foldl char_step (t\<lparr>tk_state := StartField\<rparr>) (bl @ [c])) [] ys"
proof (cases bl)
  case Nil
  have cs: "char_step t c = char_step (t\<lparr>tk_state := StartField\<rparr>) c"
    using assms by (simp add: char_step_def field_start_def push_char_def end_field_def)
  have "tk_state (char_step t c) \<noteq> WhitespaceLine"
    using assms cs by (auto simp: char_step_def field_start_def push_char_def end_field_def)
  then show ?thesis using Nil assms cs tok_ref_buf[of "char_step t c" "[c]" ys] by simp
next
  case (Cons x bl')
  have "char_step t x = t\<lparr>tk_state := WhitespaceLine\<rparr>" using assms Cons by (simp add: char_step_def)
  then show ?thesis using Cons assms ws_run[of "t\<lparr>tk_state := WhitespaceLine\<rparr>" bl' c "[x]" ys] by simp
qed

lemma end_line_append:
  "tk_rows t = [] \<or> length (last (tk_rows t)) = length (tk_fields t) \<Longrightarrow>
   end_line t = t\<lparr>tk_rows := tk_rows t @ [tk_fields t], tk_fields := [], tk_state := StartRecord\<rparr>"
  by (auto simp: end_line_def Let_def)

lemma row_run:
  assumes t: "tk_state t = StartRecord" "tk_field t = []" "tk_fields t = []" "tk_error t = None"
    and fs: "fs \<noteq> []" "\<not> blank_row fs" "tk_rows t = [] \<or> length (last (tk_rows t)) = length fs"
  shows "tok_ref t b (row_text fs @ rest) = tok_ref (t\<lparr>tk_rows := tk_rows t @ [fs]\<rparr>) [] rest"
proof -
  obtain bl c ys where L: "line_text fs = bl @ c # ys" and bl: "\<forall>x\<in>set bl. is_blank x" "\<not> is_blank c"
    "c \<noteq> csv_nl" "c \<noteq> csv_cr" using first_nonblank[OF fs(1,2)] by blast
  let ?t0 = "t\<lparr>tk_state := StartField\<rparr>"
  obtain st where lr: "plain_path ?t0 (line_text fs)"
    "foldl char_step ?t0 (line_text fs) = ?t0\<lparr>tk_fields := butlast fs, tk_field := last fs, tk_state := st\<rparr>"
    "st = StartField \<or> st = InField \<or> st = QuoteInQuotedField"
    using line_run[OF fs(1), of ?t0] t by auto
  let ?T = "?t0\<lparr>tk_fields := butlast fs, tk_field := last fs, tk_state := st\<rparr>"
  have "tok_ref t b (row_text fs @ rest) = tok_ref t b (bl @ c # (ys @ csv_nl # rest))"
    by (simp add: row_text_line L)
  also have "\<dots> = tok_ref (foldl char_step ?t0 (bl @ [c])) [] (ys @ csv_nl # rest)"
    by (rule sr_run) (use t bl in simp_all)
  also have "\<dots> = tok_ref ?T [] (csv_nl # rest)"
  proof -
    have "plain_path (foldl char_step ?t0 (bl @ [c])) ys" using lr(1) L by (simp add: plain_path_append)
    from tok_ref_plain[OF this] show ?thesis using lr(2) L by simp
  qed
  also have "\<dots> = tok_ref (char_step ?T csv_nl) [] rest"
    using lr(3) t(4) by (auto simp: plain_state_def)
  also have "char_step ?T csv_nl = t\<lparr>tk_rows := tk_rows t @ [fs]\<rparr>"
  proof -
    have "char_step ?T csv_nl = end_line (end_field ?T)" using char_step_nl_end[OF lr(3)] by simp
    moreover have "end_field ?T = t\<lparr>tk_fields := fs, tk_field := [], tk_state := st\<rparr>"
      using fs(1) by (simp add: end_field_def)
    ultimately show ?thesis using fs(3) t end_line_append[of "t\<lparr>tk_fields := fs, tk_field := [], tk_state := st\<rparr>"]
      by simp
  qed
  finally show ?thesis .
qed

lemma to_csv_ref:
  assumes "\<forall>r\<in>set rs. length r = w \<and> \<not> blank_row r" "0 < w" "acc \<noteq> [] \<longrightarrow> length (last acc) = w"
  shows "tok_ref (tok_init\<lparr>tk_rows := acc\<rparr>) b (to_csv rs @ rest) = tok_ref (tok_init\<lparr>tk_rows := acc @ rs\<rparr>) [] rest"
  using assms
proof (induction rs arbitrary: acc b)
  case Nil
  then show ?case using tok_ref_buf[of "tok_init\<lparr>tk_rows := acc\<rparr>" b rest] by (simp add: to_csv_def tok_init_def)
next
  case (Cons r rs)
  have r: "r \<noteq> []" "\<not> blank_row r" "length r = w" using Cons.prems(1,2) by auto
  have "tok_ref (tok_init\<lparr>tk_rows := acc\<rparr>) b (row_text r @ (to_csv rs @ rest))
      = tok_ref (tok_init\<lparr>tk_rows := acc @ [r]\<rparr>) [] (to_csv rs @ rest)"
    using row_run[of "tok_init\<lparr>tk_rows := acc\<rparr>" r b] r Cons.prems(3) by (auto simp: tok_init_def)
  also have "\<dots> = tok_ref (tok_init\<lparr>tk_rows := acc @ r # rs\<rparr>) [] rest"
    using Cons.IH[of "acc @ [r]" "[]"] Cons.prems r by simp
  finally show ?case by (simp add: to_csv_def)
qed

lemma cr_not_in_to_csv:
  assumes "\<forall>r\<in>set rs. \<forall>f\<in>set r. csv_cr \<notin> set f"
  shows "csv_cr \<notin> set (to_csv rs)"
proof -
  have fld: "csv_cr \<notin> set (field_text f)" if "csv_cr \<notin> set f" for f
    using that by (auto simp: field_text_def escape_quotes_def split: if_splits)
  have "csv_cr \<notin> set (fields_text r)" if "\<forall>f\<in>set r. csv_cr \<notin> set f" for r
    using that by (induction r rule: fields_text.induct) (auto dest: fld)
  then show ?thesis using assms by (auto simp: to_csv_def row_text_def)
qed

text \<open>C37: a table written with Python's minimal quoting is read back unchanged, when all
  its records have the same number of fields, no field holds a carriage return, and no
  record is a single field of blanks (such a line is skipped as blank).\<close>

theorem csv_roundtrip:
  assumes "\<forall>r\<in>set rs. length r = w \<and> \<not> blank_row r \<and> (\<forall>f\<in>set r. csv_cr \<notin> set f)" "0 < w"
  shows "csv_records (to_csv rs) = Some (Inr rs)"
proof -
  have "tok_ref tok_init [] (to_csv rs) = tok_init\<lparr>tk_rows := rs\<rparr>"
    using to_csv_ref[of rs w "[]" "[]" "[]"] assms by (simp add: tok_init_def)
  then show ?thesis using csv_records_ref[OF cr_not_in_to_csv] assms(1) by (simp add: tok_eof_def tok_init_def)
qed

section \<open>The shape of the records\<close>

lemma rows_inv_last: "rows_inv (h # r # rest) \<Longrightarrow> length (last (h # r # rest)) = length r"
  by (cases rest rule: rev_cases) (auto simp: rows_inv_def)

lemma end_line_rows_inv: "rows_inv (tk_rows t) \<Longrightarrow> rows_inv (tk_rows (end_line t))"
proof (cases "tk_rows t")
  case (Cons h rs)
  assume inv: "rows_inv (tk_rows t)"
  show ?thesis
  proof (cases rs)
    case Nil
    then show ?thesis using Cons by (auto simp: end_line_def Let_def rows_inv_def)
  next
    case (Cons r rest)
    then show ?thesis using \<open>tk_rows t = h # rs\<close> inv rows_inv_last[of h r rest]
      by (auto simp: end_line_def Let_def rows_inv_def)
  qed
qed (simp add: end_line_def rows_inv_def)

lemma char_step_rows_inv: "rows_inv (tk_rows t) \<Longrightarrow> rows_inv (tk_rows (char_step t c))"
  by (cases "tk_state t")
     (auto simp: char_step_def field_start_def push_char_def end_field_def end_line_rows_inv)

lemma tok_step_rows_inv: "rows_inv (tk_rows t) \<Longrightarrow> rows_inv (tk_rows (snd (tok_step s (i, t))))"
  by (cases "tk_state t") (auto simp: tok_step_def Let_def char_step_rows_inv end_line_rows_inv)

lemma tok_eof_rows_inv: "rows_inv (tk_rows t) \<Longrightarrow> rows_inv (tk_rows (tok_eof t))"
  by (cases "tk_state t") (auto simp: tok_eof_def end_field_def end_line_rows_inv)

text \<open>C38: the records after the header all have the same number of fields, at least as
  many as the header: \<open>end_line\<close> pads short records and stops at long ones, and
  nothing else of the loop changes the records.\<close>

theorem csv_records_rectangular:
  "csv_records s = Some (Inr (hdr # r # rows)) \<Longrightarrow> length hdr \<le> length r \<and> (\<forall>x\<in>set rows. length x = length r)"
proof -
  assume a: "csv_records s = Some (Inr (hdr # r # rows))"
  then obtain i t where run: "tok_run s = Some (i, t)" and t: "tk_rows (tok_eof t) = hdr # r # rows"
    by (auto simp: csv_records_def Let_def split: option.splits)
  have "(\<lambda>(i, t). rows_inv (tk_rows t)) (i, t)"
  proof (rule while_option_rule[OF _ run[unfolded tok_run_def]])
    fix st :: "nat \<times> tokenizer"
    assume "(\<lambda>(i, t). rows_inv (tk_rows t)) st"
    then show "(\<lambda>(i, t). rows_inv (tk_rows t)) (tok_step s st)"
      using tok_step_rows_inv[of "snd st" s "fst st"] by (simp add: case_prod_beta)
  qed (simp add: tok_init_def rows_inv_def)
  then have "rows_inv (tk_rows t)" by simp
  then show ?thesis using tok_eof_rows_inv[of t] t by (simp add: rows_inv_def)
qed

section \<open>Witnesses\<close>

theorem tok_run_terminates_witness:
  "\<exists>i t. tok_run ''t\<newline>  \<newline>  x\<newline>'' = Some (i, t) \<and> tk_rows t = [[''t''], [''  x'']]"
proof -
  obtain i where "tok_run ''t\<newline>  \<newline>  x\<newline>'' = Some (i, tok_ref tok_init [] ''t\<newline>  \<newline>  x\<newline>'')"
    using tok_run_terminates[of "''t\<newline>  \<newline>  x\<newline>''"] by auto
  moreover have "tk_rows (tok_ref tok_init [] ''t\<newline>  \<newline>  x\<newline>'') = [[''t''], [''  x'']]"
    by (simp add: csv_eval)
  ultimately show ?thesis by blast
qed

theorem csv_roundtrip_witness:
  "csv_records (to_csv [[''title'', ''genres''], [''Dick Johnson Is Dead'', ''Documentaries''],
     [csv_quote # ''Hi'', ''Dramas, Comedies''], [''Blanks'', '''']])
   = Some (Inr [[''title'', ''genres''], [''Dick Johnson Is Dead'', ''Documentaries''],
     [csv_quote # ''Hi'', ''Dramas, Comedies''], [''Blanks'', '''']])"
  by (rule csv_roundtrip[of _ 2]) (simp_all add: blank_row_def)

theorem csv_records_rectangular_witness:
  "csv_records ''a,b,c\<newline>1,2\<newline>3,4,5\<newline>'' = Some (Inr [[''a'', ''b'', ''c''], [''1'', ''2'', ''''], [''3'', ''4'', ''5'']])
   \<and> length [''a'', ''b'', ''c''] \<le> length [''1'', ''2'', '''']
   \<and> length [''3'', ''4'', ''5''] = length [''1'', ''2'', '''']"
proof -
  have r: "csv_records ''a,b,c\<newline>1,2\<newline>3,4,5\<newline>'' = Some (Inr [[''a'', ''b'', ''c''], [''1'', ''2'', ''''], [''3'', ''4'', ''5'']])"
    by (simp add: csv_records_ref csv_eval)
  show ?thesis using r csv_records_rectangular[OF r] by simp
qed

end
