(* ===== verification/Csv_Frame.thy ===== *)
theory Csv_Frame
  imports Csv_Tokenizer
begin

text \<open>
  From the records of \<open>pd.read_csv\<close> to the table \<open>df\<close> of
  \<open>src/app/visualization.py\<close>, and the column accesses of the module that can fail.
  The first record names the columns; when the first data record is longer than the
  header, its extra leading fields are the index (pandas' \<open>leading_cols\<close>) and are
  dropped. A cell equal to one of pandas' default NA spellings (\<open>na_values\<close>, the
  empty cell among them) is NaN, \<open>None\<close>. A column is numeric when every other cell
  reads as a C float (\<open>parse_float\<close>: blanks around, a sign, digits with an optional
  fraction, an optional exponent); numbers are exact (floating-point rounding is not
  modelled).

  \<open>frame_raw_rows\<close> makes the \<open>raw_row\<close>s the rest of the development starts from,
  checking the columns in the order in which the module first uses them, each failure as
  the exception of that line: \<open>release_date\<close> and its dates (lines 13), \<open>imdb_score\<close>
  compared with 7.5 (line 38, a \<open>TypeError\<close> on text), \<open>close\<close> and \<open>title\<close>
  aggregated (line 124, a \<open>KeyError\<close> when absent, a \<open>TypeError\<close> when \<open>close\<close>
  is text), \<open>volatility\<close> resampled (line 261), \<open>imdb_votes\<close> compared (line 331),
  \<open>genres\<close> (line 482), \<open>country\<close> (line 585), and \<open>type\<close>, first read when
  \<open>app.py\<close> calls \<open>plot_movie_vs_tv_production\<close>. Lemma: a load succeeds only
  when all nine columns are in the header.
\<close>

section \<open>The frame\<close>

definition na_values :: "string list" where
  "na_values = [''-1.#IND'', ''1.#QNAN'', ''1.#IND'', ''-1.#QNAN'', ''#N/A N/A'', ''#N/A'', ''N/A'', ''n/a'',
     ''NA'', ''<NA>'', ''#NA'', ''NULL'', ''null'', ''NaN'', ''-NaN'', ''nan'', ''-nan'', ''None'', []]"

definition na_cell :: "string \<Rightarrow> string option" where
  "na_cell f = (if f \<in> set na_values then None else Some f)"

definition is_space :: "char \<Rightarrow> bool" where
  "is_space c \<longleftrightarrow> c = CHR '' '' \<or> c = CHR 0x09 \<or> c = CHR 0x0A \<or> c = CHR 0x0B \<or> c = CHR 0x0C \<or> c = CHR 0x0D"

definition strip_space :: "string \<Rightarrow> string" where
  "strip_space s = rev (dropWhile is_space (rev (dropWhile is_space s)))"

definition split_sign :: "string \<Rightarrow> int \<times> string" where
  "split_sign s = (case s of c # r \<Rightarrow> if c = CHR ''-'' then (-1, r) else if c = CHR ''+'' then (1, r) else (1, s)
                   | [] \<Rightarrow> (1, []))"

definition parse_exponent :: "string \<Rightarrow> int option" where
  "parse_exponent s = (case s of [] \<Rightarrow> Some 0
     | c # r \<Rightarrow> if c = CHR ''e'' \<or> c = CHR ''E'' then
         (case split_sign r of (sg, ds) \<Rightarrow> if ds = [] then None else map_option (\<lambda>n. sg * int n) (digits_acc 0 ds))
       else None)"

definition scale10 :: "int \<Rightarrow> real" where
  "scale10 e = (if 0 \<le> e then 10 ^ nat e else 1 / 10 ^ nat (- e))"

definition parse_float :: "string \<Rightarrow> real option" where
  "parse_float s = (case split_sign (strip_space s) of (sg, u) \<Rightarrow>
     let ip = takeWhile is_digit u; r1 = dropWhile is_digit u;
         fp = (if r1 \<noteq> [] \<and> hd r1 = CHR ''.'' then takeWhile is_digit (tl r1) else []);
         r2 = (if r1 \<noteq> [] \<and> hd r1 = CHR ''.'' then dropWhile is_digit (tl r1) else r1)
     in if ip = [] \<and> fp = [] then None
        else (case (digits_acc 0 (ip @ fp), parse_exponent r2) of
                (Some m, Some e) \<Rightarrow> Some (of_int sg * real m * scale10 (e - int (length fp)))
              | _ \<Rightarrow> None))"

type_synonym csv_frame = "string list \<times> string option list list"

definition csv_frame :: "string list list \<Rightarrow> load_error + csv_frame" where
  "csv_frame recs = (case recs of [] \<Rightarrow> Inl EmptyData
     | hdr # rows \<Rightarrow> (let lead = (case rows of [] \<Rightarrow> 0 | r # _ \<Rightarrow> length r - length hdr)
                      in Inr (hdr, map (\<lambda>r. map na_cell (drop lead r)) rows)))"

definition column :: "csv_frame \<Rightarrow> string \<Rightarrow> string option list option" where
  "column fr n = (case fr of (hdr, rows) \<Rightarrow>
     let k = length (takeWhile (\<lambda>h. h \<noteq> n) hdr) in if k < length hdr then Some (map (\<lambda>r. r ! k) rows) else None)"

definition text_column :: "csv_frame \<Rightarrow> string \<Rightarrow> load_error + string option list" where
  "text_column fr n = (case column fr n of None \<Rightarrow> Inl (MissingColumn n) | Some cs \<Rightarrow> Inr cs)"

definition numeric_cells :: "string option list \<Rightarrow> fval list option" where
  "numeric_cells cs = (if \<forall>c\<in>set cs. case c of None \<Rightarrow> True | Some s \<Rightarrow> parse_float s \<noteq> None
     then Some (map (\<lambda>c. case c of None \<Rightarrow> None | Some s \<Rightarrow> parse_float s) cs) else None)"

definition numeric_column :: "csv_frame \<Rightarrow> string \<Rightarrow> load_error + fval list" where
  "numeric_column fr n = (case column fr n of None \<Rightarrow> Inl (MissingColumn n)
     | Some cs \<Rightarrow> (case numeric_cells cs of None \<Rightarrow> Inl (NonNumericColumn n) | Some vs \<Rightarrow> Inr vs))"

definition first_date_error :: "string option list \<Rightarrow> string option" where
  "first_date_error ds = (case [s. Inl s \<leftarrow> map to_datetime ds] of [] \<Rightarrow> None | s # _ \<Rightarrow> Some s)"

definition build_raw_rows :: "string option list \<Rightarrow> string option list \<Rightarrow> string option list \<Rightarrow> string option list
    \<Rightarrow> string option list \<Rightarrow> fval list \<Rightarrow> fval list \<Rightarrow> fval list \<Rightarrow> fval list \<Rightarrow> raw_row list" where
  "build_raw_rows ti ty rd ge co sc vt cl vo = map (\<lambda>k. \<lparr>r_title = ti ! k, r_type = ty ! k, r_release_date = rd ! k,
     r_genres = ge ! k, r_country = co ! k, r_imdb_score = sc ! k, r_imdb_votes = vt ! k, r_close = cl ! k,
     r_volatility = vo ! k\<rparr>) [0..<length rd]"

text \<open>The columns that the import reads, in the order of their first access; the
  \<open>type\<close> column is not among them: it is first read by chart 3 (line 78), when the
  page is built. Without it the table simply has no \<open>type\<close> column.\<close>

definition frame_raw_rows :: "csv_frame \<Rightarrow> load_error + raw_row list" where
  "frame_raw_rows fr =
     (case text_column fr ''release_date'' of Inl e \<Rightarrow> Inl e | Inr rd \<Rightarrow>
      (case first_date_error rd of Some s \<Rightarrow> Inl (DateParseError s) | None \<Rightarrow>
      (case numeric_column fr ''imdb_score'' of Inl e \<Rightarrow> Inl e | Inr sc \<Rightarrow>
      (case text_column fr ''close'' of Inl e \<Rightarrow> Inl e | Inr _ \<Rightarrow>
      (case text_column fr ''title'' of Inl e \<Rightarrow> Inl e | Inr ti \<Rightarrow>
      (case numeric_column fr ''close'' of Inl e \<Rightarrow> Inl e | Inr cl \<Rightarrow>
      (case numeric_column fr ''volatility'' of Inl e \<Rightarrow> Inl e | Inr vo \<Rightarrow>
      (case numeric_column fr ''imdb_votes'' of Inl e \<Rightarrow> Inl e | Inr vt \<Rightarrow>
      (case text_column fr ''genres'' of Inl e \<Rightarrow> Inl e | Inr ge \<Rightarrow>
      (case text_column fr ''country'' of Inl e \<Rightarrow> Inl e | Inr co \<Rightarrow>
        (let ty = (case column fr ''type'' of Some ty \<Rightarrow> ty | None \<Rightarrow> map (\<lambda>_. None) rd)
         in Inr (build_raw_rows ti ty rd ge co sc vt cl vo))))))))))))"

text \<open>The columns of the loaded table and its rows.\<close>

definition read_csv_rows :: "string \<Rightarrow> (load_error + string list \<times> raw_row list) option" where
  "read_csv_rows s = map_option (\<lambda>r. case r of Inl e \<Rightarrow> Inl e
     | Inr recs \<Rightarrow> (case csv_frame recs of Inl e \<Rightarrow> Inl e
         | Inr fr \<Rightarrow> (case frame_raw_rows fr of Inl e \<Rightarrow> Inl e | Inr raws \<Rightarrow> Inr (fst fr, raws)))) (csv_records s)"

definition load_columns :: "string list" where
  "load_columns = [''release_date'', ''imdb_score'', ''close'', ''title'', ''volatility'', ''imdb_votes'',
     ''genres'', ''country'']"

definition required_columns :: "string list" where
  "required_columns = load_columns @ [''type'']"

section \<open>The columns a load needs\<close>

lemma column_Some: "column (hdr, rows) n \<noteq> None \<longleftrightarrow> n \<in> set hdr"
proof -
  have "length (takeWhile (\<lambda>h. h \<noteq> n) hdr) < length hdr \<longleftrightarrow> n \<in> set hdr"
    by (induction hdr) auto
  then show ?thesis by (simp add: column_def Let_def)
qed

lemma text_column_Inr: "text_column (hdr, rows) n = Inr cs \<Longrightarrow> n \<in> set hdr"
  using column_Some by (fastforce simp: text_column_def split: option.splits)

lemma numeric_column_Inr: "numeric_column (hdr, rows) n = Inr vs \<Longrightarrow> n \<in> set hdr"
  using column_Some by (fastforce simp: numeric_column_def split: option.splits)

lemma frame_raw_rows_columns:
  "frame_raw_rows (hdr, rows) = Inr raws \<Longrightarrow> set load_columns \<subseteq> set hdr"
  by (auto simp: frame_raw_rows_def load_columns_def Let_def split: sum.splits option.splits
           dest!: text_column_Inr numeric_column_Inr)

lemma read_csv_rows_Inr:
  "read_csv_rows s = Some (Inr (cols, raws)) \<Longrightarrow>
   \<exists>rows rows'. csv_records s = Some (Inr (cols # rows)) \<and> frame_raw_rows (cols, rows') = Inr raws"
proof -
  assume a: "read_csv_rows s = Some (Inr (cols, raws))"
  obtain rr where rr: "csv_records s = Some rr" using a by (cases "csv_records s") (auto simp: read_csv_rows_def)
  then obtain recs where recs: "rr = Inr recs" using a by (cases rr) (auto simp: read_csv_rows_def)
  obtain fr where fr: "csv_frame recs = Inr fr" using a rr recs by (cases "csv_frame recs") (auto simp: read_csv_rows_def)
  have fr2: "frame_raw_rows fr = Inr raws" and c: "fst fr = cols"
    using a rr recs fr by (auto simp: read_csv_rows_def split: sum.splits)
  obtain hdr rows where hr: "recs = hdr # rows" using fr by (cases recs) (auto simp: csv_frame_def)
  then obtain rows' where "fr = (hdr, rows')" using fr by (auto simp: csv_frame_def Let_def)
  then show ?thesis using rr recs hr fr2 c by auto
qed

lemma first_date_error_None:
  "first_date_error ds = None \<Longrightarrow> \<forall>c\<in>set ds. \<exists>d. to_datetime c = Inr d"
proof (induction ds)
  case Nil
  then show ?case by simp
next
  case (Cons c ds)
  then show ?case
    by (cases "to_datetime c") (auto simp: first_date_error_def split: list.splits)
qed

lemma load_rows_dated:
  "\<forall>r\<in>set rs. \<exists>d. to_datetime (r_release_date r) = Inr d \<Longrightarrow> \<exists>df. load_rows rs = Inr df"
  by (induction rs) auto

text \<open>What the reader returns, the import loads: the dates were already checked.\<close>

lemma frame_raw_rows_loads:
  assumes "frame_raw_rows fr = Inr raws"
  shows "\<exists>df. load_rows raws = Inr df"
proof -
  obtain rd ti ty ge co sc vt cl vo where rd: "first_date_error rd = None"
    and raws: "raws = build_raw_rows ti ty rd ge co sc vt cl vo"
    using assms by (auto simp: frame_raw_rows_def Let_def split: sum.splits option.splits)
  have "\<forall>r\<in>set raws. \<exists>d. to_datetime (r_release_date r) = Inr d"
    using first_date_error_None[OF rd] by (auto simp: raws build_raw_rows_def)
  then show ?thesis by (rule load_rows_dated)
qed

text \<open>C39: a file whose header lacks one of the eight columns the import reads does not
  load: reading it ends in an error (the \<open>KeyError\<close> of the first access, or an
  earlier date or type error), as the spec's \<open>DataLoadError\<close> for a missing column
  requires. The ninth column, \<open>type\<close>, is not read at import (see
  \<open>Dashboard.app_without_type_column\<close>).\<close>

theorem read_csv_missing_column:
  assumes "csv_records s = Some (Inr (hdr # rows))" "c \<in> set load_columns" "c \<notin> set hdr"
  shows "\<exists>e. read_csv_rows s = Some (Inl e)"
proof -
  obtain rows' where fr: "csv_frame (hdr # rows) = Inr (hdr, rows')" by (simp add: csv_frame_def Let_def)
  have "\<not> set load_columns \<subseteq> set hdr" using assms(2,3) by blast
  then obtain e where "frame_raw_rows (hdr, rows') = Inl e"
    using frame_raw_rows_columns[of hdr rows'] by (cases "frame_raw_rows (hdr, rows')") auto
  then show ?thesis using assms(1) fr by (simp add: read_csv_rows_def)
qed

lemmas frame_eval_csv = read_csv_rows_def csv_records_ref csv_eval csv_frame_def na_cell_def na_values_def
  frame_raw_rows_def text_column_def numeric_column_def column_def numeric_cells_def parse_float_def
  split_sign_def strip_space_def is_space_def parse_exponent_def scale10_def first_date_error_def
  build_raw_rows_def

lemma na_title_read_as_missing:
  "read_csv_rows ''title,type,release_date,genres,country,imdb_score,imdb_votes,close,volatility\<newline>None,Movie,2019-06-01,Dramas,US,7.5,1000,10.5,0.2\<newline>''
   = Some (Inr ([''title'', ''type'', ''release_date'', ''genres'', ''country'', ''imdb_score'', ''imdb_votes'', ''close'', ''volatility''],
     [\<lparr>r_title = None, r_type = Some ''Movie'', r_release_date = Some ''2019-06-01'',
     r_genres = Some ''Dramas'', r_country = Some ''US'', r_imdb_score = Some (15 / 2),
     r_imdb_votes = Some 1000, r_close = Some (21 / 2), r_volatility = Some (1 / 5)\<rparr>]))"
  by (simp add: frame_eval_csv frame_eval)

section \<open>Witnesses\<close>

theorem read_csv_missing_column_witness:
  "\<exists>e. read_csv_rows ''title,type,release_date,genres,country,imdb_score,imdb_votes,close\<newline>X,Movie,2019-06-01,Dramas,US,7.5,1000,10.5\<newline>''
     = Some (Inl e)"
proof -
  have r: "csv_records ''title,type,release_date,genres,country,imdb_score,imdb_votes,close\<newline>X,Movie,2019-06-01,Dramas,US,7.5,1000,10.5\<newline>''
     = Some (Inr ([''title'', ''type'', ''release_date'', ''genres'', ''country'', ''imdb_score'', ''imdb_votes'', ''close'']
        # [[''X'', ''Movie'', ''2019-06-01'', ''Dramas'', ''US'', ''7.5'', ''1000'', ''10.5'']]))"
    by (simp add: csv_records_ref csv_eval)
  show ?thesis by (rule read_csv_missing_column[OF r, of "''volatility''"]) (simp_all add: load_columns_def)
qed

end
