(* ===== verification/Dashboard.thy ===== *)
theory Dashboard
  imports Figures Csv_Frame
begin

text \<open>
  The module state of \<open>src/app/visualization.py\<close> and the page that
  \<open>src/app/app.py\<close> builds from it. Importing \<open>visualization\<close> runs the module
  top to bottom once (\<open>module_init\<close>): it loads the table (lines 12--14), computes
  the second \<open>df_stock\<close> (lines 185--196; the first one of lines 124--125 is
  overwritten before use), the volatility split (lines 255--281), reloads the table (lines
  397--402), selects the hit shows and their yearly tables from the reload (lines
  405--416), rewrites the reloaded \<open>df\<close> in place (lines 479--482) and computes the
  genre, international and country tables from it (lines 484--603). \<open>vis_state\<close>
  holds the globals the plot functions read when they are called; chart 8 reads the first
  table through its default argument \<open>df=df\<close>, bound when the function is defined
  (line 334), before the reload.
  A plot call (\<open>plot_call\<close>) is a step on this state: only
  \<open>plot_stock_vs_releases\<close> and \<open>plot_impact_of_hit_shows_on_stock\<close> change it.
  \<open>app.py\<close> (lines 86--129) calls the plot functions once each in the order
  \<open>plot_functions_order\<close> (lines 643--656), emitting a section header when the
  section title changes and a block with the function name in title case, the description
  and the graph. Strings are byte lists: the non-ASCII characters of the descriptions
  (U+2265 and U+2019) are written as their UTF-8 bytes. The state also records the column
  names of the table (\<open>vs_columns\<close>): the import never reads \<open>type\<close>, so a file
  without it loads, and charts 3 and 4 raise \<open>KeyError\<close> when they group by it.
\<close>

section \<open>Module state\<close>

record vis_state =
  vs_df :: "row list"
  vs_df_first :: "row list"
  vs_df_stock :: "stock_row list"
  vs_early :: "trend_row list"
  vs_recent :: "trend_row list"
  vs_corr_early :: fval
  vs_corr_recent :: fval
  vs_hit_shows :: "hit_row list"
  vs_hit_per_year :: "hit_year_row list"
  vs_df_sampled :: "(year \<times> fval) list"
  vs_genre_filtered :: "string share_row list"
  vs_international :: "intl_row list"
  vs_country :: "string option share_row list"
  vs_columns :: "string list"

text \<open>Lines 397--401 read the data file a second time: the same rows, with the dates
  parsed and the year derived again. \<open>pd.to_numeric(df["close"], errors="coerce")\<close>
  leaves the column as it is, as the load already reads it as numbers.\<close>

definition reload_df :: "raw_row list \<Rightarrow> load_error + row list" where
  "reload_df raws = load_rows raws"

declare reload_df_def [simp]

definition module_init :: "string list \<Rightarrow> raw_row list \<Rightarrow> load_error + vis_state" where
  "module_init cols raws =
     (case load_rows raws of
        Inl e \<Rightarrow> Inl e
      | Inr df1 \<Rightarrow>
          (let st = df_stock_v6 df1; vol = volatility_split df1
           in case reload_df raws of
                Inl e \<Rightarrow> Inl e
              | Inr df2 \<Rightarrow>
                  (let hs = hit_shows_of df2; df3 = normalize_genres df2
                   in Inr \<lparr>vs_df = df3, vs_df_first = df1, vs_df_stock = st,
                           vs_early = fst vol, vs_recent = fst (snd vol),
                           vs_corr_early = fst (snd (snd vol)), vs_corr_recent = snd (snd (snd vol)),
                           vs_hit_shows = hs, vs_hit_per_year = hit_shows_per_year hs,
                           vs_df_sampled = df_sampled df2, vs_genre_filtered = genre_trend_filtered df3,
                           vs_international = international_trend df3, vs_country = country_growth df3,
                           vs_columns = cols\<rparr>)))"

section \<open>Plot calls\<close>

datatype plot_name =
    Imdb_score_trend | High_quality_proportion | Movie_vs_tv_production | Movie_vs_tv_imdb
  | Stock_vs_releases | Stock_vs_quality | Quality_vs_stock_volatility | Impact_of_hit_shows_on_stock
  | Hit_shows_vs_stock_long_term | Genre_trends | International_trend | Country_production_growth

definition plot_call :: "real list \<Rightarrow> plot_name \<Rightarrow> vis_state \<Rightarrow> plot_error + figure \<times> vis_state" where
  "plot_call us p s = (case p of
      Imdb_score_trend \<Rightarrow> Inr (plot_imdb_score_trend (vs_df s), s)
    | High_quality_proportion \<Rightarrow> Inr (plot_high_quality_proportion (vs_df s), s)
    | Movie_vs_tv_production \<Rightarrow>
        (if ''type'' \<in> set (vs_columns s) then Inr (plot_movie_vs_tv_production (vs_df s), s)
         else Inl (KeyError ''type''))
    | Movie_vs_tv_imdb \<Rightarrow>
        (if ''type'' \<in> set (vs_columns s) then Inr (plot_movie_vs_tv_imdb (vs_df s), s)
         else Inl (KeyError ''type''))
    | Stock_vs_releases \<Rightarrow>
        (let (fig, st) = plot_stock_vs_releases (vs_df_stock s) in Inr (fig, s\<lparr>vs_df_stock := st\<rparr>))
    | Stock_vs_quality \<Rightarrow> Inr (plot_stock_vs_quality (vs_df_stock s), s)
    | Quality_vs_stock_volatility \<Rightarrow>
        Inr (plot_quality_vs_stock_volatility (vs_early s) (vs_recent s) (vs_corr_early s) (vs_corr_recent s), s)
    | Impact_of_hit_shows_on_stock \<Rightarrow>
        (case plot_impact_of_hit_shows_on_stock us (vs_df_first s) (vs_hit_shows s) of
           Inl e \<Rightarrow> Inl e
         | Inr (fig, hs) \<Rightarrow> Inr (fig, s\<lparr>vs_hit_shows := hs\<rparr>))
    | Hit_shows_vs_stock_long_term \<Rightarrow> Inr (plot_hit_shows_vs_stock_long_term (vs_df_sampled s) (vs_hit_per_year s), s)
    | Genre_trends \<Rightarrow> Inr (plot_genre_trends (vs_genre_filtered s), s)
    | International_trend \<Rightarrow> Inr (plot_international_trend (vs_international s), s)
    | Country_production_growth \<Rightarrow> Inr (plot_country_production_growth (vs_country s), s))"

text \<open>\<open>getattr(visualization, name, None)\<close> followed by \<open>callable\<close>: the names of the
  module's plot functions.\<close>

definition plot_of_name :: "string \<Rightarrow> plot_name option" where
  "plot_of_name n = map_of
     [(''plot_imdb_score_trend'', Imdb_score_trend), (''plot_high_quality_proportion'', High_quality_proportion),
      (''plot_movie_vs_tv_production'', Movie_vs_tv_production), (''plot_movie_vs_tv_imdb'', Movie_vs_tv_imdb),
      (''plot_stock_vs_releases'', Stock_vs_releases), (''plot_stock_vs_quality'', Stock_vs_quality),
      (''plot_quality_vs_stock_volatility'', Quality_vs_stock_volatility),
      (''plot_impact_of_hit_shows_on_stock'', Impact_of_hit_shows_on_stock),
      (''plot_hit_shows_vs_stock_long_term'', Hit_shows_vs_stock_long_term),
      (''plot_genre_trends'', Genre_trends), (''plot_international_trend'', International_trend),
      (''plot_country_production_growth'', Country_production_growth)] n"

definition plot_functions_order :: "string list" where
  "plot_functions_order =
     [''plot_imdb_score_trend'', ''plot_high_quality_proportion'', ''plot_movie_vs_tv_production'',
      ''plot_movie_vs_tv_imdb'', ''plot_stock_vs_releases'', ''plot_stock_vs_quality'',
      ''plot_quality_vs_stock_volatility'', ''plot_impact_of_hit_shows_on_stock'',
      ''plot_hit_shows_vs_stock_long_term'', ''plot_genre_trends'', ''plot_international_trend'',
      ''plot_country_production_growth'']"

section \<open>The page of app.py\<close>

definition ge_sign :: string where
  "ge_sign = [char_of (226::nat), char_of (137::nat), char_of (165::nat)]"

definition rsquo :: string where
  "rsquo = [char_of (226::nat), char_of (128::nat), char_of (153::nat)]"

definition chart_descriptions :: "(string \<times> string \<times> string) list" where
  "chart_descriptions = [
   (''plot_imdb_score_trend'', (''Section 1: Content Quality Decline'',
      ''Does the overall IMDb rating trend show a decline in Netflix content quality? ''
      @ ''This graph illustrates the trend of average IMDb scores over time, revealing a significant drop after 2015.'')),
   (''plot_high_quality_proportion'', ([],
      ''Even if the overall scores decline, is the proportion of high-rated content (IMDb '' @ ge_sign @ '' 7.5) stable? ''
      @ ''This graph demonstrates that high-rated content also shows a declining trend over time.'')),
   (''plot_movie_vs_tv_production'', (''Section 2: Netflix Production Trends'',
      ''Is Netflix increasing content production? This graph shows trends in movie and TV show production over time, ''
      @ ''suggesting that Netflix has been focusing on quantity, possibly at the cost of quality.'')),
   (''plot_movie_vs_tv_imdb'', ([],
      ''Are Netflix movies and TV shows rated differently? This graph explores their IMDb score trends, revealing that ''
      @ ''TV shows generally receive higher ratings than movies.'')),
   (''plot_stock_vs_releases'', (''Section 3: Stock Price vs. Content'',
      ''Does the quantity of content released influence Netflix'' @ rsquo @ ''s stock price? ''
      @ ''This graph explores the relationship between content production and stock price growth.'')),
   (''plot_stock_vs_quality'', ([],
      ''Is there a direct link between high-quality content and Netflix stock prices? ''
      @ ''This graph suggests that Netflix'' @ rsquo @ ''s success depends more on market expansion and subscription growth ''
      @ ''rather than pure content quality.'')),
   (''plot_quality_vs_stock_volatility'', ([],
      ''Over time, has content quality influenced Netflix's stock volatility? ''
      @ ''This graph compares early Netflix trends (pre-2010) vs. recent years (post-2015). ''
      @ ''We observe that in the early years, IMDb ratings had a stronger correlation with stock volatility.'')),
   (''plot_impact_of_hit_shows_on_stock'', (''Section 4: Impact of Hit Shows'',
      ''Do blockbuster shows (IMDb '' @ ge_sign @ '' 8.0, '' @ ge_sign @ '' 100k votes) cause short-term stock price fluctuations? ''
      @ ''The data suggests that major hits do not immediately trigger significant stock price changes.'')),
   (''plot_hit_shows_vs_stock_long_term'', ([],
      ''How does the number of annual hit shows correlate with stock performance? ''
      @ ''The stock price follows a steady upward trend, seemingly independent of the number of hit shows.'')),
   (''plot_genre_trends'', (''Section 5: Content & Global Expansion'',
      ''How has Netflix'' @ rsquo @ ''s content strategy changed in terms of genre distribution? ''
      @ ''This graph reveals long-term shifts in genre popularity.'')),
   (''plot_international_trend'', ([],
      ''Is Netflix investing more in international content? This graph shows a sharp rise in global content after 2015, ''
      @ ''coinciding with Netflix'' @ rsquo @ ''s expansion into over 190 countries in 2016.'')),
   (''plot_country_production_growth'', ([],
      ''Which countries contribute the most Netflix content? This world map highlights content production growth trends, ''
      @ ''showing a diversification beyond the U.S. to Europe and Asia.''))
   ]"

definition lookup_desc :: "string \<Rightarrow> string \<times> string" where
  "lookup_desc n = (case map_of chart_descriptions n of Some d \<Rightarrow> d | None \<Rightarrow> ([], []))"

definition is_lower :: "char \<Rightarrow> bool" where
  "is_lower c \<longleftrightarrow> (97::nat) \<le> of_char c \<and> of_char c \<le> (122::nat)"

definition upper_char :: "char \<Rightarrow> char" where
  "upper_char c = (if is_lower c
     then (case c of Char b0 b1 b2 b3 b4 b5 b6 b7 \<Rightarrow> Char b0 b1 b2 b3 b4 False b6 b7) else c)"

text \<open>\<open>str.title\<close>: a letter is upper case when the character before it is not a
  letter, lower case otherwise.\<close>

fun title_acc :: "bool \<Rightarrow> string \<Rightarrow> string" where
  "title_acc prev [] = []"
| "title_acc prev (c # cs) =
     (if is_upper c \<or> is_lower c then (if prev then lower_char c else upper_char c) # title_acc True cs
      else c # title_acc False cs)"

definition str_title :: "string \<Rightarrow> string" where
  "str_title s = title_acc False s"

datatype html = H1 string | H2 string | H3 string | P string | Ul "string list" | Graph figure | Div "html list"

definition project_background :: html where
  "project_background = Div [
     H1 ''Netflix Data Analysis Dashboard'',
     P (''Many people claim that the quality of film and TV productions is declining. But is this true? ''
        @ ''And if so, why would entertainment companies allow this to happen? ''
        @ ''Does content quality have no impact on business performance?''),
     P ''To explore these questions, we analyze three key Netflix datasets:'',
     Ul [''Netflix content data (movies & TV shows)'', ''IMDb ratings (quality metric)'',
         ''Netflix stock prices (business impact)''],
     P (''By examining trends in content quality, production, and their relationship with stock performance, ''
        @ ''we aim to uncover meaningful insights.'')]"

definition conclusion_block :: html where
  "conclusion_block = Div [
     H2 ''Conclusion'',
     P (''Our findings reveal that while Netflix content quality has declined, stock price movements are more influenced by a combination of factors, ''
        @ ''including content volume, global expansion, the number of users, and various other elements, rather than direct quality metrics.''),
     P (''However, content quality may still play an indirect role by affecting subscriber engagement, brand loyalty, ''
        @ ''and user retention. As Netflix continues to scale, balancing quality with quantity may become crucial ''
        @ ''for long-term sustainability.'')]"

definition chart_block :: "string \<Rightarrow> string \<Rightarrow> figure \<Rightarrow> html" where
  "chart_block n desc fig = Div [H3 (str_title (str_replace ''_'' '' '' n)), P desc, Graph fig]"

text \<open>A block with the description that \<open>chart_descriptions\<close> gives for the name.\<close>

definition described_block :: "string \<Rightarrow> figure \<Rightarrow> html" where
  "described_block n fig = chart_block n (snd (lookup_desc n)) fig"

fun page_loop :: "real list \<Rightarrow> string option \<Rightarrow> string list \<Rightarrow> vis_state \<Rightarrow> plot_error + html list \<times> vis_state" where
  "page_loop us prev [] s = Inr ([], s)"
| "page_loop us prev (n # ns) s =
     (case plot_of_name n of
        None \<Rightarrow> page_loop us prev ns s
      | Some p \<Rightarrow>
          (let (sec, desc) = lookup_desc n;
               new = (sec \<noteq> [] \<and> Some sec \<noteq> prev);
               hdr = (if new then [H2 sec] else []);
               prev' = (if new then Some sec else prev)
           in case plot_call us p s of
                Inl e \<Rightarrow> Inl e
              | Inr (fig, s') \<Rightarrow>
                  (case page_loop us prev' ns s' of
                     Inl e \<Rightarrow> Inl e
                   | Inr (els, s'') \<Rightarrow>
                       Inr (hdr @ [chart_block n desc fig] @ els, s''))))"

definition app_layout :: "real list \<Rightarrow> string list \<Rightarrow> raw_row list \<Rightarrow> (load_error + plot_error) + html" where
  "app_layout us cols raws =
     (case module_init cols raws of
        Inl e \<Rightarrow> Inl (Inl e)
      | Inr s \<Rightarrow>
          (case page_loop us None plot_functions_order s of
             Inl e \<Rightarrow> Inl (Inr e)
           | Inr (els, _) \<Rightarrow> Inr (Div ([project_background] @ els @ [conclusion_block]))))"

text \<open>Starting \<open>app.py\<close> from the text of the data file: \<open>import visualization\<close>
  (line 3) runs the module, which reads the file at lines 12 and 397 (the same text both
  times), and the page is then built.\<close>

definition app_from_csv :: "real list \<Rightarrow> string \<Rightarrow> ((load_error + plot_error) + html) option" where
  "app_from_csv us s = map_option (\<lambda>r. case r of Inl e \<Rightarrow> Inl (Inl e) | Inr (cols, raws) \<Rightarrow> app_layout us cols raws)
     (read_csv_rows s)"

text \<open>A raw CSV line with a title, a type, a genre and a country, for the witnesses.\<close>

definition sample_raw :: "string option \<Rightarrow> real \<Rightarrow> real \<Rightarrow> real \<Rightarrow> raw_row" where
  "sample_raw d s v c = \<lparr>r_title = Some ''t'', r_type = Some ''MOVIE'', r_release_date = d,
     r_genres = Some ''Dramas'', r_country = Some ''France'', r_imdb_score = Some s,
     r_imdb_votes = Some v, r_close = Some c, r_volatility = Some 1\<rparr>"

abbreviation sample_raws :: "raw_row list" where
  "sample_raws \<equiv> [sample_raw (Some ''2019-06-01'') 7 1000 10, sample_raw (Some ''2020-06-01'') 8 1000 8]"

section \<open>Plot calls as a step relation\<close>

text \<open>A plot function can be called at any time and any number of times (the page calls each
  once; a callback could call them again). One step is one successful call with fresh random
  draws for the hit shows; the states reachable from the module state are those of any
  sequence of calls.\<close>

inductive plot_step :: "vis_state \<Rightarrow> vis_state \<Rightarrow> bool" where
  call: "valid_draws us (length (vs_hit_shows s)) \<Longrightarrow> plot_call us p s = Inr (fig, s') \<Longrightarrow> plot_step s s'"

inductive reachable :: "vis_state \<Rightarrow> vis_state \<Rightarrow> bool" where
  start: "reachable s0 s0"
| step: "reachable s0 s \<Longrightarrow> plot_step s s' \<Longrightarrow> reachable s0 s'"

text \<open>What every sequence of plot calls keeps: the tables no call writes, the rows of the
  hit shows, and of \<open>df_stock\<close> everything but the price change, which is either the
  module's or the one \<open>plot_stock_vs_releases\<close> writes.\<close>

definition globals_inv :: "vis_state \<Rightarrow> vis_state \<Rightarrow> bool" where
  "globals_inv s0 s \<longleftrightarrow>
     s\<lparr>vs_df_stock := vs_df_stock s0, vs_hit_shows := vs_hit_shows s0\<rparr> = s0
     \<and> (vs_df_stock s = vs_df_stock s0 \<or> vs_df_stock s = stock_vs_releases_update (vs_df_stock s0))
     \<and> map h_row (vs_hit_shows s) = map h_row (vs_hit_shows s0)"

declare sample_raw_def [frame_eval] chart_block_def [frame_eval] described_block_def [frame_eval] module_init_def [frame_eval] plot_call_def [frame_eval] plot_of_name_def [frame_eval]
  plot_functions_order_def [frame_eval] ge_sign_def [frame_eval] rsquo_def [frame_eval]
  chart_descriptions_def [frame_eval] lookup_desc_def [frame_eval] is_lower_def [frame_eval]
  upper_char_def [frame_eval] str_title_def [frame_eval] project_background_def [frame_eval]
  conclusion_block_def [frame_eval] app_layout_def [frame_eval]

section \<open>The state invariant and progress\<close>

lemma plot_call_cases:
  assumes "plot_call us p s = Inr (fig, s')"
  shows "s' = s \<or> s' = s\<lparr>vs_df_stock := stock_vs_releases_update (vs_df_stock s)\<rparr>
         \<or> (\<exists>hs. hit_jitter_update us (vs_hit_shows s) = Inr hs \<and> s' = s\<lparr>vs_hit_shows := hs\<rparr>)"
  using assms
  by (cases p) (auto simp: plot_call_def plot_stock_vs_releases_def plot_impact_of_hit_shows_on_stock_def
                      Let_def split: sum.splits if_splits)

lemma plot_step_globals_inv:
  assumes "plot_step s s'" and "globals_inv s0 s"
  shows "globals_inv s0 s'"
  using assms(1)
proof cases
  case (call us p fig)
  have lu: "length us = length (vs_hit_shows s)" using call(1) by (simp add: valid_draws_def)
  from plot_call_cases[OF call(2)] show ?thesis
  proof (elim disjE exE conjE)
    assume "s' = s" then show ?thesis using assms(2) by simp
  next
    assume s': "s' = s\<lparr>vs_df_stock := stock_vs_releases_update (vs_df_stock s)\<rparr>"
    have "stock_vs_releases_update (vs_df_stock s) = stock_vs_releases_update (vs_df_stock s0)"
      using assms(2) stock_vs_releases_update_idem unfolding globals_inv_def by metis
    then show ?thesis using assms(2) unfolding s' globals_inv_def by simp
  next
    fix hs assume h: "hit_jitter_update us (vs_hit_shows s) = Inr hs" and s': "s' = s\<lparr>vs_hit_shows := hs\<rparr>"
    have "map h_row hs = map h_row (vs_hit_shows s)" using hit_jitter_update_rows[OF h lu] .
    then show ?thesis using assms(2) unfolding s' globals_inv_def by simp
  qed
qed

text \<open>C29: whatever plot functions are called, in any order and any number of times, the
  module state keeps every table no call writes, keeps the hit shows' rows, and holds in
  \<open>df_stock\<close> either the module's price change or the one of
  \<open>plot_stock_vs_releases\<close> (a second call writes the same column again).\<close>

theorem reachable_globals_inv:
  "reachable s0 s \<Longrightarrow> globals_inv s0 s"
proof (induction rule: reachable.induct)
  case (start s0)
  show ?case by (simp add: globals_inv_def)
next
  case (step s0 s s')
  then show ?case by (blast intro: plot_step_globals_inv)
qed

text \<open>C34: every figure a plot call returns is well formed: each of its traces has as many
  x values as y values, so plotly pairs every point.\<close>

theorem plot_call_wf:
  "plot_call us p s = Inr (fig, s') \<Longrightarrow> wf_figure fig"
  by (cases p) (auto simp: plot_call_def wf_plots wf_hit_impact wf_country_map Let_def split_def
     split: sum.splits if_splits)

section \<open>Charts 1--4 and the rewrite of df\<close>

text \<open>C31: the in-place rewrite of the global \<open>df\<close> at lines 479--482, done after
  charts 1--4 are defined but before they are called, does not change them: on a table whose
  years are derived from the release dates, charts 1--4 are the same before and after it.\<close>

theorem early_charts_ignore_genre_rewrite:
  assumes "\<forall>r\<in>set df. year_derived r"
  shows "plot_imdb_score_trend (normalize_genres df) = plot_imdb_score_trend df
       \<and> plot_high_quality_proportion (normalize_genres df) = plot_high_quality_proportion df
       \<and> plot_movie_vs_tv_production (normalize_genres df) = plot_movie_vs_tv_production df
       \<and> plot_movie_vs_tv_imdb (normalize_genres df) = plot_movie_vs_tv_imdb df"
proof -
  define f where "f = (\<lambda>r. (with_year r)\<lparr>genres := Some (norm_genre (cell_text (genres r)))\<rparr>)"
  have n: "normalize_genres df = map f df" by (simp add: normalize_genres_def f_def)
  have y: "\<forall>r\<in>set df. year (f r) = year r" and t: "\<forall>r\<in>set df. year_type (f r) = year_type r"
    using assms by (simp_all add: f_def normalize_genres_fields year_type_def)
  have s: "imdb_score \<circ> f = imdb_score" by (simp add: f_def with_year_def comp_def)
  have q: "is_high_quality \<circ> f = is_high_quality"
    by (rule ext) (simp add: f_def with_year_def is_high_quality_def)
  show ?thesis unfolding n
    by (simp add: plot_imdb_score_trend_def plot_high_quality_proportion_def plot_movie_vs_tv_production_def
        plot_movie_vs_tv_imdb_def score_trend_def quality_proportion_def type_counts_def type_scores_def
        groupby_map[OF y] groupby_map[OF t] s q)
qed

section \<open>The page\<close>

lemma page_loop_order:
  assumes h: "plot_impact_of_hit_shows_on_stock us (vs_df_first s) (vs_hit_shows s) = Inr (fig8, hs)"
    and ty: "''type'' \<in> set (vs_columns s)"
  shows "page_loop us None plot_functions_order s =
          Inr ([H2 ''Section 1: Content Quality Decline'',
                described_block ''plot_imdb_score_trend'' (plot_imdb_score_trend (vs_df s)),
                described_block ''plot_high_quality_proportion'' (plot_high_quality_proportion (vs_df s)),
                H2 ''Section 2: Netflix Production Trends'',
                described_block ''plot_movie_vs_tv_production'' (plot_movie_vs_tv_production (vs_df s)),
                described_block ''plot_movie_vs_tv_imdb'' (plot_movie_vs_tv_imdb (vs_df s)),
                H2 ''Section 3: Stock Price vs. Content'',
                described_block ''plot_stock_vs_releases'' (fst (plot_stock_vs_releases (vs_df_stock s))),
                described_block ''plot_stock_vs_quality'' (plot_stock_vs_quality (stock_vs_releases_update (vs_df_stock s))),
                described_block ''plot_quality_vs_stock_volatility''
                  (plot_quality_vs_stock_volatility (vs_early s) (vs_recent s) (vs_corr_early s) (vs_corr_recent s)),
                H2 ''Section 4: Impact of Hit Shows'',
                described_block ''plot_impact_of_hit_shows_on_stock'' fig8,
                described_block ''plot_hit_shows_vs_stock_long_term''
                  (plot_hit_shows_vs_stock_long_term (vs_df_sampled s) (vs_hit_per_year s)),
                H2 ''Section 5: Content & Global Expansion'',
                described_block ''plot_genre_trends'' (plot_genre_trends (vs_genre_filtered s)),
                described_block ''plot_international_trend'' (plot_international_trend (vs_international s)),
                described_block ''plot_country_production_growth'' (plot_country_production_growth (vs_country s))],
               s\<lparr>vs_df_stock := stock_vs_releases_update (vs_df_stock s), vs_hit_shows := hs\<rparr>)"
  using h ty by (simp add: plot_functions_order_def plot_of_name_def lookup_desc_def chart_descriptions_def
      plot_call_def described_block_def plot_stock_vs_releases_def Let_def)

lemma page_loop_no_type:
  assumes "''type'' \<notin> set (vs_columns s)"
  shows "page_loop us None plot_functions_order s = Inl (KeyError ''type'')"
  using assms by (simp add: plot_functions_order_def plot_of_name_def lookup_desc_def chart_descriptions_def
      plot_call_def Let_def)

lemma page_loop_error:
  assumes "plot_impact_of_hit_shows_on_stock us (vs_df_first s) (vs_hit_shows s) = Inl e"
    and "''type'' \<in> set (vs_columns s)"
  shows "page_loop us None plot_functions_order s = Inl e"
  using assms by (simp add: plot_functions_order_def plot_of_name_def lookup_desc_def chart_descriptions_def
      plot_call_def plot_stock_vs_releases_def Let_def)

lemma module_init_Inr:
  assumes "module_init cols raws = Inr s"
  shows "\<exists>df. load_rows raws = Inr df \<and> vs_df_stock s = df_stock_v6 df \<and> vs_df_first s = df
             \<and> vs_columns s = cols"
  using assms by (auto simp: module_init_def Let_def split: sum.splits)

lemma stock_vs_quality_change_trace:
  "tr_y (fig_traces (plot_stock_vs_quality st) ! 2) = map (CNum \<circ> s_price_change) st"
  by (simp add: plot_stock_vs_quality_def base_figure_def stock_traces_def scatter_def)

lemma app_layout_page:
  assumes "module_init cols raws = Inr s" and "app_layout us cols raws = Inr page"
  shows "\<exists>fig8 hs els. plot_impact_of_hit_shows_on_stock us (vs_df_first s) (vs_hit_shows s) = Inr (fig8, hs)
           \<and> ''type'' \<in> set (vs_columns s)
           \<and> page_loop us None plot_functions_order s = Inr (els, s\<lparr>vs_df_stock := stock_vs_releases_update (vs_df_stock s), vs_hit_shows := hs\<rparr>)
           \<and> page = Div ([project_background] @ els @ [conclusion_block])"
proof (cases "''type'' \<in> set (vs_columns s)")
  case False
  then show ?thesis using assms page_loop_no_type[OF False] by (simp add: app_layout_def)
next
  case ty: True
  show ?thesis
  proof (cases "plot_impact_of_hit_shows_on_stock us (vs_df_first s) (vs_hit_shows s)")
    case (Inl e)
    then show ?thesis using assms page_loop_error[OF Inl ty] by (simp add: app_layout_def)
  next
    case (Inr r)
    then obtain fig8 hs where r: "plot_impact_of_hit_shows_on_stock us (vs_df_first s) (vs_hit_shows s) = Inr (fig8, hs)"
      by (cases r) auto
    show ?thesis using assms page_loop_order[OF r ty] r ty by (auto simp: app_layout_def)
  qed
qed

text \<open>C32: on the page that app.py builds, chart 6 does not show the price change the module
  computes at lines 192--196: \<open>plot_stock_vs_releases\<close>, called just before it,
  overwrites the column of the global \<open>df_stock\<close>, so chart 6 draws the price change
  of lines 128--130.\<close>

theorem page_chart6_shows_releases_change:
  assumes "module_init cols raws = Inr s" and "app_layout us cols raws = Inr page"
  shows "\<exists>df els. load_rows raws = Inr df \<and> page = Div ([project_background] @ els @ [conclusion_block])
     \<and> described_block ''plot_stock_vs_quality'' (plot_stock_vs_quality (stock_vs_releases_update (df_stock_v6 df))) \<in> set els
     \<and> tr_y (fig_traces (plot_stock_vs_quality (stock_vs_releases_update (df_stock_v6 df))) ! 2)
         = map CNum (releases_price_change (map s_close (df_stock_v6 df)))"
proof -
  obtain df where df: "load_rows raws = Inr df" "vs_df_stock s = df_stock_v6 df"
    using module_init_Inr[OF assms(1)] by blast
  obtain fig8 hs els where r: "plot_impact_of_hit_shows_on_stock us (vs_df_first s) (vs_hit_shows s) = Inr (fig8, hs)"
    and ty: "''type'' \<in> set (vs_columns s)"
    and p: "page_loop us None plot_functions_order s = Inr (els, s\<lparr>vs_df_stock := stock_vs_releases_update (vs_df_stock s), vs_hit_shows := hs\<rparr>)"
    and pg: "page = Div ([project_background] @ els @ [conclusion_block])"
    using app_layout_page[OF assms] by blast
  have "described_block ''plot_stock_vs_quality'' (plot_stock_vs_quality (stock_vs_releases_update (df_stock_v6 df))) \<in> set els"
  proof -
    have "\<forall>els' s''. page_loop us None plot_functions_order s = Inr (els', s'') \<longrightarrow>
        described_block ''plot_stock_vs_quality'' (plot_stock_vs_quality (stock_vs_releases_update (vs_df_stock s))) \<in> set els'"
      using page_loop_order[OF r ty] by simp
    then show ?thesis using p df(2) by simp
  qed
  moreover have "map s_price_change (stock_vs_releases_update (df_stock_v6 df))
      = releases_price_change (map s_close (df_stock_v6 df))"
    unfolding stock_vs_releases_update_def by (rule price_change_set_price_change) simp
  ultimately show ?thesis using df(1) pg
    by (auto simp: stock_vs_quality_change_trace simp del: map_map intro!: exI[of _ els]) (metis map_map)
qed

text \<open>C33: if some hit show has no release date, building the page fails with the error of
  \<open>astype(np.int64)\<close> in chart 8, so app.py cannot start (when the table has the
  \<open>type\<close> column; without it chart 3 fails first).\<close>

theorem app_fails_on_undated_hit:
  assumes "module_init cols raws = Inr s" and "''type'' \<in> set cols"
    and "\<exists>h\<in>set (vs_hit_shows s). release_date (h_row h) = None"
  shows "app_layout us cols raws = Inl (Inr NaTToInteger)"
proof -
  have "epoch_column (map h_row (vs_hit_shows s)) = Inl NaTToInteger"
    using assms(3) epoch_column_Inl by auto
  then have "plot_impact_of_hit_shows_on_stock us (vs_df_first s) (vs_hit_shows s) = Inl NaTToInteger"
    by (simp add: plot_impact_of_hit_shows_on_stock_def hit_jitter_update_def)
  moreover have "''type'' \<in> set (vs_columns s)" using module_init_Inr[OF assms(1)] assms(2) by auto
  ultimately show ?thesis using assms(1) page_loop_error by (simp add: app_layout_def)
qed

text \<open>C40: \<open>app.py\<close> shows a page only for a data file that the reader splits into a
  header and records and whose header holds all nine columns the module and the page read:
  the eight the import reads, and \<open>type\<close>, which chart 3 reads.\<close>

theorem app_from_csv_requires_columns:
  assumes "app_from_csv us s = Some (Inr page)"
  shows "\<exists>hdr rows. csv_records s = Some (Inr (hdr # rows)) \<and> set required_columns \<subseteq> set hdr"
proof -
  obtain r where r0: "read_csv_rows s = Some r"
    using assms by (cases "read_csv_rows s") (auto simp: app_from_csv_def)
  then obtain cols raws where r: "read_csv_rows s = Some (Inr (cols, raws))"
    and a: "app_layout us cols raws = Inr page"
    using assms by (cases r) (auto simp: app_from_csv_def)
  obtain rows rows' where c: "csv_records s = Some (Inr (cols # rows))"
    and f: "frame_raw_rows (cols, rows') = Inr raws"
    using read_csv_rows_Inr[OF r] by blast
  obtain st where m: "module_init cols raws = Inr st"
    using a by (cases "module_init cols raws") (auto simp: app_layout_def)
  have "''type'' \<in> set cols" using app_layout_page[OF m a] module_init_Inr[OF m] by auto
  then have "set required_columns \<subseteq> set cols"
    using frame_raw_rows_columns[OF f] by (simp add: required_columns_def)
  then show ?thesis using c by blast
qed

text \<open>C30: a data file without the \<open>type\<close> column is imported without error: no
  statement of the module reads that column. The page then fails: chart 3
  (\<open>df.groupby(['year', 'type'])\<close>, line 78) raises \<open>KeyError: 'type'\<close>, before any
  later chart is drawn.\<close>

theorem app_without_type_column:
  assumes "read_csv_rows s = Some (Inr (cols, raws))" and "''type'' \<notin> set cols"
  shows "(\<exists>st. module_init cols raws = Inr st) \<and> app_from_csv us s = Some (Inl (Inr (KeyError ''type'')))"
proof -
  obtain rows rows' where f: "frame_raw_rows (cols, rows') = Inr raws"
    using read_csv_rows_Inr[OF assms(1)] by blast
  obtain df where "load_rows raws = Inr df" using frame_raw_rows_loads[OF f] by blast
  then obtain st where m: "module_init cols raws = Inr st" and c: "vs_columns st = cols"
    by (simp add: module_init_def Let_def)
  have "app_layout us cols raws = Inl (Inr (KeyError ''type''))"
    using m page_loop_no_type[of st us] c assms(2) by (simp add: app_layout_def)
  then show ?thesis using m assms(1) by (auto simp: app_from_csv_def)
qed

lemma module_init_loaded:
  assumes "load_rows raws = Inr df"
  shows "\<exists>s. module_init cols raws = Inr s \<and> vs_df_stock s = df_stock_v6 df \<and> vs_df_first s = df
             \<and> vs_hit_shows s = hit_shows_of df \<and> vs_columns s = cols"
  using assms by (simp add: module_init_def Let_def)

lemma app_layout_Inr:
  assumes "module_init cols raws = Inr s"
    and "plot_impact_of_hit_shows_on_stock us (vs_df_first s) (vs_hit_shows s) = Inr (fig8, hs)"
    and "''type'' \<in> set (vs_columns s)"
  shows "\<exists>page. app_layout us cols raws = Inr page"
  using assms page_loop_order[OF assms(2,3)] by (simp add: app_layout_def)



section \<open>Witnesses\<close>

lemma load_sample_raws: "load_rows [sample_raw (Some ''2019-06-01'') 7 1000 10, sample_raw (Some ''2020-06-01'') 8 1000 8]
   = Inr [mk_row (sample_raw (Some ''2019-06-01'') 7 1000 10) (Some \<lparr>d_year = 2019, d_month = 6, d_day = 1\<rparr>),
          mk_row (sample_raw (Some ''2020-06-01'') 8 1000 8) (Some \<lparr>d_year = 2020, d_month = 6, d_day = 1\<rparr>)]"
  by (simp add: frame_eval del: mk_row_def)

lemma load_undated_hit: "load_rows [sample_raw None 9 200000 10] = Inr [mk_row (sample_raw None 9 200000 10) None]"
  by (simp add: frame_eval del: mk_row_def)

lemma sample_raws_no_hits: "hit_shows_of [mk_row (sample_raw (Some ''2019-06-01'') 7 1000 10) (Some \<lparr>d_year = 2019, d_month = 6, d_day = 1\<rparr>),
          mk_row (sample_raw (Some ''2020-06-01'') 8 1000 8) (Some \<lparr>d_year = 2020, d_month = 6, d_day = 1\<rparr>)] = []"
  by (simp add: frame_eval sample_raw_def)

abbreviation sample_header :: "string list" where
  "sample_header \<equiv> [''title'', ''type'', ''release_date'', ''genres'', ''country'', ''imdb_score'', ''imdb_votes'', ''close'', ''volatility'']"

lemma read_sample_csv:
  "read_csv_rows ''title,type,release_date,genres,country,imdb_score,imdb_votes,close,volatility\<newline>t,MOVIE,2019-06-01,Dramas,France,7,1000,10,1\<newline>t,MOVIE,2020-06-01,Dramas,France,8,1000,8,1\<newline>''
   = Some (Inr (sample_header, sample_raws))"
  by (simp add: frame_eval_csv frame_eval)

lemma sample_state:
  "\<exists>s. module_init sample_header sample_raws = Inr s \<and> vs_hit_shows s = [] \<and> ''type'' \<in> set (vs_columns s)"
  using module_init_loaded[OF load_sample_raws, of sample_header] sample_raws_no_hits by auto

lemma sample_page:
  "\<exists>page. app_layout [] sample_header sample_raws = Inr page"
proof -
  obtain s where s: "module_init sample_header sample_raws = Inr s" and h: "vs_hit_shows s = []"
    and t: "''type'' \<in> set (vs_columns s)"
    using sample_state by blast
  obtain fig8 where f: "plot_impact_of_hit_shows_on_stock [] (vs_df_first s) (vs_hit_shows s) = Inr (fig8, [])"
    by (simp add: h plot_impact_of_hit_shows_on_stock_def hit_jitter_update_def)
  show ?thesis using app_layout_Inr[OF s f t] .
qed

theorem app_from_csv_requires_columns_witness:
  "\<exists>page hdr rows. app_from_csv [] ''title,type,release_date,genres,country,imdb_score,imdb_votes,close,volatility\<newline>t,MOVIE,2019-06-01,Dramas,France,7,1000,10,1\<newline>t,MOVIE,2020-06-01,Dramas,France,8,1000,8,1\<newline>''
     = Some (Inr page)
   \<and> csv_records ''title,type,release_date,genres,country,imdb_score,imdb_votes,close,volatility\<newline>t,MOVIE,2019-06-01,Dramas,France,7,1000,10,1\<newline>t,MOVIE,2020-06-01,Dramas,France,8,1000,8,1\<newline>''
     = Some (Inr (hdr # rows)) \<and> set required_columns \<subseteq> set hdr"
proof -
  obtain page where p: "app_layout [] sample_header sample_raws = Inr page" using sample_page by blast
  have a: "app_from_csv [] ''title,type,release_date,genres,country,imdb_score,imdb_votes,close,volatility\<newline>t,MOVIE,2019-06-01,Dramas,France,7,1000,10,1\<newline>t,MOVIE,2020-06-01,Dramas,France,8,1000,8,1\<newline>''
     = Some (Inr page)"
    using p read_sample_csv by (simp add: app_from_csv_def)
  show ?thesis using a app_from_csv_requires_columns[OF a] by blast
qed

lemma read_csv_without_type:
  "read_csv_rows ''title,release_date,genres,country,imdb_score,imdb_votes,close,volatility\<newline>t,2019-06-01,Dramas,France,7,1000,10,1\<newline>''
   = Some (Inr ([''title'', ''release_date'', ''genres'', ''country'', ''imdb_score'', ''imdb_votes'', ''close'', ''volatility''],
       [(sample_raw (Some ''2019-06-01'') 7 1000 10)\<lparr>r_type := None\<rparr>]))"
  by (simp add: frame_eval_csv frame_eval)

theorem app_without_type_column_witness:
  "read_csv_rows ''title,release_date,genres,country,imdb_score,imdb_votes,close,volatility\<newline>t,2019-06-01,Dramas,France,7,1000,10,1\<newline>''
     = Some (Inr ([''title'', ''release_date'', ''genres'', ''country'', ''imdb_score'', ''imdb_votes'', ''close'', ''volatility''],
       [(sample_raw (Some ''2019-06-01'') 7 1000 10)\<lparr>r_type := None\<rparr>]))
   \<and> ''type'' \<notin> set [''title'', ''release_date'', ''genres'', ''country'', ''imdb_score'', ''imdb_votes'', ''close'', ''volatility'']
   \<and> app_from_csv [] ''title,release_date,genres,country,imdb_score,imdb_votes,close,volatility\<newline>t,2019-06-01,Dramas,France,7,1000,10,1\<newline>''
     = Some (Inl (Inr (KeyError ''type'')))"
  using app_without_type_column[OF read_csv_without_type] read_csv_without_type by simp

theorem reachable_globals_inv_witness:
  "\<exists>s. module_init sample_header sample_raws = Inr s \<and> globals_inv s (s\<lparr>vs_df_stock := stock_vs_releases_update (vs_df_stock s)\<rparr>)"
proof -
  obtain s where s: "module_init sample_header sample_raws = Inr s" and h: "vs_hit_shows s = []"
    using sample_state by blast
  have c: "plot_call [] Stock_vs_releases s = Inr (fst (plot_stock_vs_releases (vs_df_stock s)),
            s\<lparr>vs_df_stock := stock_vs_releases_update (vs_df_stock s)\<rparr>)"
    by (simp add: plot_call_def plot_stock_vs_releases_def Let_def)
  have "plot_step s (s\<lparr>vs_df_stock := stock_vs_releases_update (vs_df_stock s)\<rparr>)"
    by (rule plot_step.call[OF _ c]) (simp add: h valid_draws_def)
  then have "reachable s (s\<lparr>vs_df_stock := stock_vs_releases_update (vs_df_stock s)\<rparr>)"
    by (rule reachable.step[OF reachable.start])
  then show ?thesis using s reachable_globals_inv by blast
qed

theorem plot_call_wf_witness:
  "\<exists>s fig s'. module_init sample_header sample_raws = Inr s \<and> plot_call [] Stock_vs_releases s = Inr (fig, s') \<and> wf_figure fig"
proof -
  obtain s where s: "module_init sample_header sample_raws = Inr s"
    using sample_state by blast
  have c: "plot_call [] Stock_vs_releases s = Inr (fst (plot_stock_vs_releases (vs_df_stock s)),
            s\<lparr>vs_df_stock := stock_vs_releases_update (vs_df_stock s)\<rparr>)"
    by (simp add: plot_call_def plot_stock_vs_releases_def Let_def)
  show ?thesis using s c plot_call_wf[OF c] by blast
qed

theorem early_charts_ignore_genre_rewrite_witness:
  "plot_imdb_score_trend (normalize_genres [sample_row 2018 7 10]) = plot_imdb_score_trend [sample_row 2018 7 10]
   \<and> plot_high_quality_proportion (normalize_genres [sample_row 2018 7 10]) = plot_high_quality_proportion [sample_row 2018 7 10]
   \<and> plot_movie_vs_tv_production (normalize_genres [sample_row 2018 7 10]) = plot_movie_vs_tv_production [sample_row 2018 7 10]
   \<and> plot_movie_vs_tv_imdb (normalize_genres [sample_row 2018 7 10]) = plot_movie_vs_tv_imdb [sample_row 2018 7 10]"
  by (rule early_charts_ignore_genre_rewrite) (simp add: year_derived_def sample_row_def)

theorem page_chart6_shows_releases_change_witness:
  "\<exists>page df els. app_layout [] sample_header sample_raws = Inr page \<and> load_rows sample_raws = Inr df
     \<and> page = Div ([project_background] @ els @ [conclusion_block])
     \<and> described_block ''plot_stock_vs_quality'' (plot_stock_vs_quality (stock_vs_releases_update (df_stock_v6 df))) \<in> set els
     \<and> tr_y (fig_traces (plot_stock_vs_quality (stock_vs_releases_update (df_stock_v6 df))) ! 2)
         = map CNum (releases_price_change (map s_close (df_stock_v6 df)))"
proof -
  obtain s where s: "module_init sample_header sample_raws = Inr s" using sample_state by blast
  obtain page where p: "app_layout [] sample_header sample_raws = Inr page" using sample_page by blast
  show ?thesis using page_chart6_shows_releases_change[OF s p] p by blast
qed

theorem app_fails_on_undated_hit_witness:
  "app_layout [] sample_header [sample_raw None 9 200000 10] = Inl (Inr NaTToInteger)"
proof -
  obtain s where s: "module_init sample_header [sample_raw None 9 200000 10] = Inr s"
    and h: "vs_hit_shows s = hit_shows_of [mk_row (sample_raw None 9 200000 10) None]"
    using module_init_loaded[OF load_undated_hit] by blast
  have "\<exists>h\<in>set (vs_hit_shows s). release_date (h_row h) = None"
    by (simp add: h frame_eval sample_raw_def)
  then show ?thesis using app_fails_on_undated_hit[OF s] by simp
qed

end
