(* ===== verification/Spec2Isabelle.thy ===== *)
theory Spec2Isabelle
  imports Dashboard
begin

text \<open>
  \<^bold>\<open>A verification model of the Netflix data-visualization dashboard.\<close>

  The program (\<open>src/app/visualization.py\<close>, \<open>src/app/app.py\<close>) loads one merged
  CSV of titles, IMDb ratings and stock prices into a pandas table at import time, derives
  a dozen per-year, per-genre and per-country tables from it in module-level statements
  and in twelve \<open>plot_*\<close> functions, and \<open>app.py\<close> calls the plot functions in
  the fixed order \<open>plot_functions_order\<close> to build one Dash page. The parts and where
  they are modelled:

  \<^item> \<^bold>\<open>Shared vocabulary\<close> (\<open>Netflix_Prelude\<close>): a float cell is
    \<open>real option\<close> with \<open>None\<close> for NaN, computed exactly (floating-point rounding
    is not modelled); a year is an \<open>int\<close>; the collections \<open>frame_eval\<close> (every
    definition that evaluates a table, for the witnesses) and \<open>share_simps\<close>
    (averages, ratios).
  \<^item> \<^bold>\<open>pandas Series operations\<close> (\<open>Pandas_Series\<close>): \<open>mean\<close> skipping NaN
    (\<open>nanmean\<close>), \<open>median\<close>, \<open>pct_change\<close> with its forward padding,
    \<open>rolling(window, min_periods).mean()\<close> (\<open>rolling_mean\<close>, a trailing window),
    \<open>fillna\<close>, scaling. Lemmas: averages and medians lie between the bounds of their
    inputs, a rolling mean only looks back (\<open>take_rolling_mean\<close>), is NaN during its
    warm-up (\<open>rolling_mean_warmup\<close>) and has no NaN with \<open>min_periods=1\<close> on a
    column without NaN (\<open>rolling_mean_no_nan\<close>).
  \<^item> \<^bold>\<open>CSV reader\<close> (\<open>Csv_Tokenizer\<close>, \<open>Csv_Frame\<close>): \<open>pd.read_csv\<close> of
    lines 12 and 397. The tokenizer is pandas' C loop (\<open>tokenize_bytes\<close>) as a
    \<open>while_option\<close> over the position and a state of \<open>tok_state\<close>, with its quoting,
    skipped blank lines, the scan back over a line of blanks that holds a record, carriage
    returns, the padding of short records and the \<open>TooManyFields\<close> and
    \<open>EOFInsideString\<close> errors; \<open>tok_ref\<close> is a one-pass reading of the same text and
    \<open>to_csv\<close> Python's \<open>csv\<close> writer. \<open>Csv_Frame\<close> takes the header, drops
    leading index columns, reads pandas' NA spellings as NaN, infers numeric columns
    (\<open>parse_float\<close>) and checks the eight columns the import reads in the order of
    their first use in the module (\<open>frame_raw_rows\<close>), each failure the exception of that
    line; \<open>type\<close> is not read at import, and a table without it loads. Lemmas: the loop
    returns on texts without carriage returns, with the one-pass result (the termination
    argument is the simulation, since the loop moves backwards); writing then reading a
    table gives it back; records after the header have one length; a missing column the
    import reads makes the load fail.
  \<^item> \<^bold>\<open>Dataset loader\<close> (\<open>Release_Dates\<close>, \<open>Content_Table\<close>): lines
    12--14. A \<open>raw_row\<close> is one record of \<open>Csv_Frame\<close> with the date still text.
    \<open>load_rows\<close> applies the strict \<open>pd.to_datetime\<close> (an
    \<open>Inl (DateParseError s)\<close> on the first unreadable date, as the exception would
    stop the import) and derives \<open>year\<close>. Dates are read in ISO form inside pandas'
    Timestamp range; \<open>parse_show_iso_date\<close> is the round trip.
  \<^item> \<^bold>\<open>Group-by\<close> (\<open>Content_Table\<close>): pandas \<open>groupby\<close> with sorted keys and
    NaN keys dropped; the groups partition the keyed rows (\<open>groupby_partition\<close>).
  \<^item> \<^bold>\<open>Yearly tables, charts 1--6\<close> (\<open>Yearly_Metrics\<close>): the score trend, the
    high-quality share (score at least 7.5), production counts and scores by type, the two
    successive module-level \<open>df_stock\<close> tables (lines 124--125 and 185--196) and the
    price-change column that \<open>plot_stock_vs_releases\<close> writes into \<open>df_stock\<close>
    (lines 128--130). The lemmas give each chart's values exactly (the share of a year is
    its high-quality count over its title count), bound them, and show the two
    price-change formulas differ in the second year.

  \<^item> \<^bold>\<open>Volatility split, chart 7\<close> (\<open>Volatility\<close>): lines 255--281. The
    cohorts before 2010 and after 2015 (string comparisons read as 1 January), quarterly
    resampling by mean, \<open>fit_trendline\<close> as scikit-learn's least squares with its
    degenerate cases, and \<open>Series.corr\<close> as an optional Pearson coefficient. Lemmas: the
    normal equations of the fit, the correlation in [-1, 1], the quarterly resampling is
    the calendar grid of consecutive quarters, each row averaging exactly the titles of its
    calendar quarter.
  \<^item> \<^bold>\<open>Hit shows, charts 8--9\<close> (\<open>Hit_Shows\<close>): lines 331--337 and
    397--416. The hit filter, the jitter written into the global \<open>hit_shows\<close> (the
    random draws are a parameter, \<open>valid_draws\<close> says they lie in [-5, 5)), the
    day count of \<open>astype(np.int64)\<close> with its failure on a missing date, the smoothed
    yearly hit counts and the yearly median price. Lemmas: the day count steps by one per
    calendar day (\<open>epoch_day_next_day\<close>), a title released n days after 1 January
    1970 is plotted within 5 seconds of 86400 n, the smoothed counts are defined and at
    least 1.
  \<^item> \<^bold>\<open>String operations\<close> (\<open>Pandas_Strings\<close>): \<open>lower\<close>, literal
    \<open>replace\<close>, \<open>split(", ")\<close> and case-insensitive \<open>contains\<close> of the
    \<open>.str\<close> accessor; joining the pieces of a split gives the text back.
  \<^item> \<^bold>\<open>Genres, international content and countries, charts 10--12\<close>
    (\<open>Genre_Country\<close>): lines 479--603. The in-place rewrite of \<open>df\<close>, the
    per-(year, category) share tables, the top ten genres, the smoothed international share,
    the reindex over all (year, country) pairs and the filter of positive shares. Lemmas:
    the shares of a year add up to at most 1 (exactly 1 when no genre is cut), the
    international shares are in [0, 1], reindex-then-filter is a round trip, and the
    country filter of line 585 keeps a piece "Unknown" of a longer text.

  \<^item> \<^bold>\<open>Figures of the twelve charts\<close> (\<open>Figures\<close>): the \<open>plot_*\<close>
    functions (lines 17--121, 127--182, 198--253, 283--328, 334--393, 418--476, 498--527,
    539--582, 605--641) as records \<open>figure\<close>, \<open>trace\<close> and \<open>annotation\<close>
    holding the title, axis titles, trace names, modes and data columns, the secondary-axis
    range, the colour range and subplot titles, and, as nested property values
    (\<open>pval\<close>), every other keyword argument the code passes: line and marker styles,
    hover templates, legends, fonts, margins, the geo and colour-axis settings, and the
    marker sizes, colours and texts of chart 8 (\<open>hit_marker\<close>). \<open>update_layout\<close>
    and \<open>update_traces\<close> are plotly's recursive merge (\<open>pmerge\<close>, with the
    magic-underscore keys of \<open>magic\<close>); plotly express gives a trace the colour of its
    value in \<open>color_discrete_map\<close> or the next colour of its sequence
    (\<open>px_colors\<close>); chart 10 is \<open>px.area\<close>, stacked (\<open>stackgroup\<close>).
    \<open>plot_stock_vs_releases\<close> returns its figure with the rewritten
    \<open>df_stock\<close>, \<open>plot_impact_of_hit_shows_on_stock\<close> its figure with the
    jittered \<open>hit_shows\<close> (or the conversion error), so the writes to module globals are
    results. Python's \<open>:.2f\<close> format is \<open>format_2f\<close> (round half to even on the
    exact value, then decimal digits). Lemmas: the printed correlations read back within
    0.005 (\<open>format_2f_roundtrip\<close>); chart 6's secondary axis contains its values exactly
    when none is negative (\<open>stock_vs_quality_y2_visible\<close>, a flaw of line 227); the
    country map colours only values in its fixed range (0, 1]; every hit-show marker of
    chart 8 is at least 5 pixels (\<open>hit_marker_sizes\<close>); the genres of chart 10 get
    distinct colours (\<open>genre_trend_colors_distinct\<close>); charts 3 and 4 draw movies and
    shows in their mapped colours with the width that \<open>update_traces\<close> adds
    (\<open>type_trace_colors\<close>).
  \<^item> \<^bold>\<open>Module state and page\<close> (\<open>Dashboard\<close>): the module's globals as the
    record \<open>vis_state\<close>, built by \<open>module_init\<close> from the column names and the
    raw rows (the import:
    load, tables, the reload of lines 397--401 (\<open>reload_df\<close>), the rewrite of lines
    479--482). A plot call
    (\<open>plot_call\<close>, dispatched by name as \<open>getattr\<close> does) maps a state to a figure
    and the next state; \<open>plot_step\<close> and \<open>reachable\<close> are the step relation and its
    reflexive-transitive closure from the initial state, with the random draws of chart 8
    chosen at each step. \<open>app.py\<close> is \<open>page_loop\<close> over
    \<open>plot_functions_order\<close> (section headers, \<open>str.title\<close> of the name, the
    description looked up in \<open>chart_descriptions\<close>, the graph) and \<open>app_layout\<close>,
    which adds the background and the conclusion; Dash components are the datatype
    \<open>html\<close> and non-ASCII characters of the texts are their UTF-8 bytes. Lemmas: an
    invariant by rule induction over \<open>reachable\<close> (only \<open>df_stock\<close>'s price change
    and \<open>hit_shows\<close>' times ever change, and the price change is one of two columns);
    charts 1--4 do not see the rewrite of \<open>df\<close>; on the page chart 6 draws the price
    change chart 5 wrote; a hit show without date makes the page fail; every returned
    figure is well formed (each trace has as many x as y values, \<open>wf_figure\<close> of
    \<open>Figures\<close>). \<open>app_from_csv\<close> starts \<open>app.py\<close> from the text of the
    data file; a page comes only from a file with all nine columns; a file without
    \<open>type\<close> is imported, and the page then fails with the \<open>KeyError\<close> of chart 3.

  Not modelled: opening the file (\<open>DATA_PATH\<close>), which is I/O; the loop's result on
  texts with carriage returns, whose backtracking can return past a carriage return (the
  loop is defined there, but its termination is proved only without them); pandas' other
  column types (a column of \<open>True\<close>/\<open>False\<close> is boolean, an all-numeric text column
  is read as numbers, \<open>inf\<close> is a float), which the model reads as text or as an error;
  the defaults that plotly express adds by itself (generated hover templates, legend
  groups and titles, axis anchors, its top margin) and the drawing by plotly.js; the Dash
  server (\<open>app.run_server\<close>); the random jitter of chart 8 beyond its
  bound; floating-point rounding; pandas infinities (a division by zero is \<open>None\<close>,
  as NaN is).
\<close>

end
